theory Spec2Isabelle
  imports Main "HOL-Library.Sublist"
begin

section \<open>JavaScript strings\<close>

text \<open>
  A JavaScript string is modelled as a \<^typ>\<open>string\<close>: the list of its code units, each
  read as a Latin-1 character. \<open>null\<close> (and \<open>undefined\<close>) is \<open>None\<close> of
  \<^typ>\<open>string option\<close>. The library functions of \<open>String.prototype\<close> that the
  extension calls are written out below on that representation.
\<close>

definition truthy :: "string option \<Rightarrow> bool" where
  \<comment> \<open>\<open>!!v\<close> of a value that is a string or null: null and the empty string are falsy.\<close>
  "truthy v = (case v of None \<Rightarrow> False | Some s \<Rightarrow> s \<noteq> [])"

definition jsOr :: "string option \<Rightarrow> string option \<Rightarrow> string option" where
  \<comment> \<open>\<open>a || b\<close>: the left operand when it is truthy, the right operand otherwise.\<close>
  "jsOr a b = (if truthy a then a else b)"

definition isSpace :: "char \<Rightarrow> bool" where
  \<comment> \<open>The white space and line terminators of \<open>trim()\<close> and of the regular expression
      class \<open>\s\<close>, in Latin-1: TAB, LF, VT, FF, CR, SPACE, NBSP.\<close>
  "isSpace c = (c \<in> set [CHR 0x09, CHR 0x0A, CHR 0x0B, CHR 0x0C, CHR 0x0D, CHR 0x20, CHR 0xA0])"

definition trim :: "string \<Rightarrow> string" where
  "trim s = rev (dropWhile isSpace (rev (dropWhile isSpace s)))"

definition lowerChar :: "char \<Rightarrow> char" where
  \<comment> \<open>\<open>toLowerCase\<close> on one Latin-1 character: the letters A to Z, and the accented
      capitals 0xC0 to 0xDE (0xD7 is the multiplication sign), which lie 32 below their
      lower-case forms.\<close>
  "lowerChar c =
     (case map_of (zip ''ABCDEFGHIJKLMNOPQRSTUVWXYZ'' ''abcdefghijklmnopqrstuvwxyz'') c of
        Some d \<Rightarrow> d
      | None \<Rightarrow>
          (let n = (of_char c :: nat)
           in if 192 \<le> n \<and> n \<le> 222 \<and> n \<noteq> 215 then char_of (n + 32) else c))"

definition toLowerCase :: "string \<Rightarrow> string" where
  "toLowerCase s = map lowerChar s"

definition startsWith :: "string \<Rightarrow> string \<Rightarrow> bool" where
  "startsWith s p = prefix p s"

fun str_includes :: "string \<Rightarrow> string \<Rightarrow> bool" where
  \<comment> \<open>\<open>s.includes(t)\<close>: \<open>t\<close> occurs in \<open>s\<close> as a contiguous run.\<close>
  "str_includes [] t = (t = [])"
| "str_includes (c # s) t = (prefix t (c # s) \<or> str_includes s t)"

section \<open>Status classifier\<close>

text \<open>
  \<open>mapStatusToInt\<close> of the runtime variant (the top-level functions):
  \<^verbatim>\<open>
  function mapStatusToInt(statusText) {
    if (!statusText) return 5; // unknown
    const s = statusText.toLowerCase();
    if (s.includes("ongoing") || s.includes("updating") || s.includes("serial")) return 0;
    if (s.includes("complete") || s.includes("completed") || s.includes("finished")) return 1;
    if (s.includes("hiatus")) return 2;
    if (s.includes("canceled") || s.includes("cancelled")) return 3;
    if (s.includes("publishingfinished") || s.includes("publishing finished")) return 4;
    return 5; // unknown
  }
  \<close>
\<close>

definition mapStatusToInt :: "string option \<Rightarrow> int" where
  "mapStatusToInt statusText =
     (if \<not> truthy statusText then 5
      else let s = toLowerCase (the statusText)
           in if str_includes s ''ongoing'' \<or> str_includes s ''updating'' \<or> str_includes s ''serial'' then 0
              else if str_includes s ''complete'' \<or> str_includes s ''completed'' \<or> str_includes s ''finished'' then 1
              else if str_includes s ''hiatus'' then 2
              else if str_includes s ''canceled'' \<or> str_includes s ''cancelled'' then 3
              else if str_includes s ''publishingfinished'' \<or> str_includes s ''publishing finished'' then 4
              else 5)"

datatype status = Ongoing | Completed | Hiatus | Cancelled | PublishingFinished | Unknown

definition statusOfInt :: "int \<Rightarrow> status option" where
  \<comment> \<open>The runtime variant's encoding of the six states as the integers 0..5.\<close>
  "statusOfInt n =
     (if n = 0 then Some Ongoing else if n = 1 then Some Completed
      else if n = 2 then Some Hiatus else if n = 3 then Some Cancelled
      else if n = 4 then Some PublishingFinished else if n = 5 then Some Unknown
      else None)"

text \<open>
  A decision table in the sense of the specification (section 4.3): rows are tried in
  order, a row matches when the lower-cased input contains one of its substrings, the
  first matching row decides, and null, empty or unmatched input is \<open>Unknown\<close>.
\<close>

type_synonym decision_table = "(string list \<times> status) list"

fun firstMatch :: "decision_table \<Rightarrow> string \<Rightarrow> status" where
  "firstMatch [] s = Unknown"
| "firstMatch ((subs, st) # rows) s =
     (if list_ex (str_includes s) subs then st else firstMatch rows s)"

definition classifyByTable :: "decision_table \<Rightarrow> string option \<Rightarrow> status" where
  "classifyByTable tbl statusText =
     (case statusText of None \<Rightarrow> Unknown
      | Some t \<Rightarrow> if t = [] then Unknown else firstMatch tbl (toLowerCase t))"

definition specTable :: decision_table where
  \<comment> \<open>The table as the specification prints it.\<close>
  "specTable =
     [([''ongoing'', ''updating'', ''serial''], Ongoing),
      ([''complete'', ''completed'', ''finished''], Completed),
      ([''hiatus''], Hiatus),
      ([''cancel''], Cancelled),
      ([''publishing finished''], PublishingFinished)]"

definition codeTable :: decision_table where
  \<comment> \<open>The same table with the \<open>Cancelled\<close> row keyed on the two spellings the code tests.\<close>
  "codeTable =
     [([''ongoing'', ''updating'', ''serial''], Ongoing),
      ([''complete'', ''completed'', ''finished''], Completed),
      ([''hiatus''], Hiatus),
      ([''canceled'', ''cancelled''], Cancelled),
      ([''publishing finished''], PublishingFinished)]"

section \<open>The platform\<close>

text \<open>
  The extension runs on collaborators it does not define: the network client, the
  markup parser with its selector engine, the \<open>URL\<close> class and
  \<open>encodeURIComponent\<close>. They are parameters of the model, gathered in an
  environment. An operation that throws returns \<open>Inl\<close> of the error.
\<close>

datatype error =
  TypeError | NetworkError | HttpError nat "string option" | URIError | Error string

record response =
  res_ok :: bool
  res_status :: nat
  res_body :: string

text \<open>
  A parsed \<open>URL\<close> object, by what the code reads of it: \<open>toString()\<close>,
  \<open>search\<close>, \<open>searchParams.toString()\<close>, and \<open>toString()\<close> after the
  assignment \<open>search = ""\<close>.
\<close>

record url =
  url_href :: string
  url_search :: string
  url_searchParams :: string
  url_hrefNoSearch :: string

text \<open>
  A node of a parsed document, by what the code reads of it: its text
  (\<open>text\<close>, \<open>textContent\<close>), its attributes (\<open>attr\<close>, \<open>getAttribute\<close>) and,
  for every selector, the matching descendants in document order (\<open>select\<close>,
  \<open>querySelectorAll\<close>).
\<close>

datatype node =
  Node (nodeText: string) (nodeAttrs: "(string \<times> string) list") (nodeSelect: "string \<Rightarrow> node list")

record document =
  doc_root :: node
  doc_title :: string

record env =
  fetch :: "string option \<Rightarrow> error + response"
  parse :: "string \<Rightarrow> document"
  newURL :: "string \<Rightarrow> string option \<Rightarrow> error + url"
  encodeURIComponent :: "string \<Rightarrow> error + string"

definition select :: "node \<Rightarrow> string \<Rightarrow> node list" where
  "select n sel = nodeSelect n sel"

definition selectFirst :: "node \<Rightarrow> string \<Rightarrow> node option" where
  \<comment> \<open>\<open>selectFirst\<close>, \<open>querySelector\<close>: the first match, or null.\<close>
  "selectFirst n sel = (case nodeSelect n sel of [] \<Rightarrow> None | x # _ \<Rightarrow> Some x)"

fun selectFirstOf :: "node \<Rightarrow> string list \<Rightarrow> node option" where
  \<comment> \<open>\<open>n.selectFirst(s1) || n.selectFirst(s2) || ...\<close>\<close>
  "selectFirstOf n [] = None"
| "selectFirstOf n (sel # sels) =
     (case selectFirst n sel of Some x \<Rightarrow> Some x | None \<Rightarrow> selectFirstOf n sels)"

definition attr :: "node \<Rightarrow> string \<Rightarrow> string option" where
  "attr n a = map_of (nodeAttrs n) a"

definition request :: "env \<Rightarrow> string option \<Rightarrow> error + string" where
  \<comment> \<open>\<open>request\<close> of the class variant: \<open>fetch\<close>, then a throw unless \<open>res.ok\<close>.\<close>
  "request env u =
     (case fetch env u of
        Inl e \<Rightarrow> Inl e
      | Inr res \<Rightarrow> if \<not> res_ok res then Inl (HttpError (res_status res) u)
                  else Inr (res_body res))"

definition parseHTML :: "env \<Rightarrow> string \<Rightarrow> document" where
  "parseHTML env html = parse env html"

definition clientGet :: "env \<Rightarrow> string option \<Rightarrow> error + response" where
  \<comment> \<open>\<open>clientGet\<close> of the runtime variant: \<open>new Client().get(url, headers)\<close>.\<close>
  "clientGet env u = fetch env u"

section \<open>URL resolver and image URL normalizer\<close>

definition BASE :: string where
  "BASE = ''https://allnovel.org''"

text \<open>
  \<^verbatim>\<open>
  function toAbsolute(url) {
    if (!url) return null;
    try {
      return new URL(url, BASE).toString();
    } catch (e) {
      return url;
    }
  }
  \<close>
  The same text in both variants. The \<open>catch\<close> is the \<open>Inl\<close> branch.
\<close>

definition toAbsolute :: "env \<Rightarrow> string option \<Rightarrow> string option" where
  "toAbsolute env u =
     (if \<not> truthy u then None
      else case newURL env (the u) (Some BASE) of
             Inr parsed \<Rightarrow> Some (url_href parsed)
           | Inl e \<Rightarrow> u)"

definition toAbsolute_try :: "env \<Rightarrow> string option \<Rightarrow> error + string option" where
  \<comment> \<open>The same function with its exceptions written out: the \<open>try\<close> block ends in
      the constructor's exception or in the serialisation, and the handler answers every
      exception with the input.\<close>
  "toAbsolute_try env u =
     (if \<not> truthy u then Inr None
      else case (case newURL env (the u) (Some BASE) of
                   Inl e \<Rightarrow> Inl e
                 | Inr parsed \<Rightarrow> Inr (Some (url_href parsed))) of
             Inl e \<Rightarrow> Inr u
           | Inr v \<Rightarrow> Inr v)"

definition stripTrailingSlash :: "string \<Rightarrow> string" where
  \<comment> \<open>\<open>s.replace(/\/$/, "")\<close>\<close>
  "stripTrailingSlash s = (if s \<noteq> [] \<and> last s = CHR ''/'' then butlast s else s)"

text \<open>
  \<open>fixImageUrl\<close> of the runtime variant:
  \<^verbatim>\<open>
  function fixImageUrl(raw) {
    if (!raw) return null;
    let u = raw.trim();
    if (u.startsWith("//")) u = "https:" + u;
    if (u.startsWith("/")) u = BASE.replace(/\/$/, "") + u;
    try {
      const parsed = new URL(u);
      const q = parsed.search;
      if (q && q.length > 80) parsed.search = "";
      u = parsed.toString();
    } catch (e) {
      // ignore
    }
    return u;
  }
  \<close>
\<close>

definition fixImageUrl :: "env \<Rightarrow> string option \<Rightarrow> string option" where
  "fixImageUrl env raw =
     (if \<not> truthy raw then None
      else let u = trim (the raw);
               u = (if startsWith u ''//'' then ''https:'' @ u else u);
               u = (if startsWith u ''/'' then stripTrailingSlash BASE @ u else u)
           in case newURL env u None of
                Inr parsed \<Rightarrow>
                  (let q = url_search parsed
                   in if q \<noteq> [] \<and> length q > 80 then Some (url_hrefNoSearch parsed)
                      else Some (url_href parsed))
              | Inl e \<Rightarrow> Some u)"

text \<open>
  \<open>fixImageUrl\<close> of the class variant:
  \<^verbatim>\<open>
  function fixImageUrl(rawUrl) {
    if (!rawUrl) return null;
    let url = rawUrl.trim();
    url = url.replace(/^\/\/+/g, "https://");
    if (url.startsWith("/")) url = BASE.replace(/\/$/, "") + url;
    try {
      const u = new URL(url);
      const q = u.searchParams.toString();
      if (q.length > 40) {
        u.search = "";
        url = u.toString();
      } else {
        url = u.toString();
      }
    } catch (e) {
      // not a full URL - return as-is
    }
    return url;
  }
  \<close>
\<close>

definition ext_fixImageUrl :: "env \<Rightarrow> string option \<Rightarrow> string option" where
  "ext_fixImageUrl env rawUrl =
     (if \<not> truthy rawUrl then None
      else let u = trim (the rawUrl);
               u = (if startsWith u ''//''
                    then ''https://'' @ dropWhile (\<lambda>c. c = CHR ''/'') u else u);
               u = (if startsWith u ''/'' then stripTrailingSlash BASE @ u else u)
           in case newURL env u None of
                Inr parsed \<Rightarrow>
                  (if length (url_searchParams parsed) > 40 then Some (url_hrefNoSearch parsed)
                   else Some (url_href parsed))
              | Inl e \<Rightarrow> Some u)"

text \<open>
  What the normalizer relies on in the \<open>URL\<close> class: the serialisation of an
  address, parsed with or without a base, is a non-empty string without white space at
  its ends, it does not start with a slash, and it parses again to a URL with the same
  serialisation, the same query and the same serialisation without the query; after
  \<open>search = ""\<close> the query is empty.
\<close>

definition reparses :: "env \<Rightarrow> string \<Rightarrow> string \<Rightarrow> string \<Rightarrow> string \<Rightarrow> bool" where
  "reparses env h q sp hn =
     (h \<noteq> [] \<and> \<not> isSpace (hd h) \<and> \<not> isSpace (last h) \<and> hd h \<noteq> CHR ''/''
      \<and> (case newURL env h None of
            Inl e \<Rightarrow> False
          | Inr p \<Rightarrow> url_href p = h \<and> url_search p = q \<and> url_searchParams p = sp
                     \<and> url_hrefNoSearch p = hn))"

definition urlStable :: "env \<Rightarrow> bool" where
  "urlStable env =
     (\<forall>s b p. newURL env s b = Inr p \<longrightarrow>
        reparses env (url_href p) (url_search p) (url_searchParams p) (url_hrefNoSearch p)
        \<and> reparses env (url_hrefNoSearch p) [] [] (url_hrefNoSearch p))"

text \<open>
  What the resolver relies on in the \<open>URL\<close> class, from the URL Standard's parser:
  the base \<open>https://allnovel.org\<close> is a URL, serialised with the path \<open>/\<close>; against
  a base of scheme \<open>https\<close>, a reference that starts with two slashes is parsed as the
  absolute address made of \<open>https:\<close> and the reference; a reference that starts with
  one slash, followed by no slash, backslash, tab or line break, is parsed as the
  absolute address made of the base's scheme and authority and the reference; an address
  written with \<open>https://\<close> is serialised with \<open>https://\<close>; and an address written
  with the scheme and authority of a serialisation keeps them.
\<close>

definition pathStart :: "string \<Rightarrow> bool" where
  "pathStart r =
     (case r of
        [] \<Rightarrow> True
      | c # cs \<Rightarrow> c \<notin> {CHR ''/'', CHR 0x5C, CHR 0x09, CHR 0x0A, CHR 0x0D})"

definition rootOf :: "string \<Rightarrow> string" where
  \<comment> \<open>scheme, authority and the first slash of a serialised \<open>https\<close> address\<close>
  "rootOf h = ''https://'' @ takeWhile (\<lambda>c. c \<noteq> CHR ''/'') (drop 8 h) @ ''/''"

definition urlResolves :: "env \<Rightarrow> bool" where
  "urlResolves env =
     ((\<exists>pb. newURL env ''https://allnovel.org'' None = Inr pb
            \<and> url_href pb = ''https://allnovel.org/'')
      \<and> (\<forall>b pb r. newURL env b None = Inr pb \<longrightarrow> prefix ''https://'' (url_href pb) \<longrightarrow>
             newURL env (''//'' @ r) (Some b) = newURL env (''https://'' @ r) None)
      \<and> (\<forall>b pb r. newURL env b None = Inr pb \<longrightarrow> prefix ''https://'' (url_href pb) \<longrightarrow>
             pathStart r \<longrightarrow>
             newURL env (''/'' @ r) (Some b) = newURL env (rootOf (url_href pb) @ r) None)
      \<and> (\<forall>r p. newURL env (''https://'' @ r) None = Inr p \<longrightarrow>
             prefix ''https://'' (url_href p))
      \<and> (\<forall>b pb r p. newURL env b None = Inr pb \<longrightarrow> prefix ''https://'' (url_href pb) \<longrightarrow>
             newURL env (rootOf (url_href pb) @ r) None = Inr p \<longrightarrow>
             prefix (rootOf (url_href pb)) (url_href p)))"

section \<open>Text helpers\<close>

function collapseSpaces :: "string \<Rightarrow> string" where
  \<comment> \<open>\<open>t.replace(/\s+/g, " ")\<close>\<close>
  "collapseSpaces [] = []"
| "collapseSpaces (c # s) =
     (if isSpace c then CHR '' '' # collapseSpaces (dropWhile isSpace s)
      else c # collapseSpaces s)"
  by pat_completeness auto
termination
  by (relation "measure length") (auto simp: length_dropWhile_le less_Suc_eq_le)

definition cleanText :: "string option \<Rightarrow> string option" where
  \<comment> \<open>\<open>if (!t) return null; return t.replace(/\s+/g, " ").trim();\<close>\<close>
  "cleanText t = (if \<not> truthy t then None else Some (trim (collapseSpaces (the t))))"

fun removeFirstCI :: "string \<Rightarrow> (char \<Rightarrow> bool) \<Rightarrow> string \<Rightarrow> string" where
  \<comment> \<open>\<open>s.replace(/<word><class>*/i, "")\<close> for a lower-case \<open>word\<close> and a character
      class: the first occurrence of the word, in any letter case, is removed together
      with the run of class characters that follows it.\<close>
  "removeFirstCI w cls [] = []"
| "removeFirstCI w cls (c # s) =
     (if prefix w (toLowerCase (c # s)) then dropWhile cls (drop (length w) (c # s))
      else c # removeFirstCI w cls s)"

definition colonOrSpace :: "char \<Rightarrow> bool" where
  \<comment> \<open>the class \<open>[:\s]\<close>\<close>
  "colonOrSpace c = (c = CHR '':'' \<or> isSpace c)"

fun splitBy :: "(char \<Rightarrow> bool) \<Rightarrow> string \<Rightarrow> string list" where
  \<comment> \<open>the pieces of a string between separator characters\<close>
  "splitBy sep [] = [[]]"
| "splitBy sep (c # s) =
     (if sep c then [] # splitBy sep s
      else (case splitBy sep s of [] \<Rightarrow> [[c]] | w # ws \<Rightarrow> (c # w) # ws))"

definition splitOn :: "char \<Rightarrow> string \<Rightarrow> string list" where
  \<comment> \<open>\<open>s.split(",")\<close> for a one-character separator\<close>
  "splitOn d s = splitBy (\<lambda>c. c = d) s"

function showNat :: "nat \<Rightarrow> string" where
  \<comment> \<open>a page number in a template literal: its decimal digits\<close>
  "showNat n =
     (if n < 10 then [''0123456789'' ! n] else showNat (n div 10) @ [''0123456789'' ! (n mod 10)])"
  by pat_completeness auto
termination
  by (relation "measure id") auto

declare showNat.simps [simp del]

section \<open>Listing extraction, runtime variant\<close>

record item =
  it_url :: string
  it_name :: string
  it_link :: string
  it_cover :: "string option"
  it_author :: "string option"

record listing =
  l_list :: "item list"
  l_hasNextPage :: bool

definition srcOf :: "node \<Rightarrow> string option" where
  \<comment> \<open>\<open>img.attr("data-src") || img.attr("src") || img.attr("data-lazy-src")\<close>\<close>
  "srcOf img = jsOr (jsOr (attr img ''data-src'') (attr img ''src'')) (attr img ''data-lazy-src'')"

definition parseItem :: "env \<Rightarrow> node \<Rightarrow> item option" where
  \<comment> \<open>The body of the item loop of \<open>parseListFromDoc\<close>; \<open>None\<close> when nothing is pushed.\<close>
  "parseItem env node =
     (let a = selectFirstOf node [''h2 a'', ''.entry-title a'', ''a''];
          url = (case a of Some x \<Rightarrow> attr x ''href'' | None \<Rightarrow> None);
          url = (if \<not> truthy url
                 then (case selectFirst node ''a[href]'' of
                         Some linkEl \<Rightarrow> attr linkEl ''href'' | None \<Rightarrow> None)
                 else url);
          url = toAbsolute env url;
          name = (case a of Some x \<Rightarrow> cleanText (Some (nodeText x)) | None \<Rightarrow> None);
          name = (if \<not> truthy name
                  then (case selectFirstOf node [''h2'', ''.entry-title'', ''.title''] of
                          Some titleNode \<Rightarrow> cleanText (Some (nodeText titleNode))
                        | None \<Rightarrow> name)
                  else name);
          cover = (case selectFirstOf node [''img'', ''.thumb img''] of
                     Some imgEl \<Rightarrow> fixImageUrl env (srcOf imgEl) | None \<Rightarrow> None);
          author = (case selectFirstOf node [''.author'', ''.byline'', ''.entry-author''] of
                      Some authNode \<Rightarrow> cleanText (Some (nodeText authNode)) | None \<Rightarrow> None)
      in if truthy url \<and> truthy name
         then Some \<lparr>it_url = the url, it_name = the name, it_link = the url,
                     it_cover = cover, it_author = author\<rparr>
         else None)"

fun parseItems :: "env \<Rightarrow> node list \<Rightarrow> item list \<Rightarrow> item list" where
  "parseItems env [] out = out"
| "parseItems env (n # ns) out =
     parseItems env ns (case parseItem env n of Some it \<Rightarrow> out @ [it] | None \<Rightarrow> out)"

definition candidates :: "string list" where
  "candidates =
     [''article'', ''.post'', ''.novel-item'', ''.entry'', ''.post-item'', ''.list-item'',
      ''.novel-list li'']"

fun candidateLoop :: "env \<Rightarrow> node \<Rightarrow> string list \<Rightarrow> item list \<Rightarrow> item list" where
  \<comment> \<open>\<open>for (const sel of candidates)\<close>: \<open>continue\<close> on no nodes, \<open>break\<close> once
      \<open>out\<close> is not empty.\<close>
  "candidateLoop env doc [] out = out"
| "candidateLoop env doc (sel # sels) out =
     (let nodes = select doc sel
      in if nodes = [] then candidateLoop env doc sels out
         else let out' = parseItems env nodes out
              in if out' \<noteq> [] then out' else candidateLoop env doc sels out')"

fun anchorLoop :: "env \<Rightarrow> node list \<Rightarrow> string set \<Rightarrow> item list \<Rightarrow> item list" where
  \<comment> \<open>The final fallback over the anchors, with its \<open>seen\<close> set.\<close>
  "anchorLoop env [] seen out = out"
| "anchorLoop env (a # as) seen out =
     (let href = toAbsolute env (attr a ''href'');
          text = cleanText (Some (nodeText a))
      in if truthy href \<and> truthy text \<and> the href \<notin> seen
         then anchorLoop env as (insert (the href) seen)
                (out @ [\<lparr>it_url = the href, it_name = the text, it_link = the href,
                          it_cover = None, it_author = None\<rparr>])
         else anchorLoop env as seen out)"

definition parseListFromDoc :: "env \<Rightarrow> node \<Rightarrow> item list" where
  "parseListFromDoc env doc =
     (let out = candidateLoop env doc candidates []
      in if out = []
         then (let anchors = select doc ''a[href*='/novel/'], a[href*='/book/']''
               in if anchors \<noteq> [] then anchorLoop env anchors {} out else out)
         else out)"

definition hasNext :: "node \<Rightarrow> bool" where
  \<comment> \<open>\<open>!!(selectFirst(".nav-previous a") || selectFirst("a.next") || selectFirst(".older a"))\<close>\<close>
  "hasNext doc = (selectFirstOf doc [''.nav-previous a'', ''a.next'', ''.older a''] \<noteq> None)"

definition popularCandidates :: "nat \<Rightarrow> string list" where
  "popularCandidates page =
     [BASE @ ''/most-popular/?paged='' @ showNat page,
      BASE @ ''/hot/?paged='' @ showNat page,
      BASE @ ''/?paged='' @ showNat page]"

fun listingLoop :: "env \<Rightarrow> string list \<Rightarrow> listing" where
  \<comment> \<open>The candidate loop of \<open>getPopular\<close> and, after it, the fallback return;
      \<open>getLatestUpdates\<close> has the same loop, word for word, over its own candidates.\<close>
  "listingLoop env [] = \<lparr>l_list = [], l_hasNextPage = False\<rparr>"
| "listingLoop env (u # us) =
     (case clientGet env (Some u) of
        Inl e \<Rightarrow> listingLoop env us
      | Inr res \<Rightarrow>
          (let document = doc_root (parse env (res_body res));
               list = parseListFromDoc env document;
               hasNextPage = hasNext document
           in if list \<noteq> [] then \<lparr>l_list = list, l_hasNextPage = hasNextPage\<rparr>
              else listingLoop env us))"

definition getPopular :: "env \<Rightarrow> nat \<Rightarrow> error + listing" where
  "getPopular env page = Inr (listingLoop env (popularCandidates page))"

definition latestCandidates :: "nat \<Rightarrow> string list" where
  "latestCandidates page = [BASE @ ''/latest/?paged='' @ showNat page, BASE @ ''/?paged='' @ showNat page]"

definition getLatestUpdates :: "env \<Rightarrow> nat \<Rightarrow> error + listing" where
  "getLatestUpdates env page = Inr (listingLoop env (latestCandidates page))"

section \<open>Listing extraction, class variant\<close>

record ext_item =
  ei_name :: string
  ei_url :: string
  ei_cover :: "string option"
  ei_author :: "string option"

record ext_listing =
  el_results :: "ext_item list"
  el_hasMore :: bool

fun ext_candidateLoop :: "env \<Rightarrow> string \<Rightarrow> string list \<Rightarrow> document option \<Rightarrow> document option" where
  \<comment> \<open>\<open>for (const u of urlCandidates) { try { ... break; } catch (e) {} }\<close>: the value
      of \<open>doc\<close> after the loop, for the selector of the crude content check.\<close>
  "ext_candidateLoop env sel [] doc = doc"
| "ext_candidateLoop env sel (u # us) doc =
     (case request env (Some u) of
        Inl e \<Rightarrow> ext_candidateLoop env sel us doc
      | Inr html \<Rightarrow>
          (let d = parseHTML env html
           in if selectFirst (doc_root d) sel \<noteq> None then Some d
              else ext_candidateLoop env sel us (Some d)))"

definition ext_popularItem :: "env \<Rightarrow> node \<Rightarrow> ext_item option" where
  "ext_popularItem env el =
     (let a = selectFirst el ''h2 a, .entry-title a, a'';
          url = (case a of Some x \<Rightarrow> toAbsolute env (attr x ''href'') | None \<Rightarrow> None);
          name = (case a of Some x \<Rightarrow> Some (trim (nodeText x)) | None \<Rightarrow> None);
          img = (case selectFirst el ''img'' of
                   Some i \<Rightarrow> ext_fixImageUrl env (jsOr (jsOr (attr i ''data-src'') (attr i ''src'')) None)
                 | None \<Rightarrow> None);
          author = (case selectFirst el ''.author, .byline, .entry-author'' of
                      Some authorEl \<Rightarrow>
                        Some (trim (removeFirstCI ''by'' (\<lambda>c. False) (nodeText authorEl)))
                    | None \<Rightarrow> None)
      in if truthy url \<and> truthy name
         then Some \<lparr>ei_name = the name, ei_url = the url, ei_cover = img, ei_author = author\<rparr>
         else None)"

fun ext_popularItems :: "env \<Rightarrow> node list \<Rightarrow> ext_item list \<Rightarrow> ext_item list" where
  "ext_popularItems env [] list = list"
| "ext_popularItems env (el # els) list =
     ext_popularItems env els
       (case ext_popularItem env el of Some it \<Rightarrow> list @ [it] | None \<Rightarrow> list)"

fun dedupe :: "ext_item list \<Rightarrow> ext_item list \<Rightarrow> string set \<Rightarrow> ext_item list" where
  \<comment> \<open>\<open>for (const it of list) if (!seen.has(it.url)) { deduped.push(it); seen.add(it.url); }\<close>\<close>
  "dedupe [] deduped seen = deduped"
| "dedupe (it # its) deduped seen =
     (if ei_url it \<notin> seen then dedupe its (deduped @ [it]) (insert (ei_url it) seen)
      else dedupe its deduped seen)"

definition ext_urlCandidates :: "nat \<Rightarrow> string list" where
  "ext_urlCandidates page =
     [BASE @ ''/most-popular/?paged='' @ showNat page,
      BASE @ ''/hot/?paged='' @ showNat page,
      BASE @ ''/?paged='' @ showNat page]"

definition ext_getPopular :: "env \<Rightarrow> nat \<Rightarrow> error + ext_listing" where
  "ext_getPopular env page =
     (case ext_candidateLoop env ''article, .post, .novel-item, .entry'' (ext_urlCandidates page) None of
        None \<Rightarrow> Inl (Error ''Failed to fetch popular list'')
      | Some d \<Rightarrow>
          (let doc = doc_root d;
               list = ext_popularItems env (select doc ''.post, article, .novel-item, .entry'') [];
               deduped = dedupe list [] {}
           in Inr \<lparr>el_results = deduped,
                    el_hasMore = (selectFirst doc ''.nav-previous a, a.next, .older a'' \<noteq> None)\<rparr>))"

record ext_latest =
  elt_name :: string
  elt_url :: string
  elt_cover :: "string option"
  elt_date :: "string option"
  elt_summary :: "string option"

record ext_latest_listing =
  ell_results :: "ext_latest list"
  ell_hasMore :: bool

definition ext_latestItem :: "env \<Rightarrow> node \<Rightarrow> ext_latest option" where
  "ext_latestItem env el =
     (let a = selectFirst el ''h2 a, .entry-title a, a'';
          url = (case a of Some x \<Rightarrow> toAbsolute env (attr x ''href'') | None \<Rightarrow> None);
          name = (case a of Some x \<Rightarrow> Some (trim (nodeText x)) | None \<Rightarrow> None);
          img = (case selectFirst el ''img'' of
                   Some i \<Rightarrow> ext_fixImageUrl env (jsOr (jsOr (attr i ''data-src'') (attr i ''src'')) None)
                 | None \<Rightarrow> None);
          date = (case selectFirst el ''time'' of
                    Some metaTime \<Rightarrow> jsOr (attr metaTime ''datetime'') (Some (nodeText metaTime))
                  | None \<Rightarrow> None);
          summary = (case selectFirst el ''.excerpt, .entry-summary, p'' of
                       Some summaryEl \<Rightarrow> Some (trim (nodeText summaryEl)) | None \<Rightarrow> None)
      in if truthy url \<and> truthy name
         then Some \<lparr>elt_name = the name, elt_url = the url, elt_cover = img, elt_date = date,
                     elt_summary = summary\<rparr>
         else None)"

fun ext_latestItems :: "env \<Rightarrow> node list \<Rightarrow> ext_latest list \<Rightarrow> ext_latest list" where
  "ext_latestItems env [] results = results"
| "ext_latestItems env (el # els) results =
     ext_latestItems env els
       (case ext_latestItem env el of Some it \<Rightarrow> results @ [it] | None \<Rightarrow> results)"

definition ext_latestCandidates :: "nat \<Rightarrow> string list" where
  "ext_latestCandidates page =
     [BASE @ ''/latest/?paged='' @ showNat page, BASE @ ''/?paged='' @ showNat page]"

definition ext_getLatestUpdates :: "env \<Rightarrow> nat \<Rightarrow> error + ext_latest_listing" where
  "ext_getLatestUpdates env page =
     (case ext_candidateLoop env ''article, .post, .entry'' (ext_latestCandidates page) None of
        None \<Rightarrow> Inl (Error ''Failed to fetch latest updates'')
      | Some d \<Rightarrow>
          (let doc = doc_root d
           in Inr \<lparr>ell_results = ext_latestItems env (select doc ''article, .post, .entry'') [],
                    ell_hasMore = (selectFirst doc ''.nav-previous a, a.next, .older a'' \<noteq> None)\<rparr>))"

section \<open>Detail extraction, runtime variant\<close>

record chapter_ref =
  ch_name :: string
  ch_url :: "string option"
  ch_scanlator :: "string option"
  ch_dateUpload :: "string option"

record detail =
  d_title :: string
  d_url :: "string option"
  d_cover :: "string option"
  d_description :: string
  d_author :: string
  d_genre :: "string list"
  d_status :: int
  d_chapters :: "chapter_ref list"

definition orEmpty :: "string option \<Rightarrow> string" where
  \<comment> \<open>\<open>v || ""\<close>\<close>
  "orEmpty v = (if truthy v then the v else [])"

definition orArray :: "node list \<Rightarrow> node list \<Rightarrow> node list" where
  \<comment> \<open>\<open>a || b\<close> for arrays: an array is truthy, also when it is empty, so the left
      operand is the value.\<close>
  "orArray a b = a"

definition detailDescription :: "node \<Rightarrow> string option" where
  \<comment> \<open>\<open>const p = descEl.selectFirst("p") || descEl; description = cleanText(p.text)\<close>\<close>
  "detailDescription document =
     (case selectFirstOf document
             [''.entry-content'', ''.description'', ''.summary'', ''.post-content'',
              ''#content .post-content''] of
        Some descEl \<Rightarrow>
          (let p = (case selectFirst descEl ''p'' of Some x \<Rightarrow> x | None \<Rightarrow> descEl)
           in cleanText (Some (nodeText p)))
      | None \<Rightarrow> None)"

definition metaStep :: "node \<Rightarrow> string option \<times> int \<times> string list \<Rightarrow> string option \<times> int \<times> string list" where
  \<comment> \<open>One round of the loop over the metadata nodes, on the variables
      \<open>(author, statusInt, genres)\<close>. \<open>fullText\<close> is null for a node without text; a
      method call on it throws, and the \<open>catch\<close> of the round ignores that.\<close>
  "metaStep li st =
     (case st of (author, statusInt, genres) \<Rightarrow>
        (let text = toLowerCase (nodeText li);
             fullText = cleanText (Some (nodeText li))
         in if str_includes text ''author''
            then (case fullText of
                    None \<Rightarrow> st
                  | Some ft \<Rightarrow> (Some (trim (removeFirstCI ''author'' colonOrSpace ft)), statusInt, genres))
            else if str_includes text ''status''
            then (author, mapStatusToInt fullText, genres)
            else if str_includes text ''genre'' \<or> str_includes text ''category''
            then (case fullText of
                    None \<Rightarrow> st
                  | Some ft \<Rightarrow>
                      (let g = trim (removeFirstCI ''genre'' colonOrSpace ft)
                       in if g \<noteq> []
                          then (author, statusInt,
                                genres @ filter (\<lambda>gg. gg \<noteq> []) (map trim (splitOn CHR '','' g)))
                          else st))
            else st))"

definition detailMeta :: "node \<Rightarrow> string option \<times> int \<times> string list" where
  "detailMeta document =
     (let metaNodes =
            orArray (select document ''.post-meta li'')
              (orArray (select document ''.meta li'')
                (orArray (select document ''.entry-meta li'')
                  (orArray (select document ''.book-meta li'') (select document ''.novel-info li''))))
      in if metaNodes \<noteq> [] then fold metaStep metaNodes (None, 5, [])
         else (case selectFirstOf document [''a[rel*='author']'', ''.author a'', ''.by a''] of
                 Some aAuthor \<Rightarrow> (cleanText (Some (nodeText aAuthor)), 5, [])
               | None \<Rightarrow> (None, 5, [])))"

definition detailTags :: "node \<Rightarrow> string list \<Rightarrow> string list" where
  "detailTags document genres =
     (let tagEls =
            orArray (select document ''.tags a'')
              (orArray (select document ''.genres a'')
                (orArray (select document ''.post-categories a'') (select document ''.cat-links a'')))
      in genres @ map the (filter truthy (map (\<lambda>t. cleanText (Some (nodeText t))) tagEls)))"

definition chapterCandidates :: "string list" where
  "chapterCandidates =
     [''.chapter-list a'', ''.chapters a'', ''.toc a'', ''.chapter a'',
      ''.post-content a[href*='chapter']'', ''.entry-content a[href*='chapter']'',
      ''.entry-content a.chapter'', ''.table-of-content a'']"

fun pushChapters :: "env \<Rightarrow> node list \<Rightarrow> chapter_ref list \<Rightarrow> chapter_ref list" where
  "pushChapters env [] chapters = chapters"
| "pushChapters env (a # as) chapters =
     (let href = toAbsolute env (attr a ''href'');
          name = cleanText (Some (nodeText a))
      in pushChapters env as
           (if truthy href \<and> truthy name
            then chapters @ [\<lparr>ch_name = the name, ch_url = href, ch_scanlator = None,
                              ch_dateUpload = None\<rparr>]
            else chapters))"

fun chapterLoop :: "env \<Rightarrow> node \<Rightarrow> string list \<Rightarrow> chapter_ref list \<Rightarrow> chapter_ref list \<times> bool" where
  \<comment> \<open>The loop over \<open>chapterCandidates\<close>: the chapters and \<open>foundChapters\<close> after it.\<close>
  "chapterLoop env document [] chapters = (chapters, False)"
| "chapterLoop env document (sel # sels) chapters =
     (let els = select document sel
      in if els = [] then chapterLoop env document sels chapters
         else let chapters' = pushChapters env els chapters
              in if chapters' \<noteq> [] then (chapters', True)
                 else chapterLoop env document sels chapters')"

definition isTocText :: "string \<Rightarrow> bool" where
  "isTocText txt =
     (str_includes txt ''table of contents'' \<or> str_includes txt ''chapters''
      \<or> str_includes txt ''view all'')"

definition tocChapters :: "env \<Rightarrow> node \<Rightarrow> chapter_ref list \<Rightarrow> chapter_ref list" where
  \<comment> \<open>The fallback through a "table of contents" link; a failed fetch is caught.\<close>
  "tocChapters env document chapters =
     (case find (\<lambda>a. isTocText (toLowerCase (nodeText a))) (select document ''a'') of
        None \<Rightarrow> chapters
      | Some tocLink \<Rightarrow>
          (let tocUrl = toAbsolute env (attr tocLink ''href'')
           in if truthy tocUrl
              then (case clientGet env tocUrl of
                      Inl e \<Rightarrow> chapters
                    | Inr tocRes \<Rightarrow>
                        pushChapters env
                          (select (doc_root (parse env (res_body tocRes)))
                             ''a[href*='chapter'], .chapter-list a, .chapters a'')
                          chapters)
              else chapters))"

definition detailChapters :: "env \<Rightarrow> node \<Rightarrow> string option \<Rightarrow> chapter_ref list" where
  "detailChapters env document url =
     (let (chapters, foundChapters) = chapterLoop env document chapterCandidates [];
          chapters = (if \<not> foundChapters then tocChapters env document chapters else chapters)
      in if chapters = []
         then [\<lparr>ch_name = ''Chapter (single page)'', ch_url = url, ch_scanlator = None,
                 ch_dateUpload = None\<rparr>]
         else chapters)"

definition getDetail :: "env \<Rightarrow> string option \<Rightarrow> error + detail" where
  "getDetail env novelUrl =
     (let url = toAbsolute env novelUrl
      in case clientGet env url of
           Inl e \<Rightarrow> Inl e
         | Inr res \<Rightarrow>
             (let document = doc_root (parse env (res_body res));
                  title = (case selectFirstOf document
                                  [''h1.entry-title'', ''h1.title'', ''.post-title'', ''h1''] of
                             Some tEl \<Rightarrow> cleanText (Some (nodeText tEl)) | None \<Rightarrow> None);
                  cover = (case selectFirstOf document
                                  [''.post-thumbnail img'', ''.entry-media img'', ''.thumb img'',
                                   ''.wp-post-image'', ''.single-cover img''] of
                             Some coverEl \<Rightarrow> fixImageUrl env (srcOf coverEl) | None \<Rightarrow> None);
                  description = detailDescription document;
                  (author, statusInt, genres) = detailMeta document;
                  genres = detailTags document genres;
                  chapters = detailChapters env document url
              in Inr \<lparr>d_title = orEmpty title, d_url = url, d_cover = cover,
                       d_description = orEmpty description, d_author = orEmpty author,
                       d_genre = genres, d_status = statusInt, d_chapters = chapters\<rparr>))"

definition getChapterList :: "env \<Rightarrow> string option \<Rightarrow> error + chapter_ref list" where
  \<comment> \<open>\<open>return detail.chapters || []\<close>: the array is the value.\<close>
  "getChapterList env novelUrl =
     (case getDetail env novelUrl of Inl e \<Rightarrow> Inl e | Inr d \<Rightarrow> Inr (d_chapters d))"

section \<open>Detail extraction, class variant\<close>

record ext_chapter =
  ec_name :: string
  ec_url :: "string option"

record ext_detail =
  ed_name :: string
  ed_url :: "string option"
  ed_cover :: "string option"
  ed_author :: "string option"
  ed_status :: "string option"
  ed_summary :: "string option"
  ed_genres :: "string list"
  ed_chapters :: "ext_chapter list"

definition ext_metaStep :: "node \<Rightarrow> string option \<times> string option \<Rightarrow> string option \<times> string option" where
  \<comment> \<open>One round of \<open>metaNodes.forEach\<close>, on the variables \<open>(author, status)\<close>.\<close>
  "ext_metaStep li st =
     (case st of (author, status) \<Rightarrow>
        (let txt = toLowerCase (nodeText li)
         in if str_includes txt ''author''
            then (Some (trim (removeFirstCI ''author'' colonOrSpace (nodeText li))), status)
            else if str_includes txt ''status''
            then (let s = toLowerCase (trim (removeFirstCI ''status'' colonOrSpace (nodeText li)))
                  in if str_includes s ''ongoing'' \<or> str_includes s ''updating''
                        \<or> str_includes s ''serial''
                     then (author, Some ''Ongoing'')
                     else if str_includes s ''complete'' \<or> str_includes s ''completed''
                             \<or> str_includes s ''finished''
                     then (author, Some ''Completed'')
                     else (author, Some (trim (removeFirstCI ''status'' colonOrSpace (nodeText li)))))
            else st))"

definition ext_detailMeta :: "node \<Rightarrow> string option \<times> string option" where
  "ext_detailMeta doc =
     (let metaNodes =
            select doc ''.post-meta li, .meta li, .entry-meta li, .book-meta li, .novel-info li''
      in if metaNodes \<noteq> [] then fold ext_metaStep metaNodes (None, None)
         else (case selectFirst doc ''a[rel*='author'], .author a, .by a'' of
                 Some aAuthor \<Rightarrow> (Some (trim (nodeText aAuthor)), None)
               | None \<Rightarrow> (None, None)))"

definition ext_detailSummary :: "node \<Rightarrow> string option" where
  \<comment> \<open>The summary with its 400-character test on the first paragraph.\<close>
  "ext_detailSummary doc =
     (case selectFirst doc
             ''.entry-content, .description, .summary, .book-summary, #content .post-content, .post-content'' of
        None \<Rightarrow> None
      | Some descEl \<Rightarrow>
          (let summary = Some (trim (nodeText descEl))
           in case selectFirst descEl ''p'' of
                Some p \<Rightarrow> if length (trim (nodeText p)) < 400 then Some (trim (nodeText p))
                            else summary
              | None \<Rightarrow> summary))"

definition potentialContainers :: "string list" where
  "potentialContainers =
     [''.chapter-list a'', ''.chapters a'', ''.toc a'', ''.chapter a'',
      ''.post-content a[href*='/chapter-']'', ''.entry-content a[href*='/chapter-']'',
      ''.entry-content a.chapter'']"

fun ext_pushChapters :: "env \<Rightarrow> node list \<Rightarrow> ext_chapter list \<Rightarrow> ext_chapter list" where
  "ext_pushChapters env [] chapters = chapters"
| "ext_pushChapters env (a # as) chapters =
     (let href = toAbsolute env (attr a ''href'');
          title = trim (nodeText a)
      in ext_pushChapters env as
           (if truthy href \<and> title \<noteq> []
            then chapters @ [\<lparr>ec_name = title, ec_url = href\<rparr>]
            else chapters))"

fun ext_chapterLoop :: "env \<Rightarrow> node \<Rightarrow> string list \<Rightarrow> ext_chapter list \<Rightarrow> ext_chapter list \<times> bool" where
  "ext_chapterLoop env doc [] chapters = (chapters, False)"
| "ext_chapterLoop env doc (sel # sels) chapters =
     (let els = select doc sel
      in if els \<noteq> []
         then (let chapters' = ext_pushChapters env els chapters
               in if chapters' \<noteq> [] then (chapters', True)
                  else ext_chapterLoop env doc sels chapters')
         else ext_chapterLoop env doc sels chapters)"

definition ext_tocChapters :: "env \<Rightarrow> node \<Rightarrow> ext_chapter list \<Rightarrow> ext_chapter list" where
  "ext_tocChapters env doc chapters =
     (case find (\<lambda>a. isTocText (toLowerCase (nodeText a))) (select doc ''a'') of
        None \<Rightarrow> chapters
      | Some tocLink \<Rightarrow>
          (let tocUrl = toAbsolute env (attr tocLink ''href'')
           in case request env tocUrl of
                Inl e \<Rightarrow> chapters
              | Inr tocHtml \<Rightarrow>
                  ext_pushChapters env
                    (select (doc_root (parseHTML env tocHtml))
                       ''a[href*='chapter'], .chapter-list a, .chapters a'')
                    chapters))"

definition ext_detailChapters :: "env \<Rightarrow> node \<Rightarrow> string option \<Rightarrow> ext_chapter list" where
  "ext_detailChapters env doc url =
     (let (chapters, found) = ext_chapterLoop env doc potentialContainers [];
          chapters = (if \<not> found then ext_tocChapters env doc chapters else chapters)
      in if chapters = [] then [\<lparr>ec_name = ''Chapter (single page)'', ec_url = url\<rparr>]
         else chapters)"

definition ext_getDetail :: "env \<Rightarrow> string option \<Rightarrow> error + ext_detail" where
  "ext_getDetail env novelUrl =
     (let url = toAbsolute env novelUrl
      in case request env url of
           Inl e \<Rightarrow> Inl e
         | Inr html \<Rightarrow>
             (let d = parseHTML env html;
                  doc = doc_root d;
                  titleEl = (case selectFirst doc ''h1.entry-title, h1.title, .post-title'' of
                               Some t \<Rightarrow> Some t | None \<Rightarrow> selectFirst doc ''h1'');
                  name = (case titleEl of Some t \<Rightarrow> trim (nodeText t) | None \<Rightarrow> trim (doc_title d));
                  cover = (case selectFirst doc
                                  ''.post-thumbnail img, .entry-media img, .thumb img, .wp-post-image, .single-cover img'' of
                             Some coverEl \<Rightarrow> jsOr (jsOr (attr coverEl ''data-src'') (attr coverEl ''src'')) None
                           | None \<Rightarrow> None);
                  cover = ext_fixImageUrl env cover;
                  (author, status) = ext_detailMeta doc;
                  genres = filter (\<lambda>g. g \<noteq> [])
                             (map (\<lambda>t. trim (nodeText t))
                               (select doc ''.tags a, .genres a, .post-categories a, .cat-links a''));
                  summary = ext_detailSummary doc;
                  chapters = ext_detailChapters env doc url
              in Inr \<lparr>ed_name = name, ed_url = url, ed_cover = cover, ed_author = author,
                       ed_status = status, ed_summary = summary, ed_genres = genres,
                       ed_chapters = chapters\<rparr>))"

definition ext_getChapterList :: "env \<Rightarrow> string option \<Rightarrow> error + ext_chapter list" where
  "ext_getChapterList env novelUrl =
     (case ext_getDetail env novelUrl of Inl e \<Rightarrow> Inl e | Inr d \<Rightarrow> Inr (ed_chapters d))"

section \<open>Chapter pages, runtime variant\<close>

definition contentSelectors :: "string list" where
  "contentSelectors =
     [''.chapter-content'', ''.entry-content'', ''.post-content'', ''.single-post .content'',
      ''.reading-content'', ''#content'', ''.novel-body'', ''.post-body'']"

fun contentLoop :: "node \<Rightarrow> string list \<Rightarrow> node option" where
  \<comment> \<open>The first selector whose first match has text left after trimming.\<close>
  "contentLoop document [] = None"
| "contentLoop document (sel # sels) =
     (case selectFirst document sel of
        Some node \<Rightarrow> if length (trim (nodeText node)) > 0 then Some node
                      else contentLoop document sels
      | None \<Rightarrow> contentLoop document sels)"

definition contentNodeOf :: "node \<Rightarrow> node option" where
  "contentNodeOf document =
     (case contentLoop document contentSelectors of
        Some node \<Rightarrow> Some node
      | None \<Rightarrow> selectFirstOf document [''article'', ''.post''])"

definition imagePage :: "env \<Rightarrow> node \<Rightarrow> string option" where
  \<comment> \<open>\<open>src = toAbsolute(src); src = fixImageUrl(src)\<close> on the image's source attribute\<close>
  "imagePage env img = fixImageUrl env (toAbsolute env (srcOf img))"

definition paragraphPage :: "env \<Rightarrow> node \<Rightarrow> error + string" where
  \<comment> \<open>\<open>encodeURIComponent\<close> throws \<open>URIError\<close> on a string with a lone surrogate\<close>
  "paragraphPage env p =
     (case encodeURIComponent env (''<p>'' @ trim (nodeText p) @ ''</p>'') of
        Inl e \<Rightarrow> Inl e
      | Inr encoded \<Rightarrow> Inr (''data:text/html,'' @ encoded))"

fun paragraphLoop :: "env \<Rightarrow> node list \<Rightarrow> string list \<Rightarrow> error + string list" where
  \<comment> \<open>The loop over the paragraphs. Unlike the loop over the images it has no \<open>try\<close>:
      an exception in one round ends \<open>getPageList\<close>.\<close>
  "paragraphLoop env [] pages = Inr pages"
| "paragraphLoop env (p # ps) pages =
     (case paragraphPage env p of
        Inl e \<Rightarrow> Inl e
      | Inr page \<Rightarrow> paragraphLoop env ps (pages @ [page]))"

definition pagesOf :: "env \<Rightarrow> node option \<Rightarrow> error + string list" where
  \<comment> \<open>Each round of the loop over the images is a \<open>try\<close> block with an empty handler;
      nothing in it throws, \<open>toAbsolute\<close> and \<open>fixImageUrl\<close> catching what the \<open>URL\<close>
      constructor throws.\<close>
  "pagesOf env contentNode =
     (case contentNode of
        None \<Rightarrow> Inr []
      | Some c \<Rightarrow>
          (let imgs = select c ''img''
           in if imgs \<noteq> []
              then Inr (map the (filter truthy (map (imagePage env) imgs)))
              else paragraphLoop env (select c ''p'') []))"

definition getPageList :: "env \<Rightarrow> string option \<Rightarrow> error + string list" where
  "getPageList env chapterUrl =
     (let url = toAbsolute env chapterUrl
      in case clientGet env url of
           Inl e \<Rightarrow> Inl e
         | Inr res \<Rightarrow>
             (let document = doc_root (parse env (res_body res))
              in pagesOf env (contentNodeOf document)))"

section \<open>Content sanitizer, class variant\<close>

text \<open>
  \<open>cleanHtmlContent\<close> changes the document it has parsed, so here the document is a
  tree: an element with its tag name, its attributes and its child nodes, a text node or
  a comment. A \<open>template\<close> element is a node of its own kind: the parser puts what is
  written inside it into the element's content, a fragment apart from the document; the
  element has no child nodes, \<open>querySelectorAll\<close> does not look into the content, and
  \<open>innerHTML\<close> serialises it. The parser and the serialisation \<open>innerHTML\<close> stay
  parameters.
  \<^verbatim>\<open>
  cleanHtmlContent(rawHtml) {
    const doc = parseHTML(rawHtml);
    doc.querySelectorAll("script, style, iframe, noscript").forEach((n) => n.remove());
    doc.querySelectorAll(".ads, .advert, .share, .social, .related, .related-posts, .post-navigation, .nav-links").forEach((n) => n.remove());
    doc.querySelectorAll("*").forEach((el) => {
      Array.from(el.attributes || []).forEach((attr) => {
        if (/^on/i.test(attr.name)) el.removeAttribute(attr.name);
      });
    });
    return doc.body ? doc.body.innerHTML : rawHtml;
  }
  \<close>
\<close>

datatype html =
  Element (tagName: string) (attributes: "(string \<times> string) list") (childNodes: "html list")
| Template (templateAttributes: "(string \<times> string) list") (templateContent: "html list")
| Text string
| Comment string

record dom =
  dom_quirks :: bool
  dom_root :: "html option"

definition asciiLower :: "string \<Rightarrow> string" where
  "asciiLower s =
     map (\<lambda>c. case map_of (zip ''ABCDEFGHIJKLMNOPQRSTUVWXYZ'' ''abcdefghijklmnopqrstuvwxyz'') c of
                 Some d \<Rightarrow> d | None \<Rightarrow> c) s"

definition htmlSpace :: "char \<Rightarrow> bool" where
  \<comment> \<open>ASCII white space, which separates the tokens of a \<open>class\<close> attribute\<close>
  "htmlSpace c = (c \<in> set [CHR 0x09, CHR 0x0A, CHR 0x0C, CHR 0x0D, CHR 0x20])"

definition classTokens :: "string \<Rightarrow> string list" where
  "classTokens v = filter (\<lambda>w. w \<noteq> []) (splitBy htmlSpace v)"

fun hasTag :: "string \<Rightarrow> html \<Rightarrow> bool" where
  \<comment> \<open>the type selector \<open>t\<close>\<close>
  "hasTag t (Element tg as cs) = (tg = t)"
| "hasTag t (Template as cs) = (t = ''template'')"
| "hasTag t (Text s) = False"
| "hasTag t (Comment s) = False"

definition classMatches :: "bool \<Rightarrow> string \<Rightarrow> (string \<times> string) list \<Rightarrow> bool" where
  \<comment> \<open>in a quirks-mode document class names match without regard to ASCII letter case\<close>
  "classMatches q c as =
     (case map_of as ''class'' of
        None \<Rightarrow> False
      | Some v \<Rightarrow> if q then asciiLower c \<in> set (map asciiLower (classTokens v))
                  else c \<in> set (classTokens v))"

fun hasClass :: "bool \<Rightarrow> string \<Rightarrow> html \<Rightarrow> bool" where
  \<comment> \<open>the class selector \<open>.c\<close>\<close>
  "hasClass q c (Element tg as cs) = classMatches q c as"
| "hasClass q c (Template as cs) = classMatches q c as"
| "hasClass q c (Text s) = False"
| "hasClass q c (Comment s) = False"

definition isScriptLike :: "html \<Rightarrow> bool" where
  \<comment> \<open>matches \<open>script, style, iframe, noscript\<close>\<close>
  "isScriptLike n = list_ex (\<lambda>t. hasTag t n) [''script'', ''style'', ''iframe'', ''noscript'']"

definition isAdLike :: "bool \<Rightarrow> html \<Rightarrow> bool" where
  \<comment> \<open>matches \<open>.ads, .advert, .share, .social, .related, .related-posts,
      .post-navigation, .nav-links\<close>\<close>
  "isAdLike q n =
     list_ex (\<lambda>c. hasClass q c n)
       [''ads'', ''advert'', ''share'', ''social'', ''related'', ''related-posts'',
        ''post-navigation'', ''nav-links'']"

fun removeMatching :: "(html \<Rightarrow> bool) \<Rightarrow> html \<Rightarrow> html" where
  \<comment> \<open>a tree after \<open>remove()\<close> on each of its proper descendants that matches; the
      content of a template holds no descendant of the document\<close>
  "removeMatching P (Element tg as cs) =
     Element tg as (map (removeMatching P) (filter (\<lambda>c. \<not> P c) cs))"
| "removeMatching P (Template as cs) = Template as cs"
| "removeMatching P (Text s) = Text s"
| "removeMatching P (Comment s) = Comment s"

definition removeAll :: "(html \<Rightarrow> bool) \<Rightarrow> html option \<Rightarrow> html option" where
  \<comment> \<open>\<open>doc.querySelectorAll(sel).forEach((n) => n.remove())\<close> on the document element;
      a document element that matches is removed itself, and the document is left
      without one\<close>
  "removeAll P root =
     (case root of None \<Rightarrow> None
      | Some r \<Rightarrow> if P r then None else Some (removeMatching P r))"

definition isEventAttr :: "string \<Rightarrow> bool" where
  \<comment> \<open>\<open>/^on/i.test(name)\<close>\<close>
  "isEventAttr n =
     (case n of
        a # b # rest \<Rightarrow> (a = CHR ''o'' \<or> a = CHR ''O'') \<and> (b = CHR ''n'' \<or> b = CHR ''N'')
      | _ \<Rightarrow> False)"

fun stripEvents :: "html \<Rightarrow> html" where
  \<comment> \<open>\<open>querySelectorAll("*")\<close> reaches every element of the document, the template
      element among them, and nothing of a template's content\<close>
  "stripEvents (Element tg as cs) =
     Element tg (filter (\<lambda>(n, v). \<not> isEventAttr n) as) (map stripEvents cs)"
| "stripEvents (Template as cs) = Template (filter (\<lambda>(n, v). \<not> isEventAttr n) as) cs"
| "stripEvents (Text s) = Text s"
| "stripEvents (Comment s) = Comment s"

fun bodyOf :: "html option \<Rightarrow> html option" where
  \<comment> \<open>\<open>doc.body\<close>: the first \<open>body\<close> or \<open>frameset\<close> child of the \<open>html\<close> element\<close>
  "bodyOf (Some (Element tg as cs)) =
     (if tg = ''html'' then find (\<lambda>c. hasTag ''body'' c \<or> hasTag ''frameset'' c) cs else None)"
| "bodyOf _ = None"

fun innerNodes :: "html \<Rightarrow> html list" where
  \<comment> \<open>the nodes that \<open>innerHTML\<close> serialises\<close>
  "innerNodes (Element tg as cs) = cs"
| "innerNodes (Template as cs) = cs"
| "innerNodes (Text s) = []"
| "innerNodes (Comment s) = []"

definition cleanedDocument :: "dom \<Rightarrow> html option" where
  \<comment> \<open>the document element after the three passes\<close>
  "cleanedDocument doc =
     map_option stripEvents
       (removeAll (isAdLike (dom_quirks doc)) (removeAll isScriptLike (dom_root doc)))"

definition ext_cleanHtmlContent :: "(string \<Rightarrow> dom) \<Rightarrow> (html list \<Rightarrow> string) \<Rightarrow> string \<Rightarrow> string" where
  "ext_cleanHtmlContent parseDom innerHTML rawHtml =
     (case bodyOf (cleanedDocument (parseDom rawHtml)) of
        Some body \<Rightarrow> innerHTML (innerNodes body)
      | None \<Rightarrow> rawHtml)"

text \<open>
  What the parser makes of a fragment, the inner markup of a container: an \<open>html\<close>
  element without attributes, whose children are a \<open>head\<close> and a \<open>body\<close> without
  attributes. The fragment's nodes are the children of the body, but for leading
  \<open>script\<close>, \<open>style\<close> and the like, which the parser puts into the head.
\<close>

definition fragmentDocument :: "bool \<Rightarrow> html list \<Rightarrow> html list \<Rightarrow> dom" where
  "fragmentDocument q hs bs =
     \<lparr>dom_quirks = q,
      dom_root = Some (Element ''html'' [] [Element ''head'' [] hs, Element ''body'' [] bs])\<rparr>"

text \<open>The vocabulary of the sanitizer's properties.\<close>

fun nodesOf :: "html \<Rightarrow> html list" where
  \<comment> \<open>a node and its descendants in the document, in document order\<close>
  "nodesOf (Element tg as cs) = Element tg as cs # concat (map nodesOf cs)"
| "nodesOf (Template as cs) = [Template as cs]"
| "nodesOf (Text s) = [Text s]"
| "nodesOf (Comment s) = [Comment s]"

fun markupNodes :: "html \<Rightarrow> html list" where
  \<comment> \<open>the nodes written out in a node's markup: the node, its descendants and, for a
      template, the nodes of its content\<close>
  "markupNodes (Element tg as cs) = Element tg as cs # concat (map markupNodes cs)"
| "markupNodes (Template as cs) = Template as cs # concat (map markupNodes cs)"
| "markupNodes (Text s) = [Text s]"
| "markupNodes (Comment s) = [Comment s]"

fun kept :: "(html \<Rightarrow> bool) \<Rightarrow> html \<Rightarrow> html list" where
  \<comment> \<open>the nodes of a tree that lie in no subtree whose root matches\<close>
  "kept R (Element tg as cs) =
     (if R (Element tg as cs) then [] else Element tg as cs # concat (map (kept R) cs))"
| "kept R (Template as cs) = (if R (Template as cs) then [] else [Template as cs])"
| "kept R (Text s) = (if R (Text s) then [] else [Text s])"
| "kept R (Comment s) = (if R (Comment s) then [] else [Comment s])"

fun textContent :: "html \<Rightarrow> string" where
  "textContent (Element tg as cs) = concat (map textContent cs)"
| "textContent (Template as cs) = []"
| "textContent (Text s) = s"
| "textContent (Comment s) = []"

fun noEventAttr :: "html \<Rightarrow> bool" where
  "noEventAttr (Element tg as cs) = list_all (\<lambda>(n, v). \<not> isEventAttr n) as"
| "noEventAttr (Template as cs) = list_all (\<lambda>(n, v). \<not> isEventAttr n) as"
| "noEventAttr (Text s) = True"
| "noEventAttr (Comment s) = True"

definition removable :: "bool \<Rightarrow> html \<Rightarrow> bool" where
  "removable q n = (isScriptLike n \<or> isAdLike q n)"

definition cleanNode :: "bool \<Rightarrow> html \<Rightarrow> html" where
  \<comment> \<open>the three passes on a subtree whose root stays\<close>
  "cleanNode q n = stripEvents (removeMatching (isAdLike q) (removeMatching isScriptLike n))"

definition attrMarkup :: "(string \<times> string) list \<Rightarrow> string" where
  "attrMarkup as = concat (map (\<lambda>(n, v). '' '' @ n @ ''='' @ [CHR 0x22] @ v @ [CHR 0x22]) as)"

fun serialise :: "html \<Rightarrow> string" where
  \<comment> \<open>a plain serialisation, for the closed evaluations: no escaping, no void elements\<close>
  "serialise (Element tg as cs) =
     ''<'' @ tg @ attrMarkup as @ ''>'' @ concat (map serialise cs) @ ''</'' @ tg @ ''>''"
| "serialise (Template as cs) =
     ''<template'' @ attrMarkup as @ ''>'' @ concat (map serialise cs) @ ''</template>''"
| "serialise (Text s) = s"
| "serialise (Comment s) = ''<!--'' @ s @ ''-->''"

definition refInnerHTML :: "html list \<Rightarrow> string" where
  "refInnerHTML ns = concat (map serialise ns)"

definition refParseDom :: "(string \<times> html list) list \<Rightarrow> string \<Rightarrow> dom" where
  \<comment> \<open>a parser given as a table from the markup of fragments to their nodes; a document
      parsed from a string without a doctype is in quirks mode\<close>
  "refParseDom table raw =
     fragmentDocument True [] (case map_of table raw of Some ns \<Rightarrow> ns | None \<Rightarrow> [Text raw])"

definition sampleFragment :: "html list" where
  \<comment> \<open>a paragraph with a click handler, a script, and a share block\<close>
  "sampleFragment =
     [Element ''p'' [(''onclick'', ''go()''), (''id'', ''first'')]
        [Text ''Hello '', Element ''b'' [] [Text ''world'']],
      Element ''script'' [] [Text ''track()''],
      Element ''div'' [(''class'', ''box share'')] [Element ''p'' [] [Text ''Share this'']]]"

definition templateFragment :: "html list" where
  \<comment> \<open>a paragraph, and a template whose content holds a script and a paragraph with a
      click handler\<close>
  "templateFragment =
     [Element ''p'' [] [Text ''Keep''],
      Template []
        [Element ''script'' [] [Text ''track()''],
         Element ''p'' [(''onclick'', ''go()'')] [Text ''Hidden'']]]"

definition templateMarkup :: string where
  \<comment> \<open>the markup of that fragment\<close>
  "templateMarkup =
     ''<p>Keep</p><template><script>track()</script><p onclick='' @ [CHR 0x22] @ ''go()''
       @ [CHR 0x22] @ ''>Hidden</p></template>''"

section \<open>A reference environment\<close>

text \<open>
  A small concrete environment for the closed evaluations below. Its \<open>URL\<close> accepts
  only plain lower-case \<open>https\<close> addresses (a host of letters and dots, a path of
  letters, digits, \<open>/ - _ .\<close> without dot segments, no port, query or fragment), and
  references relative to such a base, where a backslash after a first slash is read as a
  second slash; on these it answers as the URL Standard does. Every other input is
  answered with \<open>TypeError\<close>. The network is a table from addresses to
  markup, the parser a table from markup to documents.
\<close>

definition hostChar :: "char \<Rightarrow> bool" where
  "hostChar c = (c \<in> set ''abcdefghijklmnopqrstuvwxyz.'')"

definition pathChar :: "char \<Rightarrow> bool" where
  "pathChar c = (c \<in> set ''abcdefghijklmnopqrstuvwxyz0123456789/-_.'')"

definition plainUrl :: "string \<Rightarrow> bool" where
  "plainUrl s =
     (prefix ''https://'' s \<and>
      (let r = drop 8 s;
           host = takeWhile (\<lambda>c. c \<noteq> CHR ''/'') r;
           path = dropWhile (\<lambda>c. c \<noteq> CHR ''/'') r
       in host \<noteq> [] \<and> list_all hostChar host \<and> list_all pathChar path
          \<and> \<not> str_includes path ''/.''))"

definition plainHref :: "string \<Rightarrow> string" where
  \<comment> \<open>an address without a path is serialised with the path \<open>/\<close>\<close>
  "plainHref s = (if dropWhile (\<lambda>c. c \<noteq> CHR ''/'') (drop 8 s) = [] then s @ ''/'' else s)"

definition plainParsed :: "string \<Rightarrow> url" where
  "plainParsed s =
     \<lparr>url_href = plainHref s, url_search = [], url_searchParams = [],
      url_hrefNoSearch = plainHref s\<rparr>"

definition refURL :: "string \<Rightarrow> string option \<Rightarrow> error + url" where
  "refURL s base =
     (if plainUrl s then Inr (plainParsed s)
      else case base of
             None \<Rightarrow> Inl TypeError
           | Some b \<Rightarrow>
               if \<not> plainUrl b then Inl TypeError
               else if s = [] then Inr (plainParsed b)
               else let origin = ''https://'' @ takeWhile (\<lambda>c. c \<noteq> CHR ''/'') (drop 8 b);
                        dir = rev (dropWhile (\<lambda>c. c \<noteq> CHR ''/'') (rev (plainHref b)));
                        cand = (if prefix ''//'' s \<or> prefix [CHR ''/'', CHR 0x5C] s
                                then ''https://'' @ drop 2 s
                                else if prefix ''/'' s then origin @ s
                                else dir @ s)
                    in if plainUrl cand then Inr (plainParsed cand) else Inl TypeError)"

definition hexDigit :: "nat \<Rightarrow> char" where
  "hexDigit n = ''0123456789ABCDEF'' ! n"

definition pctByte :: "nat \<Rightarrow> string" where
  "pctByte n = [CHR ''%'', hexDigit (n div 16), hexDigit (n mod 16)]"

definition unreservedChar :: "char \<Rightarrow> bool" where
  "unreservedChar c =
     (c \<in> set ''ABCDEFGHIJKLMNOPQRSTUVWXYZabcdefghijklmnopqrstuvwxyz0123456789-_.!~*()''
      \<or> c = CHR 0x27)"

definition refEncode :: "string \<Rightarrow> error + string" where
  \<comment> \<open>\<open>encodeURIComponent\<close> on Latin-1 code units: the UTF-8 bytes of every character
      outside the unreserved set, percent-encoded.\<close>
  "refEncode s =
     Inr (concat (map (\<lambda>c. let n = (of_char c :: nat)
                       in if unreservedChar c then [c]
                          else if n < 128 then pctByte n
                          else pctByte (192 + n div 64) @ pctByte (128 + n mod 64)) s))"

definition emptyNode :: node where
  "emptyNode = Node [] [] (\<lambda>sel. [])"

definition nodeOf :: "string \<Rightarrow> (string \<times> string) list \<Rightarrow> (string \<times> node list) list \<Rightarrow> node" where
  \<comment> \<open>a node given by its text, its attributes and a finite table of selector matches\<close>
  "nodeOf txt attrs tbl =
     Node txt attrs (\<lambda>sel. case map_of tbl sel of Some ns \<Rightarrow> ns | None \<Rightarrow> [])"

definition refEnv :: "(string \<times> string) list \<Rightarrow> (string \<times> document) list \<Rightarrow> env" where
  "refEnv net docs =
     \<lparr>fetch = (\<lambda>u. case u of
                     None \<Rightarrow> Inl NetworkError
                   | Some a \<Rightarrow> (case map_of net a of
                                  None \<Rightarrow> Inl NetworkError
                                | Some markup \<Rightarrow>
                                    Inr \<lparr>res_ok = True, res_status = 200, res_body = markup\<rparr>)),
      parse = (\<lambda>markup. case map_of docs markup of
                          None \<Rightarrow> \<lparr>doc_root = emptyNode, doc_title = []\<rparr>
                        | Some d \<Rightarrow> d),
      newURL = refURL,
      encodeURIComponent = refEncode\<rparr>"

definition workUrl :: string where
  "workUrl = ''https://allnovel.org/novel/a''"

definition pageEnv :: "node \<Rightarrow> env" where
  \<comment> \<open>the reference environment serving one document at \<open>workUrl\<close>\<close>
  "pageEnv root = refEnv [(workUrl, ''page'')] [(''page'', \<lparr>doc_root = root, doc_title = []\<rparr>)]"

definition longParagraph :: string where
  "longParagraph = replicate 400 CHR ''a''"

definition restOfPage :: string where
  "restOfPage = '' and the rest of the page''"

definition longDescriptionPage :: node where
  \<comment> \<open>a work page whose description container holds a first paragraph of 400
      characters, followed by more text\<close>
  "longDescriptionPage =
     (let descEl = nodeOf (longParagraph @ restOfPage) [] [(''p'', [nodeOf longParagraph [] []])]
      in nodeOf [] []
           [(''.entry-content'', [descEl]),
            (''.entry-content, .description, .summary, .book-summary, #content .post-content, .post-content'',
             [descEl])])"

definition statusPage :: "string \<Rightarrow> node" where
  \<comment> \<open>a work page whose metadata list \<open>.post-meta\<close> holds the one entry with the given
      text; the entry answers the runtime variant's selector and the class variant's
      selector list alike\<close>
  "statusPage entry =
     nodeOf [] []
       [(''.post-meta li'', [nodeOf entry [] []]),
        (''.post-meta li, .meta li, .entry-meta li, .book-meta li, .novel-info li'',
         [nodeOf entry [] []])]"

definition droppedStatusPage :: node where
  \<comment> \<open>a work page whose metadata list holds the one entry "Status: Dropped"\<close>
  "droppedStatusPage = statusPage ''Status: Dropped''"

definition completedStatusPage :: node where
  \<comment> \<open>a work page whose metadata list holds the one entry "Status: Completed"\<close>
  "completedStatusPage = statusPage ''Status: Completed''"

definition homeLinkPage :: node where
  \<comment> \<open>a work page whose only anchor is a link back to the front page\<close>
  "homeLinkPage = nodeOf ''A story'' [] [(''a'', [nodeOf ''Home'' [(''href'', ''/'')] []])]"

definition imageChapterPage :: node where
  \<comment> \<open>a chapter page whose content container holds two images, one with a lazy-load
      source\<close>
  "imageChapterPage =
     nodeOf [] []
       [(''.chapter-content'',
         [nodeOf ''Page 1 Page 2'' []
            [(''img'',
              [nodeOf [] [(''data-src'', ''/img/a.jpg'')] [],
               nodeOf [] [(''src'', ''//cdn.allnovel.org/b.jpg'')] []])]])]"

definition textChapterPage :: node where
  \<comment> \<open>a chapter page whose content container holds two paragraphs and no image\<close>
  "textChapterPage =
     nodeOf [] []
       [(''.chapter-content'',
         [nodeOf ''It rained. Then it stopped.'' []
            [(''p'', [nodeOf ''It rained.'' [] [], nodeOf '' Then it stopped. '' [] []])]])]"

definition storyCard :: node where
  \<comment> \<open>a listing card: a heading link to the work "A story"\<close>
  "storyCard =
     nodeOf ''A story'' []
       [(''h2 a'', [nodeOf ''A story'' [(''href'', ''/novel/a'')] []]),
        (''h2 a, .entry-title a, a'', [nodeOf ''A story'' [(''href'', ''/novel/a'')] []])]"

definition duplicateListingPage :: node where
  \<comment> \<open>a listing page that shows the same work in two cards\<close>
  "duplicateListingPage =
     nodeOf [] []
       [(''article'', [storyCard, storyCard]),
        (''article, .post, .novel-item, .entry'', [storyCard, storyCard]),
        (''.post, article, .novel-item, .entry'', [storyCard, storyCard])]"

definition listingEnv :: env where
  \<comment> \<open>the reference environment serving that page as the first popular candidate of
      page 1\<close>
  "listingEnv =
     refEnv [(''https://allnovel.org/most-popular/?paged=1'', ''listing'')]
       [(''listing'', \<lparr>doc_root = duplicateListingPage, doc_title = []\<rparr>)]"

definition closedStatusNames :: "string list" where
  "closedStatusNames =
     [''Ongoing'', ''Completed'', ''Hiatus'', ''Cancelled'', ''PublishingFinished'', ''Unknown'']"

definition rawStatus :: "node \<Rightarrow> string option" where
  \<comment> \<open>the class variant's last resort for a status entry: the entry's text without its
      label, trimmed\<close>
  "rawStatus li = Some (trim (removeFirstCI ''status'' colonOrSpace (nodeText li)))"

definition withoutLongQuery :: "url \<Rightarrow> string" where
  \<comment> \<open>the serialisation of an address, without its query when the query is longer than
      80 characters\<close>
  "withoutLongQuery p =
     (if url_search p \<noteq> [] \<and> 80 < length (url_search p) then url_hrefNoSearch p
      else url_href p)"

definition longQuery :: string where
  \<comment> \<open>a query of 87 characters\<close>
  "longQuery = ''?token='' @ replicate 80 (CHR ''a'')"

definition queryURL :: "string \<Rightarrow> string option \<Rightarrow> error + url" where
  \<comment> \<open>the \<open>URL\<close> class on the addresses of one image with a long query: the reference
      \<open>/img/c.jpg\<close> with the query against the base, the absolute address with the query,
      and the absolute address without it; every other input is answered with
      \<open>TypeError\<close>\<close>
  "queryURL s base =
     (if (s = ''/img/c.jpg'' @ longQuery \<and> base = Some ''https://allnovel.org'')
         \<or> (s = ''https://allnovel.org/img/c.jpg'' @ longQuery \<and> base = None)
      then Inr \<lparr>url_href = ''https://allnovel.org/img/c.jpg'' @ longQuery,
                url_search = longQuery, url_searchParams = drop 1 longQuery,
                url_hrefNoSearch = ''https://allnovel.org/img/c.jpg''\<rparr>
      else if s = ''https://allnovel.org/img/c.jpg'' \<and> base = None
      then Inr \<lparr>url_href = ''https://allnovel.org/img/c.jpg'', url_search = [],
                url_searchParams = [], url_hrefNoSearch = ''https://allnovel.org/img/c.jpg''\<rparr>
      else Inl TypeError)"

definition longQueryPage :: node where
  \<comment> \<open>a chapter page whose content container holds one image, its source carrying the
      long query, and one image without a source\<close>
  "longQueryPage =
     nodeOf [] []
       [(''.chapter-content'',
         [nodeOf ''Page 1'' []
            [(''img'', [nodeOf [] [(''src'', ''/img/c.jpg'' @ longQuery)] [],
                        nodeOf [] [(''alt'', ''spacer'')] []])]])]"

definition queryEnv :: env where
  "queryEnv = (pageEnv longQueryPage)\<lparr>newURL := queryURL\<rparr>"

definition candidateItems :: "env \<Rightarrow> string \<Rightarrow> item list option" where
  \<comment> \<open>what one candidate URL of a runtime listing operation yields: nothing when its
      fetch fails, the items parsed from its page otherwise\<close>
  "candidateItems env u =
     (case clientGet env (Some u) of
        Inl e \<Rightarrow> None
      | Inr res \<Rightarrow> Some (parseListFromDoc env (doc_root (parse env (res_body res)))))"

definition yieldsItems :: "env \<Rightarrow> string \<Rightarrow> bool" where
  "yieldsItems env u = (case candidateItems env u of None \<Rightarrow> False | Some items \<Rightarrow> items \<noteq> [])"

definition candidateListing :: "env \<Rightarrow> string \<Rightarrow> listing" where
  \<comment> \<open>the listing read from the page of one candidate URL\<close>
  "candidateListing env u =
     (case clientGet env (Some u) of
        Inl e \<Rightarrow> \<lparr>l_list = [], l_hasNextPage = False\<rparr>
      | Inr res \<Rightarrow>
          \<lparr>l_list = parseListFromDoc env (doc_root (parse env (res_body res))),
           l_hasNextPage = hasNext (doc_root (parse env (res_body res)))\<rparr>)"

definition blankListingEnv :: env where
  \<comment> \<open>the reference environment in which the first popular candidate of page 2 is
      served, as a page without any card or link, and every other address fails\<close>
  "blankListingEnv = refEnv [(''https://allnovel.org/most-popular/?paged=2'', ''blank'')] []"

definition isStatusEntry :: "node \<Rightarrow> bool" where
  \<comment> \<open>the entries of the metadata list that the loop reads as a status: the text
      mentions "status" and, the author test coming first, not "author"\<close>
  "isStatusEntry li =
     (str_includes (toLowerCase (nodeText li)) ''status''
      \<and> \<not> str_includes (toLowerCase (nodeText li)) ''author'')"

section \<open>Facts about strings\<close>

lemma str_includes_iff: "str_includes s t \<longleftrightarrow> (\<exists>a b. s = a @ t @ b)"
proof (induction s)
  case Nil
  then show ?case by auto
next
  case (Cons c s)
  show ?case
  proof
    assume "str_includes (c # s) t"
    then consider "prefix t (c # s)" | "str_includes s t" by auto
    then show "\<exists>a b. c # s = a @ t @ b"
    proof cases
      case 1
      then obtain b where "c # s = t @ b" by (auto simp: prefix_def)
      then have "c # s = [] @ t @ b" by simp
      then show ?thesis by blast
    next
      case 2
      then obtain a b where "s = a @ t @ b" using Cons.IH by auto
      then have "c # s = (c # a) @ t @ b" by simp
      then show ?thesis by blast
    qed
  next
    assume "\<exists>a b. c # s = a @ t @ b"
    then obtain a b where ab: "c # s = a @ t @ b" by auto
    show "str_includes (c # s) t"
    proof (cases a)
      case Nil
      then have "prefix t (c # s)" using ab by (simp add: prefix_def)
      then show ?thesis by simp
    next
      case (Cons x a')
      then have "s = a' @ t @ b" using ab by simp
      then have "str_includes s t" using Cons.IH by blast
      then show ?thesis by simp
    qed
  qed
qed

lemma str_includes_suffix_part: "str_includes s (p @ t) \<Longrightarrow> str_includes s t"
proof -
  assume "str_includes s (p @ t)"
  then obtain a b where "s = a @ (p @ t) @ b" by (auto simp: str_includes_iff)
  then have "s = (a @ p) @ t @ b" by simp
  then show ?thesis unfolding str_includes_iff by blast
qed

section \<open>Status classifier: results\<close>

lemma publishingfinished_has_finished:
  "str_includes s ''publishingfinished'' \<Longrightarrow> str_includes s ''finished''"
  using str_includes_suffix_part [of s "''publishing''" "''finished''"] by simp

lemma publishing_finished_has_finished:
  "str_includes s ''publishing finished'' \<Longrightarrow> str_includes s ''finished''"
  using str_includes_suffix_part [of s "''publishing ''" "''finished''"] by simp

text \<open>
  C1 (as amended). For every status label and for null, \<open>mapStatusToInt\<close> returns the
  state that the decision table gives with first match wins, substring-based matching on
  the lower-cased label, where the \<open>Cancelled\<close> row is keyed on "canceled" and
  "cancelled"; null, empty and unmatched input is \<open>Unknown\<close>.
\<close>

theorem mapStatusToInt_decision_table:
  "statusOfInt (mapStatusToInt statusText) = Some (classifyByTable codeTable statusText)"
proof (cases statusText)
  case None
  then show ?thesis
    by (simp add: mapStatusToInt_def classifyByTable_def truthy_def statusOfInt_def)
next
  case (Some t)
  show ?thesis
  proof (cases "t = []")
    case True
    then show ?thesis using Some
      by (simp add: mapStatusToInt_def classifyByTable_def truthy_def statusOfInt_def)
  next
    case False
    then show ?thesis
      using Some publishingfinished_has_finished [of "toLowerCase t"]
        publishing_finished_has_finished [of "toLowerCase t"]
      by (auto simp: mapStatusToInt_def classifyByTable_def truthy_def statusOfInt_def
          codeTable_def Let_def)
  qed
qed

text \<open>
  The claim as the specification states it keys the \<open>Cancelled\<close> row on "cancel": on the
  label "cancel" the table of the specification says \<open>Cancelled\<close>, the code returns 5
  (\<open>Unknown\<close>).
\<close>

theorem mapStatusToInt_cancel_counterexample:
  "statusOfInt (mapStatusToInt (Some ''cancel'')) = Some Unknown
   \<and> classifyByTable specTable (Some ''cancel'') = Cancelled"
  by (simp add: mapStatusToInt_def classifyByTable_def truthy_def statusOfInt_def
      specTable_def toLowerCase_def lowerChar_def Let_def)

section \<open>The reference environment: evaluation rules\<close>

lemma truthy_Some [simp]: "truthy (Some s) = (s \<noteq> [])"
  by (simp add: truthy_def)

lemma truthy_None [simp]: "truthy None = False"
  by (simp add: truthy_def)

lemma refEnv_newURL [simp]: "newURL (refEnv net docs) = refURL"
  by (simp add: refEnv_def)

lemma refEnv_encode [simp]: "encodeURIComponent (refEnv net docs) = refEncode"
  by (simp add: refEnv_def)

lemma refEnv_fetch [simp]:
  "fetch (refEnv net docs) (Some a) =
     (case map_of net a of None \<Rightarrow> Inl NetworkError
      | Some markup \<Rightarrow> Inr \<lparr>res_ok = True, res_status = 200, res_body = markup\<rparr>)"
  by (simp add: refEnv_def)

lemma refEnv_parse [simp]:
  "parse (refEnv net docs) markup =
     (case map_of docs markup of None \<Rightarrow> \<lparr>doc_root = emptyNode, doc_title = []\<rparr> | Some d \<Rightarrow> d)"
  by (simp add: refEnv_def)

lemma refURL_scheme_relative:
  "refURL ''//cdn.allnovel.org/a.jpg'' (Some ''https://allnovel.org'')
     = Inr (plainParsed ''https://cdn.allnovel.org/a.jpg'')"
  by (simp add: refURL_def plainUrl_def hostChar_def pathChar_def Let_def)

lemma refURL_root_relative:
  "refURL ''/novel/a'' (Some ''https://allnovel.org'')
     = Inr (plainParsed ''https://allnovel.org/novel/a'')"
  by (simp add: refURL_def plainUrl_def hostChar_def pathChar_def Let_def)

lemma refURL_no_host:
  "refURL ''https://'' (Some ''https://allnovel.org'') = Inl TypeError"
  by (simp add: refURL_def plainUrl_def hostChar_def pathChar_def plainHref_def Let_def)

section \<open>URL resolver: results\<close>

lemma toAbsolute_try_value: "toAbsolute_try env u = Inr (toAbsolute env u)"
  by (simp add: toAbsolute_try_def toAbsolute_def split: sum.splits)

lemma toAbsolute_scheme_relative:
  assumes "urlResolves env"
  shows "toAbsolute env (Some (''//'' @ r)) =
           (case newURL env (''https://'' @ r) None of
              Inr p \<Rightarrow> Some (url_href p)
            | Inl e \<Rightarrow> Some (''//'' @ r))"
proof -
  from assms obtain pb where pb: "newURL env ''https://allnovel.org'' None = Inr pb"
    and h: "url_href pb = ''https://allnovel.org/''"
    unfolding urlResolves_def by blast
  have "prefix ''https://'' (url_href pb)" by (simp add: h)
  with assms pb
  have "newURL env (''//'' @ r) (Some ''https://allnovel.org'') = newURL env (''https://'' @ r) None"
    unfolding urlResolves_def by blast
  then show ?thesis by (simp add: toAbsolute_def BASE_def split: sum.splits)
qed

lemma toAbsolute_root_relative:
  assumes "urlResolves env" and "pathStart r"
  shows "toAbsolute env (Some (''/'' @ r)) =
           (case newURL env (''https://allnovel.org/'' @ r) None of
              Inr p \<Rightarrow> Some (url_href p)
            | Inl e \<Rightarrow> Some (''/'' @ r))"
proof -
  from assms(1) obtain pb where pb: "newURL env ''https://allnovel.org'' None = Inr pb"
    and h: "url_href pb = ''https://allnovel.org/''"
    unfolding urlResolves_def by blast
  have pre: "prefix ''https://'' (url_href pb)" by (simp add: h)
  have root: "rootOf (url_href pb) = ''https://allnovel.org/''"
    by (simp add: h rootOf_def)
  from assms pb pre
  have "newURL env (''/'' @ r) (Some ''https://allnovel.org'')
          = newURL env (rootOf (url_href pb) @ r) None"
    unfolding urlResolves_def by blast
  then show ?thesis by (simp add: toAbsolute_def BASE_def root split: sum.splits)
qed

lemma https_kept:
  assumes "urlResolves env" and "newURL env (''https://'' @ r) None = Inr p"
  shows "prefix ''https://'' (url_href p)"
  using assms unfolding urlResolves_def by blast

lemma root_kept:
  assumes "urlResolves env" and "newURL env (''https://allnovel.org/'' @ r) None = Inr p"
  shows "prefix ''https://allnovel.org/'' (url_href p)"
proof -
  from assms(1) obtain pb where pb: "newURL env ''https://allnovel.org'' None = Inr pb"
    and h: "url_href pb = ''https://allnovel.org/''"
    unfolding urlResolves_def by blast
  have pre: "prefix ''https://'' (url_href pb)" by (simp add: h)
  have root: "rootOf (url_href pb) = ''https://allnovel.org/''"
    by (simp add: h rootOf_def)
  from assms(2) have "newURL env (rootOf (url_href pb) @ r) None = Inr p"
    by (simp add: root)
  with assms(1) pb pre have "prefix (rootOf (url_href pb)) (url_href p)"
    unfolding urlResolves_def by blast
  then show ?thesis by (simp add: root)
qed

lemma plainUrl_length: "plainUrl b \<Longrightarrow> 8 \<le> length b"
  by (auto simp: plainUrl_def prefix_def)

lemma plainHref_host:
  assumes "plainUrl b"
  shows "takeWhile (\<lambda>c. c \<noteq> CHR ''/'') (drop 8 (plainHref b))
           = takeWhile (\<lambda>c. c \<noteq> CHR ''/'') (drop 8 b)"
proof (cases "dropWhile (\<lambda>c. c \<noteq> CHR ''/'') (drop 8 b) = []")
  case True
  then have all: "\<forall>c \<in> set (drop 8 b). c \<noteq> CHR ''/''"
    unfolding dropWhile_eq_Nil_conv .
  have d: "drop 8 (b @ ''/'') = drop 8 b @ ''/''"
    using plainUrl_length [OF assms] by simp
  have t1: "takeWhile (\<lambda>c. c \<noteq> CHR ''/'') (drop 8 b) = drop 8 b"
    using all by (simp add: takeWhile_eq_all_conv)
  have t2: "takeWhile (\<lambda>c. c \<noteq> CHR ''/'') (drop 8 b @ ''/'') = drop 8 b"
    using all by (simp add: takeWhile_append2)
  have "plainHref b = b @ ''/''" using True by (simp add: plainHref_def)
  then show ?thesis by (simp only: d t1 t2)
next
  case False
  then show ?thesis by (simp add: plainHref_def)
qed

lemma refURL_plain: "refURL s None = (if plainUrl s then Inr (plainParsed s) else Inl TypeError)"
  by (simp add: refURL_def)

lemma refURL_resolves: "newURL env = refURL \<Longrightarrow> urlResolves env"
proof -
  assume e: "newURL env = refURL"
  have l0: "\<exists>pb. refURL ''https://allnovel.org'' None = Inr pb
              \<and> url_href pb = ''https://allnovel.org/''"
    by (simp add: refURL_def plainUrl_def hostChar_def pathChar_def plainParsed_def
        plainHref_def Let_def)
  have l1: "refURL (''//'' @ r) (Some b) = refURL (''https://'' @ r) None"
    if "refURL b None = Inr pb" for b pb r
  proof -
    from that have pb: "plainUrl b" by (cases "plainUrl b") (simp_all add: refURL_plain)
    have np: "\<not> plainUrl (''//'' @ r)" by (simp add: plainUrl_def)
    show ?thesis using pb np by (simp add: refURL_def Let_def)
  qed
  have l2: "refURL (''/'' @ r) (Some b) = refURL (rootOf (url_href pb) @ r) None"
    if "refURL b None = Inr pb" and "pathStart r" for b pb r
  proof -
    from that(1) have pb: "plainUrl b" and p: "pb = plainParsed b"
      by (cases "plainUrl b"; simp add: refURL_plain)+
    have np: "\<not> plainUrl (''/'' @ r)" by (simp add: plainUrl_def)
    have n2: "\<not> prefix ''//'' (''/'' @ r) \<and> \<not> prefix [CHR ''/'', CHR 0x5C] (''/'' @ r)"
      using that(2) by (cases r) (auto simp: pathStart_def)
    have root: "rootOf (url_href pb) @ r
                  = (''https://'' @ takeWhile (\<lambda>c. c \<noteq> CHR ''/'') (drop 8 b)) @ ''/'' @ r"
      using plainHref_host [OF pb] by (simp add: rootOf_def p plainParsed_def)
    show ?thesis using pb np n2 unfolding root by (simp add: refURL_def Let_def)
  qed
  have l3: "prefix ''https://'' (url_href p)" if "refURL (''https://'' @ r) None = Inr p" for r p
  proof -
    from that have "p = plainParsed (''https://'' @ r)"
      by (cases "plainUrl (''https://'' @ r)") (simp_all add: refURL_plain)
    then show ?thesis by (simp add: plainParsed_def plainHref_def)
  qed
  have l4: "prefix (rootOf h) (url_href p)" if "refURL (rootOf h @ r) None = Inr p" for h r p
  proof -
    from that have p: "p = plainParsed (rootOf h @ r)"
      by (cases "plainUrl (rootOf h @ r)") (simp_all add: refURL_plain)
    have "dropWhile (\<lambda>c. c \<noteq> CHR ''/'') (drop 8 (rootOf h @ r)) \<noteq> []"
      by (simp add: rootOf_def dropWhile_append)
    then have "plainHref (rootOf h @ r) = rootOf h @ r" by (simp add: plainHref_def)
    then show ?thesis by (simp add: p plainParsed_def)
  qed
  show ?thesis
    unfolding urlResolves_def e
    using l0 l1 l2 l3 l4 by blast
qed

text \<open>
  C6 (as amended). \<open>toAbsolute\<close> is total and best-effort. Its result is a string or
  null, never an exception: the one operation that can throw, the \<open>URL\<close> constructor,
  throws into the \<open>catch\<close>. Null and the empty string give null. An input that the
  constructor rejects relative to the fixed origin is returned unchanged. Every other
  input is resolved by the constructor against the base \<open>https://allnovel.org\<close>. With a
  \<open>URL\<close> class that follows the URL Standard, a value that starts with \<open>//\<close> is
  resolved as the address \<open>https:\<close> followed by the value, an address of scheme
  \<open>https\<close>, and is returned unchanged when that is no address; a value that starts with
  \<open>/\<close>, followed by no slash, backslash, tab or line break, is resolved as the address
  \<open>https://allnovel.org\<close> followed by the value, an address under the origin root.
\<close>

theorem toAbsolute_total_best_effort:
  "toAbsolute env None = None
   \<and> toAbsolute env (Some []) = None
   \<and> (u \<noteq> [] \<longrightarrow> newURL env u (Some ''https://allnovel.org'') = Inl e
        \<longrightarrow> toAbsolute env (Some u) = Some u)
   \<and> (u \<noteq> [] \<longrightarrow> newURL env u (Some ''https://allnovel.org'') = Inr parsed
        \<longrightarrow> toAbsolute env (Some u) = Some (url_href parsed))
   \<and> toAbsolute_try env x = Inr (toAbsolute env x)
   \<and> (urlResolves env \<longrightarrow>
        toAbsolute env (Some (''//'' @ r)) =
          (case newURL env (''https://'' @ r) None of
             Inr p \<Rightarrow> Some (url_href p)
           | Inl e \<Rightarrow> Some (''//'' @ r))
        \<and> (\<forall>p. newURL env (''https://'' @ r) None = Inr p \<longrightarrow>
              prefix ''https://'' (url_href p)))
   \<and> (urlResolves env \<longrightarrow> pathStart r \<longrightarrow>
        toAbsolute env (Some (''/'' @ r)) =
          (case newURL env (''https://allnovel.org/'' @ r) None of
             Inr p \<Rightarrow> Some (url_href p)
           | Inl e \<Rightarrow> Some (''/'' @ r))
        \<and> (\<forall>p. newURL env (''https://allnovel.org/'' @ r) None = Inr p \<longrightarrow>
              prefix ''https://allnovel.org/'' (url_href p)))"
proof (intro conjI impI allI)
  show "toAbsolute env None = None" by (simp add: toAbsolute_def)
  show "toAbsolute env (Some []) = None" by (simp add: toAbsolute_def)
  show "toAbsolute env (Some u) = Some u"
    if "u \<noteq> []" and "newURL env u (Some ''https://allnovel.org'') = Inl e"
    using that by (simp add: toAbsolute_def BASE_def)
  show "toAbsolute env (Some u) = Some (url_href parsed)"
    if "u \<noteq> []" and "newURL env u (Some ''https://allnovel.org'') = Inr parsed"
    using that by (simp add: toAbsolute_def BASE_def)
  show "toAbsolute_try env x = Inr (toAbsolute env x)" by (rule toAbsolute_try_value)
  show "toAbsolute env (Some (''//'' @ r)) =
          (case newURL env (''https://'' @ r) None of
             Inr p \<Rightarrow> Some (url_href p)
           | Inl e \<Rightarrow> Some (''//'' @ r))"
    if "urlResolves env"
    using that by (rule toAbsolute_scheme_relative)
  show "prefix ''https://'' (url_href p)"
    if "urlResolves env" and "newURL env (''https://'' @ r) None = Inr p" for p
    using that by (rule https_kept)
  show "toAbsolute env (Some (''/'' @ r)) =
          (case newURL env (''https://allnovel.org/'' @ r) None of
             Inr p \<Rightarrow> Some (url_href p)
           | Inl e \<Rightarrow> Some (''/'' @ r))"
    if "urlResolves env" and "pathStart r"
    using that by (rule toAbsolute_root_relative)
  show "prefix ''https://allnovel.org/'' (url_href p)"
    if "urlResolves env" and "pathStart r"
      and "newURL env (''https://allnovel.org/'' @ r) None = Inr p" for p
    using that(1,3) by (rule root_kept)
qed

text \<open>
  In the reference environment: \<open>https://\<close>, which has no host, is returned unchanged;
  \<open>//cdn.allnovel.org/a.jpg\<close> takes the scheme \<open>https\<close>; \<open>/novel/a\<close> is placed under
  the origin root; \<open>//\<close>, which has no host either, is returned unchanged.
\<close>

theorem toAbsolute_total_best_effort_witness:
  "toAbsolute (refEnv [] []) (Some ''https://'') = Some ''https://''
   \<and> toAbsolute (refEnv [] []) (Some ''//cdn.allnovel.org/a.jpg'')
       = Some ''https://cdn.allnovel.org/a.jpg''
   \<and> toAbsolute (refEnv [] []) (Some ''/novel/a'') = Some ''https://allnovel.org/novel/a''
   \<and> toAbsolute (refEnv [] []) (Some ''//'') = Some ''//''
   \<and> toAbsolute_try (refEnv [] []) (Some ''//'') = Inr (Some ''//'')"
proof -
  have res: "urlResolves (refEnv [] [])" by (rule refURL_resolves) simp
  have ps: "pathStart ''novel/a''" by (simp add: pathStart_def)
  have p1: "refURL ''https://cdn.allnovel.org/a.jpg'' None
              = Inr (plainParsed ''https://cdn.allnovel.org/a.jpg'')"
    by (simp add: refURL_def plainUrl_def hostChar_def pathChar_def Let_def)
  have p2: "refURL ''https://allnovel.org/novel/a'' None
              = Inr (plainParsed ''https://allnovel.org/novel/a'')"
    by (simp add: refURL_def plainUrl_def hostChar_def pathChar_def Let_def)
  have p3: "refURL ''https://'' None = Inl TypeError"
    by (simp add: refURL_def plainUrl_def)
  have a: "toAbsolute (refEnv [] []) (Some ''https://'') = Some ''https://''"
    using toAbsolute_total_best_effort [of "refEnv [] []" "''https://''" TypeError]
      refURL_no_host
    by simp
  have b: "toAbsolute (refEnv [] []) (Some ''//cdn.allnovel.org/a.jpg'')
       = Some ''https://cdn.allnovel.org/a.jpg''"
    using toAbsolute_total_best_effort [of "refEnv [] []" _ _ _ _ "''cdn.allnovel.org/a.jpg''"]
      res p1
    by (simp add: plainParsed_def plainHref_def)
  have c: "toAbsolute (refEnv [] []) (Some ''/novel/a'') = Some ''https://allnovel.org/novel/a''"
    using toAbsolute_total_best_effort [of "refEnv [] []" _ _ _ _ "''novel/a''"]
      res ps p2
    by (simp add: plainParsed_def plainHref_def)
  have d: "toAbsolute (refEnv [] []) (Some ''//'') = Some ''//''"
    using toAbsolute_total_best_effort [of "refEnv [] []" _ _ _ _ "[]"] res p3
    by simp
  have e: "toAbsolute_try (refEnv [] []) (Some ''//'') = Inr (Some ''//'')"
    using toAbsolute_total_best_effort [of "refEnv [] []" _ _ _ "Some ''//''"] d
    by simp
  from a b c d e show ?thesis by simp
qed

text \<open>
  The claim as stated fails for a value that starts with \<open>/\<close> and goes on with a
  backslash: the \<open>URL\<close> class reads the backslash as a second slash, and the value is
  resolved like one that starts with \<open>//\<close>, to another host and not under the origin
  root.
\<close>

theorem toAbsolute_backslash_counterexample:
  "toAbsolute (refEnv [] []) (Some [CHR ''/'', CHR 0x5C, CHR ''c'', CHR ''d'', CHR ''n'',
       CHR ''.'', CHR ''a'', CHR ''l'', CHR ''l'', CHR ''n'', CHR ''o'', CHR ''v'', CHR ''e'',
       CHR ''l'', CHR ''.'', CHR ''o'', CHR ''r'', CHR ''g'', CHR ''/'', CHR ''b''])
     = Some ''https://cdn.allnovel.org/b''
   \<and> \<not> prefix ''https://allnovel.org/'' ''https://cdn.allnovel.org/b''"
  by (simp add: toAbsolute_def BASE_def refURL_def plainUrl_def hostChar_def pathChar_def
      plainParsed_def plainHref_def Let_def)

lemma nodeOf_select [simp]:
  "select (nodeOf txt attrs tbl) sel = (case map_of tbl sel of Some ns \<Rightarrow> ns | None \<Rightarrow> [])"
  by (simp add: select_def nodeOf_def)

lemma nodeOf_selectFirst [simp]:
  "selectFirst (nodeOf txt attrs tbl) sel =
     (case map_of tbl sel of Some (n # ns) \<Rightarrow> Some n | _ \<Rightarrow> None)"
  by (simp add: selectFirst_def nodeOf_def split: option.splits list.splits)

lemma nodeOf_text [simp]: "nodeText (nodeOf txt attrs tbl) = txt"
  by (simp add: nodeOf_def)

lemma nodeOf_attr [simp]: "attr (nodeOf txt attrs tbl) a = map_of attrs a"
  by (simp add: attr_def nodeOf_def)

lemma plainUrl_workUrl: "plainUrl workUrl"
  by (simp add: plainUrl_def workUrl_def hostChar_def pathChar_def Let_def)

lemma pageEnv_toAbsolute [simp]: "toAbsolute (pageEnv r) (Some workUrl) = Some workUrl"
  using plainUrl_workUrl
  by (simp add: toAbsolute_def pageEnv_def refURL_def plainParsed_def plainHref_def)
     (simp add: workUrl_def)

lemma pageEnv_clientGet [simp]:
  "clientGet (pageEnv r) (Some workUrl) = Inr \<lparr>res_ok = True, res_status = 200, res_body = ''page''\<rparr>"
  by (simp add: clientGet_def pageEnv_def)

lemma pageEnv_request [simp]: "request (pageEnv r) (Some workUrl) = Inr ''page''"
  by (simp add: request_def pageEnv_def)

lemma pageEnv_parse [simp]: "parse (pageEnv r) ''page'' = \<lparr>doc_root = r, doc_title = []\<rparr>"
  by (simp add: pageEnv_def)

section \<open>Detail extraction: what \<open>getDetail\<close> returns\<close>

lemma getDetail_returns:
  "clientGet env (toAbsolute env novelUrl) = Inr res \<Longrightarrow>
   \<exists>d. getDetail env novelUrl = Inr d
     \<and> d_url d = toAbsolute env novelUrl
     \<and> d_status d = fst (snd (detailMeta (doc_root (parse env (res_body res)))))
     \<and> d_description d = orEmpty (detailDescription (doc_root (parse env (res_body res))))
     \<and> d_chapters d = detailChapters env (doc_root (parse env (res_body res))) (toAbsolute env novelUrl)"
  by (simp add: getDetail_def Let_def split: prod.splits)

lemma getDetail_Inr:
  "getDetail env novelUrl = Inr d \<Longrightarrow> \<exists>res. clientGet env (toAbsolute env novelUrl) = Inr res"
  by (auto simp: getDetail_def Let_def split: sum.splits)

lemma ext_getDetail_returns:
  "request env (toAbsolute env novelUrl) = Inr html \<Longrightarrow>
   \<exists>d. ext_getDetail env novelUrl = Inr d
     \<and> ed_url d = toAbsolute env novelUrl
     \<and> ed_status d = snd (ext_detailMeta (doc_root (parseHTML env html)))
     \<and> ed_summary d = ext_detailSummary (doc_root (parseHTML env html))
     \<and> ed_chapters d = ext_detailChapters env (doc_root (parseHTML env html)) (toAbsolute env novelUrl)"
  by (simp add: ext_getDetail_def Let_def split: prod.splits)

lemma ext_getDetail_Inr:
  "ext_getDetail env novelUrl = Inr d \<Longrightarrow> \<exists>html. request env (toAbsolute env novelUrl) = Inr html"
  by (auto simp: ext_getDetail_def Let_def split: sum.splits)

section \<open>Status of a work: results\<close>

lemma mapStatusToInt_range: "0 \<le> mapStatusToInt s \<and> mapStatusToInt s \<le> 5"
  by (simp add: mapStatusToInt_def Let_def)

lemma metaStep_range:
  "0 \<le> fst (snd st) \<and> fst (snd st) \<le> 5
   \<Longrightarrow> 0 \<le> fst (snd (metaStep li st)) \<and> fst (snd (metaStep li st)) \<le> 5"
  using mapStatusToInt_range
  by (cases st) (auto simp: metaStep_def Let_def split: option.splits)

lemma fold_metaStep_range:
  "0 \<le> fst (snd st) \<and> fst (snd st) \<le> 5
   \<Longrightarrow> 0 \<le> fst (snd (fold metaStep ns st)) \<and> fst (snd (fold metaStep ns st)) \<le> 5"
proof (induction ns arbitrary: st)
  case Nil
  then show ?case by simp
next
  case (Cons li ns)
  from Cons.prems have "0 \<le> fst (snd (metaStep li st)) \<and> fst (snd (metaStep li st)) \<le> 5"
    by (rule metaStep_range)
  then show ?case using Cons.IH by simp
qed

lemma detailMeta_range:
  "0 \<le> fst (snd (detailMeta document)) \<and> fst (snd (detailMeta document)) \<le> 5"
  using fold_metaStep_range [of "(None, 5, [])"]
  by (auto simp: detailMeta_def Let_def split: option.splits)

lemma ext_metaStep_status:
  "snd (ext_metaStep li st)
     \<in> {snd st, Some ''Ongoing'', Some ''Completed''} \<union> rawStatus ` set (filter isStatusEntry [li])"
  by (cases st) (simp add: ext_metaStep_def Let_def rawStatus_def isStatusEntry_def)

lemma fold_ext_metaStep_status:
  "snd (fold ext_metaStep ns st)
     \<in> {snd st, Some ''Ongoing'', Some ''Completed''} \<union> rawStatus ` set (filter isStatusEntry ns)"
proof (induction ns arbitrary: st)
  case Nil
  then show ?case by simp
next
  case (Cons li ns)
  have "snd (fold ext_metaStep ns (ext_metaStep li st))
     \<in> {snd (ext_metaStep li st), Some ''Ongoing'', Some ''Completed''}
         \<union> rawStatus ` set (filter isStatusEntry ns)"
    by (rule Cons.IH)
  then show ?case using ext_metaStep_status [of li st] by auto
qed

lemma ext_detailMeta_status:
  "snd (ext_detailMeta doc)
     \<in> {None, Some ''Ongoing'', Some ''Completed''}
       \<union> rawStatus ` set (filter isStatusEntry
            (select doc ''.post-meta li, .meta li, .entry-meta li, .book-meta li, .novel-info li''))"
  using fold_ext_metaStep_status [of _ "(None, None)"]
  by (auto simp: ext_detailMeta_def Let_def split: option.splits)

lemma select_statusPage [simp]:
  "select (statusPage entry) ''.post-meta li'' = [nodeOf entry [] []]"
  "select (statusPage entry)
     ''.post-meta li, .meta li, .entry-meta li, .book-meta li, .novel-info li''
     = [nodeOf entry [] []]"
  by (simp_all add: statusPage_def)

lemma detailMeta_statusPage:
  "fst (snd (detailMeta (statusPage entry)))
     = fst (snd (metaStep (nodeOf entry [] []) (None, 5, [])))"
  by (simp add: detailMeta_def orArray_def Let_def)

lemma cleanText_status_dropped: "cleanText (Some ''Status: Dropped'') = Some ''Status: Dropped''"
  by (simp add: cleanText_def trim_def isSpace_def)

lemma cleanText_status_completed:
  "cleanText (Some ''Status: Completed'') = Some ''Status: Completed''"
  by (simp add: cleanText_def trim_def isSpace_def)

lemma detailMeta_droppedStatusPage:
  "fst (snd (detailMeta droppedStatusPage)) = mapStatusToInt (Some ''Status: Dropped'')"
  by (simp add: droppedStatusPage_def detailMeta_statusPage metaStep_def Let_def
      cleanText_status_dropped toLowerCase_def lowerChar_def)

lemma detailMeta_completedStatusPage:
  "fst (snd (detailMeta completedStatusPage)) = mapStatusToInt (Some ''Status: Completed'')"
  by (simp add: completedStatusPage_def detailMeta_statusPage metaStep_def Let_def
      cleanText_status_completed toLowerCase_def lowerChar_def)

lemma mapStatusToInt_status_dropped: "mapStatusToInt (Some ''Status: Dropped'') = 5"
  by (simp add: mapStatusToInt_def Let_def toLowerCase_def lowerChar_def trim_def isSpace_def)

lemma mapStatusToInt_status_completed: "mapStatusToInt (Some ''Status: Completed'') = 1"
  by (simp add: mapStatusToInt_def Let_def toLowerCase_def lowerChar_def trim_def isSpace_def)

lemma ext_detailMeta_droppedStatusPage:
  "snd (ext_detailMeta droppedStatusPage) = Some ''Dropped''"
  by (simp add: droppedStatusPage_def ext_detailMeta_def ext_metaStep_def toLowerCase_def
      lowerChar_def trim_def isSpace_def colonOrSpace_def Let_def)

lemma ext_detailMeta_completedStatusPage:
  "snd (ext_detailMeta completedStatusPage) = Some ''Completed''"
  by (simp add: completedStatusPage_def ext_detailMeta_def ext_metaStep_def toLowerCase_def
      lowerChar_def trim_def isSpace_def colonOrSpace_def Let_def)

text \<open>
  C2 (as amended). Whenever the page of the work is fetched, \<open>getDetail\<close> of the runtime
  variant returns a record whose status is one of the integers 0 to 5, the six closed
  states. \<open>getDetail\<close> of the class variant returns a record whose status is null,
  "Ongoing", "Completed", or the text of a status entry of the metadata list without its
  label: raw text of the site.
\<close>

theorem getDetail_status_values:
  "(clientGet env (toAbsolute env novelUrl) = Inr res \<longrightarrow>
      (\<exists>d. getDetail env novelUrl = Inr d \<and> d_status d \<in> {0, 1, 2, 3, 4, 5}))
   \<and> (request env (toAbsolute env novelUrl) = Inr html \<longrightarrow>
      (\<exists>d. ext_getDetail env novelUrl = Inr d
         \<and> ed_status d \<in> {None, Some ''Ongoing'', Some ''Completed''}
              \<union> rawStatus ` set (filter isStatusEntry (select (doc_root (parseHTML env html))
                   ''.post-meta li, .meta li, .entry-meta li, .book-meta li, .novel-info li''))))"
proof (intro conjI impI)
  assume "clientGet env (toAbsolute env novelUrl) = Inr res"
  then obtain d where d: "getDetail env novelUrl = Inr d"
    and st: "d_status d = fst (snd (detailMeta (doc_root (parse env (res_body res)))))"
    using getDetail_returns by blast
  have "0 \<le> d_status d \<and> d_status d \<le> 5"
    using detailMeta_range st by simp
  then have "d_status d \<in> {0, 1, 2, 3, 4, 5}" by auto
  then show "\<exists>d. getDetail env novelUrl = Inr d \<and> d_status d \<in> {0, 1, 2, 3, 4, 5}"
    using d by blast
next
  assume "request env (toAbsolute env novelUrl) = Inr html"
  then obtain d where d: "ext_getDetail env novelUrl = Inr d"
    and st: "ed_status d = snd (ext_detailMeta (doc_root (parseHTML env html)))"
    using ext_getDetail_returns by blast
  show "\<exists>d. ext_getDetail env novelUrl = Inr d
         \<and> ed_status d \<in> {None, Some ''Ongoing'', Some ''Completed''}
              \<union> rawStatus ` set (filter isStatusEntry (select (doc_root (parseHTML env html))
                   ''.post-meta li, .meta li, .entry-meta li, .book-meta li, .novel-info li''))"
    using d st ext_detailMeta_status by metis
qed

text \<open>
  On a page whose metadata list holds "Status: Completed" the runtime variant classifies
  the entry as 1 and the class variant as "Completed"; on a page that holds
  "Status: Dropped" the runtime variant classifies the entry as 5, Unknown, and the class
  variant returns the entry's own text.
\<close>

theorem getDetail_status_values_witness:
  "(\<exists>d. getDetail (pageEnv completedStatusPage) (Some workUrl) = Inr d
         \<and> d_status d \<in> {0, 1, 2, 3, 4, 5}
         \<and> d_status d = mapStatusToInt (Some ''Status: Completed'') \<and> d_status d = 1)
   \<and> (\<exists>d. getDetail (pageEnv droppedStatusPage) (Some workUrl) = Inr d
         \<and> d_status d \<in> {0, 1, 2, 3, 4, 5}
         \<and> d_status d = mapStatusToInt (Some ''Status: Dropped'') \<and> d_status d = 5)
   \<and> (\<exists>d. ext_getDetail (pageEnv completedStatusPage) (Some workUrl) = Inr d
         \<and> ed_status d \<in> {None, Some ''Ongoing'', Some ''Completed''}
              \<union> rawStatus ` set (filter isStatusEntry (select completedStatusPage
                   ''.post-meta li, .meta li, .entry-meta li, .book-meta li, .novel-info li''))
         \<and> ed_status d = Some ''Completed'')
   \<and> (\<exists>d. ext_getDetail (pageEnv droppedStatusPage) (Some workUrl) = Inr d
         \<and> ed_status d \<in> {None, Some ''Ongoing'', Some ''Completed''}
              \<union> rawStatus ` set (filter isStatusEntry (select droppedStatusPage
                   ''.post-meta li, .meta li, .entry-meta li, .book-meta li, .novel-info li''))
         \<and> ed_status d = Some ''Dropped''
         \<and> filter isStatusEntry (select droppedStatusPage
              ''.post-meta li, .meta li, .entry-meta li, .book-meta li, .novel-info li'')
            = [nodeOf ''Status: Dropped'' [] []])"
proof -
  let ?res = "\<lparr>res_ok = True, res_status = 200, res_body = ''page''\<rparr>"
  have c: "clientGet (pageEnv p) (toAbsolute (pageEnv p) (Some workUrl)) = Inr ?res" for p
    by simp
  have r: "request (pageEnv p) (toAbsolute (pageEnv p) (Some workUrl)) = Inr ''page''" for p
    by simp
  have entry: "filter isStatusEntry (select droppedStatusPage
              ''.post-meta li, .meta li, .entry-meta li, .book-meta li, .novel-info li'')
            = [nodeOf ''Status: Dropped'' [] []]"
    by (simp add: droppedStatusPage_def isStatusEntry_def toLowerCase_def lowerChar_def)
  from getDetail_status_values [of "pageEnv completedStatusPage" "Some workUrl" ?res "''page''"]
    getDetail_returns [OF c [of completedStatusPage]]
  have 1: "\<exists>d. getDetail (pageEnv completedStatusPage) (Some workUrl) = Inr d
         \<and> d_status d \<in> {0, 1, 2, 3, 4, 5}
         \<and> d_status d = mapStatusToInt (Some ''Status: Completed'') \<and> d_status d = 1"
    using detailMeta_completedStatusPage mapStatusToInt_status_completed by auto
  from getDetail_status_values [of "pageEnv droppedStatusPage" "Some workUrl" ?res "''page''"]
    getDetail_returns [OF c [of droppedStatusPage]]
  have 2: "\<exists>d. getDetail (pageEnv droppedStatusPage) (Some workUrl) = Inr d
         \<and> d_status d \<in> {0, 1, 2, 3, 4, 5}
         \<and> d_status d = mapStatusToInt (Some ''Status: Dropped'') \<and> d_status d = 5"
    using detailMeta_droppedStatusPage mapStatusToInt_status_dropped by auto
  from getDetail_status_values [of "pageEnv completedStatusPage" "Some workUrl" ?res "''page''"]
    ext_getDetail_returns [OF r [of completedStatusPage]]
  have 3: "\<exists>d. ext_getDetail (pageEnv completedStatusPage) (Some workUrl) = Inr d
         \<and> ed_status d \<in> {None, Some ''Ongoing'', Some ''Completed''}
              \<union> rawStatus ` set (filter isStatusEntry (select completedStatusPage
                   ''.post-meta li, .meta li, .entry-meta li, .book-meta li, .novel-info li''))
         \<and> ed_status d = Some ''Completed''"
    using ext_detailMeta_completedStatusPage by (auto simp: parseHTML_def)
  from getDetail_status_values [of "pageEnv droppedStatusPage" "Some workUrl" ?res "''page''"]
    ext_getDetail_returns [OF r [of droppedStatusPage]]
  have 4: "\<exists>d. ext_getDetail (pageEnv droppedStatusPage) (Some workUrl) = Inr d
         \<and> ed_status d \<in> {None, Some ''Ongoing'', Some ''Completed''}
              \<union> rawStatus ` set (filter isStatusEntry (select droppedStatusPage
                   ''.post-meta li, .meta li, .entry-meta li, .book-meta li, .novel-info li''))
         \<and> ed_status d = Some ''Dropped''
         \<and> filter isStatusEntry (select droppedStatusPage
              ''.post-meta li, .meta li, .entry-meta li, .book-meta li, .novel-info li'')
            = [nodeOf ''Status: Dropped'' [] []]"
    using ext_detailMeta_droppedStatusPage entry by (auto simp: parseHTML_def)
  from 1 2 3 4 show ?thesis by (intro conjI)
qed

text \<open>
  The claim as stated fails on the class variant: on a page whose metadata list holds
  "Status: Dropped", its \<open>getDetail\<close> returns the status "Dropped", which is none of the
  six closed values.
\<close>

theorem getDetail_raw_status_counterexample:
  "map_sum id ed_status (ext_getDetail (pageEnv droppedStatusPage) (Some workUrl))
     = Inr (Some ''Dropped'')
   \<and> ''Dropped'' \<notin> set closedStatusNames"
  by (simp add: ext_getDetail_def parseHTML_def ext_detailMeta_def droppedStatusPage_def
      statusPage_def ext_metaStep_def toLowerCase_def lowerChar_def trim_def isSpace_def
      colonOrSpace_def closedStatusNames_def Let_def split: prod.splits)

section \<open>Description of a work: results\<close>

lemma collapseSpaces_plain: "\<forall>c \<in> set s. \<not> isSpace c \<Longrightarrow> collapseSpaces s = s"
  by (induction s) auto

lemma trim_plain: "\<forall>c \<in> set s. \<not> isSpace c \<Longrightarrow> trim s = s"
proof -
  assume a: "\<forall>c \<in> set s. \<not> isSpace c"
  then have "dropWhile isSpace s = s" by (cases s) auto
  moreover from a have "dropWhile isSpace (rev s) = rev s" by (cases "rev s") auto
  ultimately show ?thesis by (simp add: trim_def)
qed

lemma cleanText_plain:
  "s \<noteq> [] \<Longrightarrow> \<forall>c \<in> set s. \<not> isSpace c \<Longrightarrow> cleanText (Some s) = Some s"
  by (simp add: cleanText_def collapseSpaces_plain trim_plain)

lemma longParagraph_plain: "\<forall>c \<in> set longParagraph. \<not> isSpace c"
  by (simp add: longParagraph_def isSpace_def)

lemma longParagraph_nonempty: "longParagraph \<noteq> []"
  by (simp add: longParagraph_def)

lemma longParagraph_length: "length longParagraph = 400"
  by (simp add: longParagraph_def)

text \<open>
  C4 (as amended). For every fetched document whose description container is found and
  has a first paragraph: the class variant returns as summary the paragraph's trimmed
  text when that is shorter than 400 characters, and the container's trimmed text
  otherwise; the runtime variant returns as description the paragraph's text,
  white space collapsed and trimmed, whatever its length.
\<close>

theorem description_first_paragraph:
  "(request env (toAbsolute env novelUrl) = Inr html \<longrightarrow>
    selectFirst (doc_root (parseHTML env html))
      ''.entry-content, .description, .summary, .book-summary, #content .post-content, .post-content''
      = Some descEl \<longrightarrow>
    selectFirst descEl ''p'' = Some p \<longrightarrow>
      (\<exists>d. ext_getDetail env novelUrl = Inr d
         \<and> ed_summary d = Some (if length (trim (nodeText p)) < 400 then trim (nodeText p)
                                 else trim (nodeText descEl))))
   \<and> (clientGet env (toAbsolute env novelUrl) = Inr res \<longrightarrow>
    selectFirstOf (doc_root (parse env (res_body res)))
      [''.entry-content'', ''.description'', ''.summary'', ''.post-content'',
       ''#content .post-content''] = Some descEl' \<longrightarrow>
    selectFirst descEl' ''p'' = Some p' \<longrightarrow>
      (\<exists>d. getDetail env novelUrl = Inr d
         \<and> d_description d = orEmpty (cleanText (Some (nodeText p')))))"
proof (intro conjI impI)
  assume "request env (toAbsolute env novelUrl) = Inr html"
    and sel: "selectFirst (doc_root (parseHTML env html))
      ''.entry-content, .description, .summary, .book-summary, #content .post-content, .post-content''
      = Some descEl"
    and p: "selectFirst descEl ''p'' = Some p"
  then obtain d where d: "ext_getDetail env novelUrl = Inr d"
    and s: "ed_summary d = ext_detailSummary (doc_root (parseHTML env html))"
    using ext_getDetail_returns by blast
  have "ed_summary d = Some (if length (trim (nodeText p)) < 400 then trim (nodeText p)
                              else trim (nodeText descEl))"
    using s sel p by (simp add: ext_detailSummary_def)
  then show "\<exists>d. ext_getDetail env novelUrl = Inr d
         \<and> ed_summary d = Some (if length (trim (nodeText p)) < 400 then trim (nodeText p)
                                 else trim (nodeText descEl))"
    using d by blast
next
  assume "clientGet env (toAbsolute env novelUrl) = Inr res"
    and sel: "selectFirstOf (doc_root (parse env (res_body res)))
      [''.entry-content'', ''.description'', ''.summary'', ''.post-content'',
       ''#content .post-content''] = Some descEl'"
    and p: "selectFirst descEl' ''p'' = Some p'"
  then obtain d where d: "getDetail env novelUrl = Inr d"
    and s: "d_description d = orEmpty (detailDescription (doc_root (parse env (res_body res))))"
    using getDetail_returns by blast
  have "d_description d = orEmpty (cleanText (Some (nodeText p')))"
    using s sel p by (simp add: detailDescription_def)
  then show "\<exists>d. getDetail env novelUrl = Inr d
         \<and> d_description d = orEmpty (cleanText (Some (nodeText p')))"
    using d by blast
qed

lemma trim_ends: "s \<noteq> [] \<Longrightarrow> \<not> isSpace (hd s) \<Longrightarrow> \<not> isSpace (last s) \<Longrightarrow> trim s = s"
proof -
  assume a: "s \<noteq> []" "\<not> isSpace (hd s)" "\<not> isSpace (last s)"
  then have "dropWhile isSpace s = s" by (cases s) auto
  moreover from a have "dropWhile isSpace (rev s) = rev s"
    by (cases "rev s") (auto simp: last_rev [symmetric] simp del: last_rev)
  ultimately show ?thesis by (simp add: trim_def)
qed

lemma trim_long_container: "trim (longParagraph @ restOfPage) = longParagraph @ restOfPage"
  by (rule trim_ends) (simp_all add: longParagraph_def restOfPage_def isSpace_def)

lemma cleanText_longParagraph: "cleanText (Some longParagraph) = Some longParagraph"
  using longParagraph_plain by (intro cleanText_plain) (simp_all add: longParagraph_def)

theorem description_first_paragraph_witness:
  "(\<exists>d. ext_getDetail (pageEnv longDescriptionPage) (Some workUrl) = Inr d
      \<and> ed_summary d = Some (longParagraph @ restOfPage))
   \<and> (\<exists>d. getDetail (pageEnv longDescriptionPage) (Some workUrl) = Inr d
      \<and> d_description d = longParagraph)"
  using description_first_paragraph [of "pageEnv longDescriptionPage" "Some workUrl" "''page''"
      "nodeOf (longParagraph @ restOfPage) [] [(''p'', [nodeOf longParagraph [] []])]"
      "nodeOf longParagraph [] []"
      "\<lparr>res_ok = True, res_status = 200, res_body = ''page''\<rparr>"
      "nodeOf (longParagraph @ restOfPage) [] [(''p'', [nodeOf longParagraph [] []])]"
      "nodeOf longParagraph [] []"]
    trim_long_container cleanText_longParagraph longParagraph_plain longParagraph_length
    longParagraph_nonempty
  by (simp add: parseHTML_def longDescriptionPage_def Let_def trim_plain orEmpty_def)

text \<open>
  The claim as stated fails on the runtime variant, which has no threshold: for a first
  paragraph of 400 characters in a container with more text, the description is the
  paragraph, not the container's text.
\<close>

theorem description_threshold_counterexample:
  "map_sum id d_description (getDetail (pageEnv longDescriptionPage) (Some workUrl))
     = Inr longParagraph
   \<and> length (trim longParagraph) = 400
   \<and> trim (longParagraph @ restOfPage) \<noteq> longParagraph"
proof -
  obtain d where d: "getDetail (pageEnv longDescriptionPage) (Some workUrl) = Inr d"
    and s: "d_description d = orEmpty (detailDescription longDescriptionPage)"
    using getDetail_returns [of "pageEnv longDescriptionPage" "Some workUrl"
        "\<lparr>res_ok = True, res_status = 200, res_body = ''page''\<rparr>"]
    by auto
  have "detailDescription longDescriptionPage = Some longParagraph"
    using cleanText_longParagraph
    by (simp add: detailDescription_def longDescriptionPage_def Let_def)
  then have "d_description d = longParagraph"
    using s longParagraph_nonempty by (simp add: orEmpty_def)
  moreover have "length (trim longParagraph) = 400"
    using longParagraph_plain longParagraph_length by (simp add: trim_plain)
  moreover have "restOfPage \<noteq> []"
    by (simp add: restOfPage_def)
  then have "trim (longParagraph @ restOfPage) \<noteq> longParagraph"
    by (simp add: trim_long_container)
  ultimately show ?thesis using d by simp
qed

section \<open>Chapter discovery: results\<close>

lemma chapterLoop_no_match:
  "\<forall>sel \<in> set sels. select document sel = [] \<Longrightarrow>
   chapterLoop env document sels chapters = (chapters, False)"
  by (induction sels) (simp_all add: Let_def)

lemma ext_chapterLoop_no_match:
  "\<forall>sel \<in> set sels. select doc sel = [] \<Longrightarrow>
   ext_chapterLoop env doc sels chapters = (chapters, False)"
  by (induction sels) (simp_all add: Let_def)

lemma find_no_toc:
  "\<forall>a \<in> set as. \<not> isTocText (toLowerCase (nodeText a)) \<Longrightarrow>
   find (\<lambda>a. isTocText (toLowerCase (nodeText a))) as = None"
  by (simp add: find_None_iff)

lemma detailChapters_single:
  "\<forall>sel \<in> set chapterCandidates. select document sel = [] \<Longrightarrow>
   \<forall>a \<in> set (select document ''a''). \<not> isTocText (toLowerCase (nodeText a)) \<Longrightarrow>
   detailChapters env document url =
     [\<lparr>ch_name = ''Chapter (single page)'', ch_url = url, ch_scanlator = None,
       ch_dateUpload = None\<rparr>]"
  by (simp add: detailChapters_def chapterLoop_no_match tocChapters_def find_no_toc)

lemma ext_detailChapters_single:
  "\<forall>sel \<in> set potentialContainers. select doc sel = [] \<Longrightarrow>
   \<forall>a \<in> set (select doc ''a''). \<not> isTocText (toLowerCase (nodeText a)) \<Longrightarrow>
   ext_detailChapters env doc url = [\<lparr>ec_name = ''Chapter (single page)'', ec_url = url\<rparr>]"
  by (simp add: ext_detailChapters_def ext_chapterLoop_no_match ext_tocChapters_def find_no_toc)

lemma detailChapters_nonempty: "detailChapters env document url \<noteq> []"
  by (simp add: detailChapters_def Let_def split: prod.splits)

lemma ext_detailChapters_nonempty: "ext_detailChapters env doc url \<noteq> []"
  by (simp add: ext_detailChapters_def Let_def split: prod.splits)

text \<open>
  C5. For every fetched detail document in which no chapter selector matches and no
  anchor's lower-cased text contains "table of contents", "chapters" or "view all",
  \<open>getDetail\<close> and \<open>getChapterList\<close> return exactly one chapter, the synthetic one,
  whose url is the work's own resolved URL; this holds in both variants. And whatever
  the document, the chapter list that \<open>getDetail\<close> returns is never empty.
\<close>

theorem single_page_chapter:
  "(clientGet env (toAbsolute env novelUrl) = Inr res \<longrightarrow>
    (\<forall>sel \<in> set chapterCandidates. select (doc_root (parse env (res_body res))) sel = []) \<longrightarrow>
    (\<forall>a \<in> set (select (doc_root (parse env (res_body res))) ''a'').
        \<not> isTocText (toLowerCase (nodeText a))) \<longrightarrow>
      (\<exists>d. getDetail env novelUrl = Inr d
         \<and> getChapterList env novelUrl = Inr (d_chapters d)
         \<and> d_chapters d =
             [\<lparr>ch_name = ''Chapter (single page)'', ch_url = toAbsolute env novelUrl,
               ch_scanlator = None, ch_dateUpload = None\<rparr>]))
   \<and> (request env (toAbsolute env novelUrl) = Inr html \<longrightarrow>
    (\<forall>sel \<in> set potentialContainers. select (doc_root (parseHTML env html)) sel = []) \<longrightarrow>
    (\<forall>a \<in> set (select (doc_root (parseHTML env html)) ''a'').
        \<not> isTocText (toLowerCase (nodeText a))) \<longrightarrow>
      (\<exists>d. ext_getDetail env novelUrl = Inr d
         \<and> ext_getChapterList env novelUrl = Inr (ed_chapters d)
         \<and> ed_chapters d =
             [\<lparr>ec_name = ''Chapter (single page)'', ec_url = toAbsolute env novelUrl\<rparr>]))
   \<and> (\<forall>d. getDetail env novelUrl = Inr d \<longrightarrow> d_chapters d \<noteq> [])
   \<and> (\<forall>d. ext_getDetail env novelUrl = Inr d \<longrightarrow> ed_chapters d \<noteq> [])"
proof (intro conjI impI allI)
  assume f: "clientGet env (toAbsolute env novelUrl) = Inr res"
    and a1: "\<forall>sel \<in> set chapterCandidates. select (doc_root (parse env (res_body res))) sel = []"
    and a2: "\<forall>a \<in> set (select (doc_root (parse env (res_body res))) ''a'').
        \<not> isTocText (toLowerCase (nodeText a))"
  from a1 a2 have c: "detailChapters env (doc_root (parse env (res_body res))) (toAbsolute env novelUrl)
      = [\<lparr>ch_name = ''Chapter (single page)'', ch_url = toAbsolute env novelUrl,
               ch_scanlator = None, ch_dateUpload = None\<rparr>]"
    by (rule detailChapters_single)
  from f obtain d where d: "getDetail env novelUrl = Inr d"
    and ch: "d_chapters d = detailChapters env (doc_root (parse env (res_body res))) (toAbsolute env novelUrl)"
    using getDetail_returns by blast
  from d have "getChapterList env novelUrl = Inr (d_chapters d)"
    by (simp add: getChapterList_def)
  then show "\<exists>d. getDetail env novelUrl = Inr d
         \<and> getChapterList env novelUrl = Inr (d_chapters d)
         \<and> d_chapters d =
             [\<lparr>ch_name = ''Chapter (single page)'', ch_url = toAbsolute env novelUrl,
               ch_scanlator = None, ch_dateUpload = None\<rparr>]"
    using d ch c by auto
next
  assume f: "request env (toAbsolute env novelUrl) = Inr html"
    and a1: "\<forall>sel \<in> set potentialContainers. select (doc_root (parseHTML env html)) sel = []"
    and a2: "\<forall>a \<in> set (select (doc_root (parseHTML env html)) ''a'').
        \<not> isTocText (toLowerCase (nodeText a))"
  from a1 a2 have c: "ext_detailChapters env (doc_root (parseHTML env html)) (toAbsolute env novelUrl)
      = [\<lparr>ec_name = ''Chapter (single page)'', ec_url = toAbsolute env novelUrl\<rparr>]"
    by (rule ext_detailChapters_single)
  from f obtain d where d: "ext_getDetail env novelUrl = Inr d"
    and ch: "ed_chapters d = ext_detailChapters env (doc_root (parseHTML env html)) (toAbsolute env novelUrl)"
    using ext_getDetail_returns by blast
  from d have "ext_getChapterList env novelUrl = Inr (ed_chapters d)"
    by (simp add: ext_getChapterList_def)
  then show "\<exists>d. ext_getDetail env novelUrl = Inr d
         \<and> ext_getChapterList env novelUrl = Inr (ed_chapters d)
         \<and> ed_chapters d =
             [\<lparr>ec_name = ''Chapter (single page)'', ec_url = toAbsolute env novelUrl\<rparr>]"
    using d ch c by auto
next
  fix d assume d: "getDetail env novelUrl = Inr d"
  then obtain res where "clientGet env (toAbsolute env novelUrl) = Inr res"
    using getDetail_Inr by blast
  then show "d_chapters d \<noteq> []"
    using getDetail_returns [of env novelUrl res] d detailChapters_nonempty by auto
next
  fix d assume d: "ext_getDetail env novelUrl = Inr d"
  then obtain html where "request env (toAbsolute env novelUrl) = Inr html"
    using ext_getDetail_Inr by blast
  then show "ed_chapters d \<noteq> []"
    using ext_getDetail_returns [of env novelUrl html] d ext_detailChapters_nonempty by auto
qed

theorem single_page_chapter_witness:
  "(\<exists>d. getDetail (pageEnv homeLinkPage) (Some workUrl) = Inr d
      \<and> getChapterList (pageEnv homeLinkPage) (Some workUrl) = Inr (d_chapters d)
      \<and> d_chapters d =
          [\<lparr>ch_name = ''Chapter (single page)'', ch_url = Some workUrl,
            ch_scanlator = None, ch_dateUpload = None\<rparr>])
   \<and> (\<exists>d. ext_getDetail (pageEnv homeLinkPage) (Some workUrl) = Inr d
      \<and> ext_getChapterList (pageEnv homeLinkPage) (Some workUrl) = Inr (ed_chapters d)
      \<and> ed_chapters d = [\<lparr>ec_name = ''Chapter (single page)'', ec_url = Some workUrl\<rparr>])"
  using single_page_chapter [of "pageEnv homeLinkPage" "Some workUrl"
      "\<lparr>res_ok = True, res_status = 200, res_body = ''page''\<rparr>" "''page''"]
  by (simp add: parseHTML_def homeLinkPage_def chapterCandidates_def potentialContainers_def
      isTocText_def toLowerCase_def lowerChar_def)

section \<open>Chapter pages: results\<close>

lemma getPageList_returns:
  "clientGet env (toAbsolute env chapterUrl) = Inr res \<Longrightarrow>
   getPageList env chapterUrl = pagesOf env (contentNodeOf (doc_root (parse env (res_body res))))"
  by (simp add: getPageList_def)

lemma imagePage_fun: "imagePage env = (\<lambda>img. fixImageUrl env (toAbsolute env (srcOf img)))"
  by (simp add: fun_eq_iff imagePage_def)

lemma paragraphLoop_pages:
  "\<forall>p \<in> set ps. \<not> isl (encodeURIComponent env (''<p>'' @ trim (nodeText p) @ ''</p>'')) \<Longrightarrow>
   paragraphLoop env ps pages
     = Inr (pages @ map (\<lambda>p. ''data:text/html,''
                            @ projr (encodeURIComponent env (''<p>'' @ trim (nodeText p) @ ''</p>'')))
                     ps)"
proof (induction ps arbitrary: pages)
  case Nil
  then show ?case by simp
next
  case (Cons p ps)
  from Cons.prems obtain enc
    where enc: "encodeURIComponent env (''<p>'' @ trim (nodeText p) @ ''</p>'') = Inr enc"
    by (cases "encodeURIComponent env (''<p>'' @ trim (nodeText p) @ ''</p>'')") auto
  have "paragraphLoop env ps (pages @ [''data:text/html,'' @ enc])
     = Inr ((pages @ [''data:text/html,'' @ enc])
            @ map (\<lambda>p. ''data:text/html,''
                       @ projr (encodeURIComponent env (''<p>'' @ trim (nodeText p) @ ''</p>'')))
                ps)"
    using Cons.prems by (intro Cons.IH) simp
  then show ?case using enc by (simp add: paragraphPage_def)
qed

text \<open>
  The loop over the paragraphs lets an exception of \<open>encodeURIComponent\<close> through.
\<close>

lemma paragraphLoop_error:
  "p \<in> set ps \<Longrightarrow> isl (encodeURIComponent env (''<p>'' @ trim (nodeText p) @ ''</p>'')) \<Longrightarrow>
   isl (paragraphLoop env ps pages)"
proof (induction ps arbitrary: pages)
  case Nil
  then show ?case by simp
next
  case (Cons a ps)
  show ?case
  proof (cases "paragraphPage env a")
    case (Inl e)
    then show ?thesis by simp
  next
    case (Inr page)
    then have "\<not> isl (encodeURIComponent env (''<p>'' @ trim (nodeText a) @ ''</p>''))"
      by (auto simp: paragraphPage_def split: sum.splits)
    then have "p \<in> set ps" using Cons.prems by auto
    then show ?thesis using Inr Cons.IH Cons.prems(2) by simp
  qed
qed

lemma contentNodeOf_imageChapterPage:
  "contentNodeOf imageChapterPage =
     Some (nodeOf ''Page 1 Page 2'' []
            [(''img'',
              [nodeOf [] [(''data-src'', ''/img/a.jpg'')] [],
               nodeOf [] [(''src'', ''//cdn.allnovel.org/b.jpg'')] []])])"
  by (simp add: contentNodeOf_def contentSelectors_def imageChapterPage_def trim_def isSpace_def)

lemma contentNodeOf_textChapterPage:
  "contentNodeOf textChapterPage =
     Some (nodeOf ''It rained. Then it stopped.'' []
            [(''p'', [nodeOf ''It rained.'' [] [], nodeOf '' Then it stopped. '' [] []])])"
  by (simp add: contentNodeOf_def contentSelectors_def textChapterPage_def trim_def isSpace_def)

lemma pageEnv_newURL [simp]: "newURL (pageEnv r) = refURL"
  by (simp add: pageEnv_def)

lemma pageEnv_encode [simp]: "encodeURIComponent (pageEnv r) = refEncode"
  by (simp add: pageEnv_def)

lemma refEnv_image_a:
  "newURL env = refURL \<Longrightarrow>
   fixImageUrl env (toAbsolute env (Some ''/img/a.jpg'')) = Some ''https://allnovel.org/img/a.jpg''"
  by (simp add: toAbsolute_def fixImageUrl_def BASE_def refURL_def plainUrl_def plainParsed_def
      plainHref_def hostChar_def pathChar_def trim_def isSpace_def startsWith_def Let_def)

lemma refEnv_image_b:
  "newURL env = refURL \<Longrightarrow>
   fixImageUrl env (toAbsolute env (Some ''//cdn.allnovel.org/b.jpg''))
     = Some ''https://cdn.allnovel.org/b.jpg''"
  by (simp add: toAbsolute_def fixImageUrl_def BASE_def refURL_def plainUrl_def plainParsed_def
      plainHref_def hostChar_def pathChar_def trim_def isSpace_def startsWith_def Let_def)

lemma refEncode_rained: "refEncode ''<p>It rained.</p>'' = Inr ''%3Cp%3EIt%20rained.%3C%2Fp%3E''"
  by (simp add: refEncode_def unreservedChar_def pctByte_def hexDigit_def Let_def)

lemma refEncode_stopped:
  "refEncode ''<p>Then it stopped.</p>'' = Inr ''%3Cp%3EThen%20it%20stopped.%3C%2Fp%3E''"
  by (simp add: refEncode_def unreservedChar_def pctByte_def hexDigit_def Let_def)

section \<open>The reference listing page\<close>

lemma listingEnv_newURL [simp]: "newURL listingEnv = refURL"
  by (simp add: listingEnv_def)

lemma listingEnv_toAbsolute: "toAbsolute listingEnv (Some ''/novel/a'') = Some ''https://allnovel.org/novel/a''"
  using refURL_root_relative by (simp add: toAbsolute_def BASE_def plainParsed_def plainHref_def)

lemma cleanText_story: "cleanText (Some ''A story'') = Some ''A story''"
  by (simp add: cleanText_def trim_def isSpace_def)

lemma parseItem_storyCard:
  "parseItem listingEnv storyCard =
     Some \<lparr>it_url = ''https://allnovel.org/novel/a'', it_name = ''A story'',
            it_link = ''https://allnovel.org/novel/a'', it_cover = None, it_author = None\<rparr>"
  using listingEnv_toAbsolute cleanText_story
  by (simp add: parseItem_def storyCard_def Let_def)

lemma parseListFromDoc_duplicates:
  "parseListFromDoc listingEnv duplicateListingPage
     = [\<lparr>it_url = ''https://allnovel.org/novel/a'', it_name = ''A story'',
          it_link = ''https://allnovel.org/novel/a'', it_cover = None, it_author = None\<rparr>,
        \<lparr>it_url = ''https://allnovel.org/novel/a'', it_name = ''A story'',
          it_link = ''https://allnovel.org/novel/a'', it_cover = None, it_author = None\<rparr>]"
  using parseItem_storyCard
  by (simp add: parseListFromDoc_def candidates_def duplicateListingPage_def Let_def)

section \<open>Listing operations: failure\<close>

lemma showNat_digit: "n < 10 \<Longrightarrow> showNat n = [''0123456789'' ! n]"
  by (simp add: showNat.simps)

lemma ext_candidateLoop_None:
  "ext_candidateLoop env sel us doc = None
     \<longleftrightarrow> doc = None \<and> (\<forall>u \<in> set us. isl (request env (Some u)))"
proof (induction us arbitrary: doc)
  case Nil
  then show ?case by simp
next
  case (Cons u us)
  show ?case
  proof (cases "request env (Some u)")
    case (Inl e)
    then show ?thesis using Cons.IH [of doc] by simp
  next
    case (Inr html)
    then show ?thesis using Cons.IH [of "Some (parseHTML env html)"] by (simp add: Let_def)
  qed
qed

lemma ext_getPopular_fails_iff:
  "isl (ext_getPopular env page)
     \<longleftrightarrow> (\<forall>u \<in> set (ext_urlCandidates page). isl (request env (Some u)))"
  using ext_candidateLoop_None
          [of env "''article, .post, .novel-item, .entry''" "ext_urlCandidates page" None]
  by (cases "ext_candidateLoop env ''article, .post, .novel-item, .entry''
               (ext_urlCandidates page) None")
     (simp_all add: ext_getPopular_def Let_def)

lemma ext_getPopular_error:
  "isl (ext_getPopular env page) \<Longrightarrow>
   ext_getPopular env page = Inl (Error ''Failed to fetch popular list'')"
  by (cases "ext_candidateLoop env ''article, .post, .novel-item, .entry''
               (ext_urlCandidates page) None")
     (simp_all add: ext_getPopular_def Let_def)

lemma ext_getLatestUpdates_fails_iff:
  "isl (ext_getLatestUpdates env page)
     \<longleftrightarrow> (\<forall>u \<in> set (ext_latestCandidates page). isl (request env (Some u)))"
  using ext_candidateLoop_None [of env "''article, .post, .entry''" "ext_latestCandidates page" None]
  by (cases "ext_candidateLoop env ''article, .post, .entry'' (ext_latestCandidates page) None")
     (simp_all add: ext_getLatestUpdates_def Let_def)

lemma ext_getLatestUpdates_error:
  "isl (ext_getLatestUpdates env page) \<Longrightarrow>
   ext_getLatestUpdates env page = Inl (Error ''Failed to fetch latest updates'')"
  by (cases "ext_candidateLoop env ''article, .post, .entry'' (ext_latestCandidates page) None")
     (simp_all add: ext_getLatestUpdates_def Let_def)

lemma listingLoop_all_fail:
  "\<forall>u \<in> set us. isl (clientGet env (Some u)) \<Longrightarrow>
   listingLoop env us = \<lparr>l_list = [], l_hasNextPage = False\<rparr>"
  by (induction us) (auto split: sum.splits)

lemma listingLoop_first_yield:
  "listingLoop env us =
     (case find (yieldsItems env) us of
        None \<Rightarrow> \<lparr>l_list = [], l_hasNextPage = False\<rparr>
      | Some u \<Rightarrow> candidateListing env u)"
proof (induction us)
  case Nil
  then show ?case by simp
next
  case (Cons u us)
  show ?case
  proof (cases "clientGet env (Some u)")
    case (Inl e)
    then have "\<not> yieldsItems env u" by (simp add: yieldsItems_def candidateItems_def)
    then show ?thesis using Inl Cons.IH by simp
  next
    case (Inr res)
    show ?thesis
    proof (cases "parseListFromDoc env (doc_root (parse env (res_body res))) = []")
      case True
      then have "\<not> yieldsItems env u" using Inr by (simp add: yieldsItems_def candidateItems_def)
      then show ?thesis using Inr True Cons.IH by (simp add: Let_def)
    next
      case False
      then have "yieldsItems env u" using Inr by (simp add: yieldsItems_def candidateItems_def)
      then show ?thesis using Inr False by (simp add: Let_def candidateListing_def)
    qed
  qed
qed

lemma listingLoop_no_items:
  assumes "\<forall>u \<in> set us. candidateItems env u = None \<or> candidateItems env u = Some []"
  shows "listingLoop env us = \<lparr>l_list = [], l_hasNextPage = False\<rparr>"
proof -
  have "\<forall>u \<in> set us. \<not> yieldsItems env u"
    using assms by (auto simp: yieldsItems_def)
  then have "find (yieldsItems env) us = None"
    by (simp add: find_None_iff)
  then show ?thesis by (simp add: listingLoop_first_yield)
qed

text \<open>
  C3 (as amended). \<open>getPopular\<close> and \<open>getLatestUpdates\<close> of the class variant fail
  exactly when the fetch of every candidate URL has failed: a failure on one candidate
  is caught and the next one is tried, and the failure the caller sees is "Failed to
  fetch popular list" ("Failed to fetch latest updates"). \<open>getPopular\<close> and
  \<open>getLatestUpdates\<close> of the runtime variant never fail: when every candidate has
  failed or yielded no items they return the empty list with no next page, and otherwise
  the listing of the first candidate that yields items.
\<close>

theorem listing_failure:
  "(isl (ext_getPopular env page)
      \<longleftrightarrow> (\<forall>u \<in> set (ext_urlCandidates page). isl (request env (Some u))))
   \<and> (isl (ext_getPopular env page) \<longrightarrow>
        ext_getPopular env page = Inl (Error ''Failed to fetch popular list''))
   \<and> (isl (ext_getLatestUpdates env page)
      \<longleftrightarrow> (\<forall>u \<in> set (ext_latestCandidates page). isl (request env (Some u))))
   \<and> (isl (ext_getLatestUpdates env page) \<longrightarrow>
        ext_getLatestUpdates env page = Inl (Error ''Failed to fetch latest updates''))
   \<and> \<not> isl (getPopular env page)
   \<and> \<not> isl (getLatestUpdates env page)
   \<and> ((\<forall>u \<in> set (popularCandidates page). isl (clientGet env (Some u))) \<longrightarrow>
        getPopular env page = Inr \<lparr>l_list = [], l_hasNextPage = False\<rparr>)
   \<and> ((\<forall>u \<in> set (latestCandidates page). isl (clientGet env (Some u))) \<longrightarrow>
        getLatestUpdates env page = Inr \<lparr>l_list = [], l_hasNextPage = False\<rparr>)
   \<and> ((\<forall>u \<in> set (popularCandidates page).
          candidateItems env u = None \<or> candidateItems env u = Some []) \<longrightarrow>
        getPopular env page = Inr \<lparr>l_list = [], l_hasNextPage = False\<rparr>)
   \<and> ((\<forall>u \<in> set (latestCandidates page).
          candidateItems env u = None \<or> candidateItems env u = Some []) \<longrightarrow>
        getLatestUpdates env page = Inr \<lparr>l_list = [], l_hasNextPage = False\<rparr>)
   \<and> getPopular env page =
        Inr (case find (yieldsItems env) (popularCandidates page) of
               None \<Rightarrow> \<lparr>l_list = [], l_hasNextPage = False\<rparr>
             | Some u \<Rightarrow> candidateListing env u)
   \<and> getLatestUpdates env page =
        Inr (case find (yieldsItems env) (latestCandidates page) of
               None \<Rightarrow> \<lparr>l_list = [], l_hasNextPage = False\<rparr>
             | Some u \<Rightarrow> candidateListing env u)"
proof (intro conjI)
  show "isl (ext_getPopular env page)
      \<longleftrightarrow> (\<forall>u \<in> set (ext_urlCandidates page). isl (request env (Some u)))"
    by (rule ext_getPopular_fails_iff)
  show "isl (ext_getPopular env page) \<longrightarrow>
        ext_getPopular env page = Inl (Error ''Failed to fetch popular list'')"
    using ext_getPopular_error by blast
  show "isl (ext_getLatestUpdates env page)
      \<longleftrightarrow> (\<forall>u \<in> set (ext_latestCandidates page). isl (request env (Some u)))"
    by (rule ext_getLatestUpdates_fails_iff)
  show "isl (ext_getLatestUpdates env page) \<longrightarrow>
        ext_getLatestUpdates env page = Inl (Error ''Failed to fetch latest updates'')"
    using ext_getLatestUpdates_error by blast
  show "\<not> isl (getPopular env page)" by (simp add: getPopular_def)
  show "\<not> isl (getLatestUpdates env page)" by (simp add: getLatestUpdates_def)
  show "(\<forall>u \<in> set (popularCandidates page). isl (clientGet env (Some u))) \<longrightarrow>
        getPopular env page = Inr \<lparr>l_list = [], l_hasNextPage = False\<rparr>"
    using listingLoop_all_fail [of "popularCandidates page" env] by (simp add: getPopular_def)
  show "(\<forall>u \<in> set (latestCandidates page). isl (clientGet env (Some u))) \<longrightarrow>
        getLatestUpdates env page = Inr \<lparr>l_list = [], l_hasNextPage = False\<rparr>"
    using listingLoop_all_fail [of "latestCandidates page" env]
    by (simp add: getLatestUpdates_def)
  show "(\<forall>u \<in> set (popularCandidates page).
          candidateItems env u = None \<or> candidateItems env u = Some []) \<longrightarrow>
        getPopular env page = Inr \<lparr>l_list = [], l_hasNextPage = False\<rparr>"
    using listingLoop_no_items [of "popularCandidates page" env] by (simp add: getPopular_def)
  show "(\<forall>u \<in> set (latestCandidates page).
          candidateItems env u = None \<or> candidateItems env u = Some []) \<longrightarrow>
        getLatestUpdates env page = Inr \<lparr>l_list = [], l_hasNextPage = False\<rparr>"
    using listingLoop_no_items [of "latestCandidates page" env]
    by (simp add: getLatestUpdates_def)
  show "getPopular env page =
        Inr (case find (yieldsItems env) (popularCandidates page) of
               None \<Rightarrow> \<lparr>l_list = [], l_hasNextPage = False\<rparr>
             | Some u \<Rightarrow> candidateListing env u)"
    by (simp add: getPopular_def listingLoop_first_yield)
  show "getLatestUpdates env page =
        Inr (case find (yieldsItems env) (latestCandidates page) of
               None \<Rightarrow> \<lparr>l_list = [], l_hasNextPage = False\<rparr>
             | Some u \<Rightarrow> candidateListing env u)"
    by (simp add: getLatestUpdates_def listingLoop_first_yield)
qed

lemma refEnv_request_none [simp]: "request (refEnv [] docs) (Some u) = Inl NetworkError"
  by (simp add: request_def)

lemma refEnv_clientGet_none [simp]: "clientGet (refEnv [] docs) (Some u) = Inl NetworkError"
  by (simp add: clientGet_def)

lemma select_emptyNode [simp]: "select emptyNode sel = []"
  by (simp add: emptyNode_def select_def)

lemma parseListFromDoc_emptyNode: "parseListFromDoc env emptyNode = []"
  by (simp add: parseListFromDoc_def candidates_def Let_def)

lemma popularCandidates_2:
  "popularCandidates 2 =
     [''https://allnovel.org/most-popular/?paged=2'', ''https://allnovel.org/hot/?paged=2'',
      ''https://allnovel.org/?paged=2'']"
  by (simp add: popularCandidates_def BASE_def showNat_digit)

lemma popularCandidates_1:
  "popularCandidates 1 =
     [''https://allnovel.org/most-popular/?paged=1'', ''https://allnovel.org/hot/?paged=1'',
      ''https://allnovel.org/?paged=1'']"
  by (simp add: popularCandidates_def BASE_def showNat_digit)

lemma candidateItems_blank:
  "candidateItems blankListingEnv ''https://allnovel.org/most-popular/?paged=2'' = Some []"
  "candidateItems blankListingEnv ''https://allnovel.org/hot/?paged=2'' = None"
  "candidateItems blankListingEnv ''https://allnovel.org/?paged=2'' = None"
  by (simp_all add: candidateItems_def clientGet_def blankListingEnv_def
      parseListFromDoc_emptyNode)

lemma clientGet_listingEnv:
  "clientGet listingEnv (Some ''https://allnovel.org/most-popular/?paged=1'')
      = Inr \<lparr>res_ok = True, res_status = 200, res_body = ''listing''\<rparr>"
  by (simp add: clientGet_def listingEnv_def)

lemma parse_listingEnv: "doc_root (parse listingEnv ''listing'') = duplicateListingPage"
  by (simp add: listingEnv_def)

lemma yieldsItems_listingEnv:
  "yieldsItems listingEnv ''https://allnovel.org/most-popular/?paged=1''"
  using parseListFromDoc_duplicates
  by (simp add: yieldsItems_def candidateItems_def clientGet_listingEnv parse_listingEnv)

lemma hasNext_duplicateListingPage: "\<not> hasNext duplicateListingPage"
  by (simp add: hasNext_def duplicateListingPage_def)

text \<open>
  With every address failing, both operations of the class variant fail with their own
  message and both of the runtime variant return the empty listing; so does the runtime
  \<open>getPopular\<close> when its first candidate is served as a page without items; and when
  the first candidate is served as a page with two cards, it returns those two items.
\<close>

theorem listing_failure_witness:
  "ext_getPopular (refEnv [] []) 2 = Inl (Error ''Failed to fetch popular list'')
   \<and> ext_getLatestUpdates (refEnv [] []) 2 = Inl (Error ''Failed to fetch latest updates'')
   \<and> getPopular (refEnv [] []) 2 = Inr \<lparr>l_list = [], l_hasNextPage = False\<rparr>
   \<and> getLatestUpdates (refEnv [] []) 2 = Inr \<lparr>l_list = [], l_hasNextPage = False\<rparr>
   \<and> candidateItems blankListingEnv ''https://allnovel.org/most-popular/?paged=2'' = Some []
   \<and> getPopular blankListingEnv 2 = Inr \<lparr>l_list = [], l_hasNextPage = False\<rparr>
   \<and> getPopular listingEnv 1 =
       Inr \<lparr>l_list = parseListFromDoc listingEnv duplicateListingPage, l_hasNextPage = False\<rparr>
   \<and> length (parseListFromDoc listingEnv duplicateListingPage) = 2"
proof -
  have a: "ext_getPopular (refEnv [] []) 2 = Inl (Error ''Failed to fetch popular list'')
   \<and> ext_getLatestUpdates (refEnv [] []) 2 = Inl (Error ''Failed to fetch latest updates'')
   \<and> getPopular (refEnv [] []) 2 = Inr \<lparr>l_list = [], l_hasNextPage = False\<rparr>
   \<and> getLatestUpdates (refEnv [] []) 2 = Inr \<lparr>l_list = [], l_hasNextPage = False\<rparr>"
    using listing_failure [of "refEnv [] []" 2] by simp
  have b: "getPopular blankListingEnv 2 = Inr \<lparr>l_list = [], l_hasNextPage = False\<rparr>"
    using listing_failure [of blankListingEnv 2] candidateItems_blank
    by (simp add: popularCandidates_2)
  have c: "getPopular listingEnv 1 =
       Inr \<lparr>l_list = parseListFromDoc listingEnv duplicateListingPage, l_hasNextPage = False\<rparr>"
  proof -
    from listing_failure [of listingEnv 1]
    have "getPopular listingEnv 1 =
        Inr (case find (yieldsItems listingEnv) (popularCandidates 1) of
               None \<Rightarrow> \<lparr>l_list = [], l_hasNextPage = False\<rparr>
             | Some u \<Rightarrow> candidateListing listingEnv u)"
      by blast
    then show ?thesis
      unfolding popularCandidates_1
      using yieldsItems_listingEnv hasNext_duplicateListingPage
      by (simp add: candidateListing_def clientGet_listingEnv parse_listingEnv)
  qed
  have d: "length (parseListFromDoc listingEnv duplicateListingPage) = 2"
    by (simp add: parseListFromDoc_duplicates)
  from a b c d candidateItems_blank(1) show ?thesis by simp
qed

text \<open>
  The claim as stated fails on the runtime variant: with all three candidates of page 1
  failing, \<open>getPopular\<close> returns a successful empty result.
\<close>

theorem getPopular_empty_success_counterexample:
  "clientGet (refEnv [] []) (Some ''https://allnovel.org/most-popular/?paged=1'') = Inl NetworkError
   \<and> clientGet (refEnv [] []) (Some ''https://allnovel.org/hot/?paged=1'') = Inl NetworkError
   \<and> clientGet (refEnv [] []) (Some ''https://allnovel.org/?paged=1'') = Inl NetworkError
   \<and> popularCandidates 1 =
       [''https://allnovel.org/most-popular/?paged=1'', ''https://allnovel.org/hot/?paged=1'',
        ''https://allnovel.org/?paged=1'']
   \<and> getPopular (refEnv [] []) 1 = Inr \<lparr>l_list = [], l_hasNextPage = False\<rparr>"
  by (simp add: getPopular_def popularCandidates_def BASE_def showNat_digit)

section \<open>Image URL normalizer: a blank source\<close>

text \<open>
  C7. The claim is that \<open>fixImageUrl\<close> is idempotent on every input string. Both
  variants test the raw input for emptiness before they trim it: on a source that
  consists of white space, here one space, the first pass returns the empty string
  (the \<open>URL\<close> constructor rejects it) and the second pass returns null.
\<close>

theorem fixImageUrl_blank_not_idempotent:
  "newURL env [] None = Inl e \<longrightarrow>
     fixImageUrl env (Some '' '') = Some []
     \<and> fixImageUrl env (fixImageUrl env (Some '' '')) = None
     \<and> ext_fixImageUrl env (Some '' '') = Some []
     \<and> ext_fixImageUrl env (ext_fixImageUrl env (Some '' '')) = None"
  by (simp add: fixImageUrl_def ext_fixImageUrl_def trim_def isSpace_def startsWith_def)

lemma refURL_empty: "refURL [] None = Inl TypeError"
  by (simp add: refURL_def plainUrl_def)

theorem fixImageUrl_blank_not_idempotent_witness:
  "fixImageUrl (refEnv [] []) (Some '' '') = Some []
   \<and> fixImageUrl (refEnv [] []) (fixImageUrl (refEnv [] []) (Some '' '')) = None
   \<and> ext_fixImageUrl (refEnv [] []) (Some '' '') = Some []
   \<and> ext_fixImageUrl (refEnv [] []) (ext_fixImageUrl (refEnv [] []) (Some '' '')) = None"
proof -
  have h: "newURL (refEnv [] []) [] None = Inl TypeError"
    by (simp add: refURL_empty)
  show ?thesis
    by (rule fixImageUrl_blank_not_idempotent [THEN mp, OF h])
qed

section \<open>Listing extraction: duplicates\<close>

text \<open>
  C8. The claim is that the popular list holds no two entries with the same url. On a
  listing page that shows one work in two cards, \<open>getPopular\<close> of the runtime variant
  returns both entries: the card loop of \<open>parseListFromDoc\<close> pushes without a
  \<open>seen\<close> set, which only its anchor fallback has.
\<close>

theorem getPopular_keeps_duplicates:
  "map_sum id (\<lambda>r. map it_url (l_list r)) (getPopular listingEnv 1)
     = Inr [''https://allnovel.org/novel/a'', ''https://allnovel.org/novel/a'']"
proof -
  have "clientGet listingEnv (Some ''https://allnovel.org/most-popular/?paged=1'')
      = Inr \<lparr>res_ok = True, res_status = 200, res_body = ''listing''\<rparr>"
    by (simp add: clientGet_def listingEnv_def)
  moreover have "doc_root (parse listingEnv ''listing'') = duplicateListingPage"
    by (simp add: listingEnv_def)
  ultimately show ?thesis
    using parseListFromDoc_duplicates
    by (simp add: getPopular_def popularCandidates_def BASE_def showNat_digit Let_def)
qed

section \<open>Content sanitizer: results\<close>

lemma isScriptLike_Text [simp]: "\<not> isScriptLike (Text s)" "\<not> isScriptLike (Comment s)"
  by (simp_all add: isScriptLike_def)

lemma isScriptLike_Template [simp]: "\<not> isScriptLike (Template as cs)"
  by (simp add: isScriptLike_def)

lemma isAdLike_Text [simp]: "\<not> isAdLike q (Text s)" "\<not> isAdLike q (Comment s)"
  by (simp_all add: isAdLike_def)

lemma removable_Text [simp]: "\<not> removable q (Text s)" "\<not> removable q (Comment s)"
  by (simp_all add: removable_def)

lemma isScriptLike_removeMatching [simp]: "isScriptLike (removeMatching P n) = isScriptLike n"
  by (cases n) (simp_all add: isScriptLike_def)

lemma isAdLike_removeMatching [simp]: "isAdLike q (removeMatching P n) = isAdLike q n"
  by (cases n) (simp_all add: isAdLike_def)

lemma map_of_filter_class:
  "map_of (filter (\<lambda>(n, v). \<not> isEventAttr n) as) ''class'' = map_of as ''class''"
  by (induction as) (auto simp: isEventAttr_def)

lemma classMatches_filter:
  "classMatches q c (filter (\<lambda>(n, v). \<not> isEventAttr n) as) = classMatches q c as"
  by (simp add: classMatches_def map_of_filter_class)

lemma hasClass_stripEvents: "hasClass q c (stripEvents n) = hasClass q c n"
  by (cases n) (simp_all add: classMatches_filter)

lemma isScriptLike_stripEvents [simp]: "isScriptLike (stripEvents n) = isScriptLike n"
  by (cases n) (simp_all add: isScriptLike_def)

lemma isAdLike_stripEvents [simp]: "isAdLike q (stripEvents n) = isAdLike q n"
  by (simp add: isAdLike_def hasClass_stripEvents del: hasClass.simps)

lemma cleanNode_Text [simp]: "cleanNode q (Text s) = Text s" "cleanNode q (Comment s) = Comment s"
  by (simp_all add: cleanNode_def)

lemma cleanNode_Template [simp]:
  "cleanNode q (Template as cs) = Template (filter (\<lambda>(n, v). \<not> isEventAttr n) as) cs"
  by (simp add: cleanNode_def)

lemma filter_ad_map_rm:
  "filter (\<lambda>c. \<not> isAdLike q c) (map (removeMatching P) xs)
     = map (removeMatching P) (filter (\<lambda>c. \<not> isAdLike q c) xs)"
  by (induction xs) simp_all

lemma cleanNode_Element [simp]:
  "cleanNode q (Element tg as cs) =
     Element tg (filter (\<lambda>(n, v). \<not> isEventAttr n) as)
       (map (cleanNode q) (filter (\<lambda>c. \<not> removable q c) cs))"
proof -
  have "filter (\<lambda>c. \<not> isAdLike q c) (filter (\<lambda>c. \<not> isScriptLike c) cs)
      = filter (\<lambda>c. \<not> removable q c) cs"
    by (induction cs) (auto simp: removable_def)
  then show ?thesis
    by (simp add: cleanNode_def filter_ad_map_rm comp_def)
qed

lemma isScriptLike_cleanNode [simp]: "isScriptLike (cleanNode q n) = isScriptLike n"
  by (simp add: cleanNode_def)

lemma isAdLike_cleanNode [simp]: "isAdLike q (cleanNode q n) = isAdLike q n"
  by (simp add: cleanNode_def)

lemma noEventAttr_cleanNode [simp]: "noEventAttr (cleanNode q n)"
  by (cases n) (simp_all add: list_all_iff split: prod.splits)

lemma kept_removable: "R n \<Longrightarrow> kept R n = []"
  by (cases n) simp_all

lemma concat_kept_filter:
  "concat (map (kept R) (filter (\<lambda>c. \<not> R c) cs)) = concat (map (kept R) cs)"
  by (induction cs) (simp_all add: kept_removable)

lemma nodesOf_cleanNode:
  "\<not> removable q n \<Longrightarrow> nodesOf (cleanNode q n) = map (cleanNode q) (kept (removable q) n)"
proof (induction n)
  case (Element tg as cs)
  have "concat (map nodesOf (map (cleanNode q) (filter (\<lambda>c. \<not> removable q c) cs)))
      = map (cleanNode q) (concat (map (kept (removable q)) (filter (\<lambda>c. \<not> removable q c) cs)))"
    using Element.IH by (induction cs) (simp_all add: map_concat)
  then show ?case
    using Element.prems by (simp add: concat_kept_filter)
next
  case (Template as cs)
  then show ?case by simp
next
  case (Text s)
  then show ?case by simp
next
  case (Comment s)
  then show ?case by simp
qed

lemma nodesOf_cleanForest:
  "concat (map nodesOf (map (cleanNode q) (filter (\<lambda>n. \<not> removable q n) ns)))
     = map (cleanNode q) (concat (map (kept (removable q)) ns))"
proof -
  have "concat (map nodesOf (map (cleanNode q) (filter (\<lambda>c. \<not> removable q c) ns)))
      = map (cleanNode q) (concat (map (kept (removable q)) (filter (\<lambda>c. \<not> removable q c) ns)))"
    by (induction ns) (simp_all add: nodesOf_cleanNode)
  then show ?thesis by (simp add: concat_kept_filter)
qed

lemma kept_not_removable: "m \<in> set (kept R n) \<Longrightarrow> \<not> R m"
  by (induction n) (auto split: if_splits)

lemma cleanNode_stays_clean:
  "\<not> removable q m \<Longrightarrow>
   \<not> isScriptLike (cleanNode q m) \<and> \<not> isAdLike q (cleanNode q m) \<and> noEventAttr (cleanNode q m)"
  by (simp add: removable_def)

lemma cleanForest_nodes_clean:
  "list_all (\<lambda>n. \<not> isScriptLike n \<and> \<not> isAdLike q n \<and> noEventAttr n)
     (concat (map nodesOf (map (cleanNode q) (filter (\<lambda>n. \<not> removable q n) ns))))"
proof -
  let ?K = "concat (map (kept (removable q)) ns)"
  have "\<not> isScriptLike (cleanNode q m) \<and> \<not> isAdLike q (cleanNode q m)
      \<and> noEventAttr (cleanNode q m)" if "m \<in> set ?K" for m
  proof -
    from that obtain n where "m \<in> set (kept (removable q) n)" by auto
    then have "\<not> removable q m" by (rule kept_not_removable)
    then show ?thesis by (rule cleanNode_stays_clean)
  qed
  then have "list_all (\<lambda>n. \<not> isScriptLike n \<and> \<not> isAdLike q n \<and> noEventAttr n)
      (map (cleanNode q) ?K)"
    unfolding list_all_iff by auto
  then show ?thesis
    by (simp only: nodesOf_cleanForest)
qed

lemma self_in_nodesOf: "n \<in> set (nodesOf n)"
  by (cases n) simp_all

lemma cleanNode_untouched:
  "list_all (\<lambda>n. \<not> removable q n) (nodesOf p) \<Longrightarrow> cleanNode q p = stripEvents p"
proof (induction p)
  case (Element tg as cs)
  have all: "\<forall>c \<in> set cs. list_all (\<lambda>n. \<not> removable q n) (nodesOf c)"
    using Element.prems by (auto simp: list_all_iff)
  then have "\<forall>c \<in> set cs. \<not> removable q c"
    using self_in_nodesOf by (auto simp: list_all_iff)
  then have "filter (\<lambda>c. \<not> removable q c) cs = cs" by (simp add: filter_id_conv)
  moreover have "map (cleanNode q) cs = map stripEvents cs"
    using all Element.IH by simp
  ultimately show ?case by simp
next
  case (Template as cs)
  then show ?case by simp
next
  case (Text s)
  then show ?case by simp
next
  case (Comment s)
  then show ?case by simp
qed

lemma textContent_stripEvents [simp]: "textContent (stripEvents p) = textContent p"
  by (induction p) (simp_all add: comp_def cong: map_cong)

lemma fragment_cleaned:
  "bodyOf (cleanedDocument (fragmentDocument q hs bs))
     = Some (Element ''body'' [] (map (cleanNode q) (filter (\<lambda>n. \<not> removable q n) bs)))"
proof -
  have s: "\<not> isScriptLike (Element ''html'' [] cs)" "\<not> isScriptLike (Element ''head'' [] cs)"
    "\<not> isScriptLike (Element ''body'' [] cs)" for cs
    by (simp_all add: isScriptLike_def)
  have a: "\<not> isAdLike q (Element tg [] cs)" for tg cs
    by (simp add: isAdLike_def classMatches_def)
  have "cleanedDocument (fragmentDocument q hs bs)
      = Some (cleanNode q (Element ''html'' [] [Element ''head'' [] hs, Element ''body'' [] bs]))"
    using s a by (simp add: cleanedDocument_def fragmentDocument_def removeAll_def cleanNode_def)
  then show ?thesis
    using s a by (simp add: removable_def)
qed

text \<open>
  What the three passes do achieve, on every fragment: the markup returned is the
  serialisation of the fragment's nodes after the passes; among these nodes and their
  descendants in the document there is no \<open>script\<close>, \<open>style\<close>, \<open>iframe\<close> or
  \<open>noscript\<close> element, no element matching one of the ad, share, related or
  post-navigation selectors, and no attribute whose name begins with "on" in any letter
  case; they are, in document order, the cleaned images of the input nodes that lie in
  no removed subtree; a node that holds nothing to remove, such as an unrelated
  paragraph, loses its event attributes only, and its text is unchanged. The content of
  a template is returned as it came.
\<close>

lemma cleanHtmlContent_reached_nodes:
  assumes "parseDom rawHtml = fragmentDocument q hs bs"
  shows "ext_cleanHtmlContent parseDom innerHTML rawHtml
     = innerHTML (map (cleanNode q) (filter (\<lambda>n. \<not> removable q n) bs))
   \<and> list_all (\<lambda>n. \<not> isScriptLike n \<and> \<not> isAdLike q n \<and> noEventAttr n)
        (concat (map nodesOf (map (cleanNode q) (filter (\<lambda>n. \<not> removable q n) bs))))
   \<and> concat (map nodesOf (map (cleanNode q) (filter (\<lambda>n. \<not> removable q n) bs)))
        = map (cleanNode q) (concat (map (kept (removable q)) bs))
   \<and> (list_all (\<lambda>n. \<not> removable q n) (nodesOf p) \<longrightarrow>
        cleanNode q p = stripEvents p \<and> textContent (cleanNode q p) = textContent p)
   \<and> templateContent (cleanNode q (Template as cs)) = cs"
  using cleanForest_nodes_clean [of q bs] nodesOf_cleanForest [of q bs]
    cleanNode_untouched [of q p] assms
  by (simp add: ext_cleanHtmlContent_def fragment_cleaned)

lemma sampleFragment_cleaned:
  "map (cleanNode q) (filter (\<lambda>n. \<not> removable q n) sampleFragment)
     = [Element ''p'' [(''id'', ''first'')] [Text ''Hello '', Element ''b'' [] [Text ''world'']]]"
  by (cases q)
     (simp_all add: sampleFragment_def removable_def isScriptLike_def isAdLike_def
        classMatches_def classTokens_def htmlSpace_def asciiLower_def isEventAttr_def)

lemma cleanHtmlContent_sample:
  "ext_cleanHtmlContent (refParseDom [(''sample'', sampleFragment)]) refInnerHTML ''sample''
     = ''<p id='' @ [CHR 0x22] @ ''first'' @ [CHR 0x22] @ ''>Hello <b>world</b></p>''"
  using cleanHtmlContent_reached_nodes
          [of "refParseDom [(''sample'', sampleFragment)]" "''sample''" True "[]" sampleFragment
              refInnerHTML]
  by (simp add: refParseDom_def sampleFragment_cleaned refInnerHTML_def attrMarkup_def)

text \<open>
  The \<open>rawHtml\<close> branch of the last line is dead for a fragment. It is taken when the
  input is a whole document whose \<open>body\<close> (or \<open>html\<close>) element itself matches one
  of the class selectors: the element is removed, \<open>doc.body\<close> is null, and the input
  comes back as it was.
\<close>

lemma cleanHtmlContent_body_removed:
  "ext_cleanHtmlContent
     (\<lambda>raw. \<lparr>dom_quirks = q,
              dom_root = Some (Element ''html'' []
                [Element ''head'' [] [],
                 Element ''body'' [(''class'', ''share'')]
                   [Element ''script'' [] [Text ''track()'']]])\<rparr>)
     innerHTML rawHtml = rawHtml"
  by (cases q)
     (simp_all add: ext_cleanHtmlContent_def cleanedDocument_def removeAll_def isScriptLike_def
        isAdLike_def classMatches_def classTokens_def htmlSpace_def asciiLower_def)

lemma templateFragment_markup: "refInnerHTML templateFragment = templateMarkup"
  by (simp add: refInnerHTML_def templateFragment_def templateMarkup_def attrMarkup_def)

lemma templateFragment_cleaned:
  "map (cleanNode True) (filter (\<lambda>n. \<not> removable True n) templateFragment) = templateFragment"
  by (simp add: templateFragment_def removable_def isScriptLike_def isAdLike_def
      classMatches_def)

text \<open>
  C9. The claim is that the output of \<open>cleanHtmlContent\<close> holds no \<open>script\<close> node and
  no attribute whose name begins with "on", for every input fragment. The three passes
  work through \<open>querySelectorAll\<close>, which does not look into the content of a
  \<open>template\<close> element, and the result is read through \<open>innerHTML\<close>, which
  serialises that content: a fragment with a script and a click handler inside a
  template comes back as it was, the script and the handler in it.
\<close>

theorem cleanHtmlContent_keeps_template_content:
  "ext_cleanHtmlContent (refParseDom [(templateMarkup, templateFragment)]) refInnerHTML
       templateMarkup
     = templateMarkup
   \<and> bodyOf (cleanedDocument (refParseDom [(templateMarkup, templateFragment)] templateMarkup))
       = Some (Element ''body'' [] templateFragment)
   \<and> Element ''script'' [] [Text ''track()'']
       \<in> set (concat (map markupNodes templateFragment))
   \<and> isScriptLike (Element ''script'' [] [Text ''track()''])
   \<and> Element ''p'' [(''onclick'', ''go()'')] [Text ''Hidden'']
       \<in> set (concat (map markupNodes templateFragment))
   \<and> \<not> noEventAttr (Element ''p'' [(''onclick'', ''go()'')] [Text ''Hidden''])
   \<and> str_includes templateMarkup ''<script>''
   \<and> str_includes templateMarkup ''onclick''"
proof -
  have b: "bodyOf (cleanedDocument (refParseDom [(templateMarkup, templateFragment)] templateMarkup))
       = Some (Element ''body'' [] templateFragment)"
    by (simp add: refParseDom_def fragment_cleaned templateFragment_cleaned)
  have a: "ext_cleanHtmlContent (refParseDom [(templateMarkup, templateFragment)]) refInnerHTML
       templateMarkup = templateMarkup"
    by (simp add: ext_cleanHtmlContent_def b templateFragment_markup)
  have c: "Element ''script'' [] [Text ''track()'']
       \<in> set (concat (map markupNodes templateFragment))"
    "Element ''p'' [(''onclick'', ''go()'')] [Text ''Hidden'']
       \<in> set (concat (map markupNodes templateFragment))"
    by (simp_all add: templateFragment_def)
  have d: "isScriptLike (Element ''script'' [] [Text ''track()''])"
    "\<not> noEventAttr (Element ''p'' [(''onclick'', ''go()'')] [Text ''Hidden''])"
    by (simp_all add: isScriptLike_def isEventAttr_def)
  have e: "str_includes templateMarkup ''<script>''" "str_includes templateMarkup ''onclick''"
    by (simp_all add: templateMarkup_def)
  from a b c d e show ?thesis by simp
qed

section \<open>Listing extraction: where duplicates are dropped\<close>

lemma dedupe_append: "dedupe xs acc seen = acc @ dedupe xs [] seen"
proof (induction xs arbitrary: acc seen)
  case Nil
  then show ?case by simp
next
  case (Cons x xs)
  show ?case
  proof (cases "ei_url x \<in> seen")
    case True
    then show ?thesis using Cons.IH [of acc seen] by simp
  next
    case False
    then show ?thesis
      using Cons.IH [of "acc @ [x]" "insert (ei_url x) seen"]
        Cons.IH [of "[x]" "insert (ei_url x) seen"]
      by simp
  qed
qed

lemma dedupe_Cons:
  "dedupe (x # xs) [] seen =
     (if ei_url x \<in> seen then dedupe xs [] seen
      else x # dedupe xs [] (insert (ei_url x) seen))"
  using dedupe_append [of xs "[x]" "insert (ei_url x) seen"] by simp

lemma dedupe_unseen: "y \<in> set (dedupe xs [] seen) \<Longrightarrow> ei_url y \<notin> seen \<and> y \<in> set xs"
proof (induction xs arbitrary: seen)
  case Nil
  then show ?case by simp
next
  case (Cons x xs)
  then show ?case
    by (auto simp: dedupe_Cons simp del: dedupe.simps(2) split: if_splits)
qed

lemma dedupe_distinct: "distinct (map ei_url (dedupe xs [] seen))"
proof (induction xs arbitrary: seen)
  case Nil
  then show ?case by simp
next
  case (Cons x xs)
  show ?case
  proof (cases "ei_url x \<in> seen")
    case True
    then show ?thesis using Cons.IH by (simp add: dedupe_Cons del: dedupe.simps(2))
  next
    case False
    have "ei_url x \<notin> ei_url ` set (dedupe xs [] (insert (ei_url x) seen))"
    proof
      assume "ei_url x \<in> ei_url ` set (dedupe xs [] (insert (ei_url x) seen))"
      then obtain y where "y \<in> set (dedupe xs [] (insert (ei_url x) seen))"
        and "ei_url y = ei_url x" by auto
      then show False using dedupe_unseen [of y xs "insert (ei_url x) seen"] by simp
    qed
    then show ?thesis using False Cons.IH by (simp add: dedupe_Cons del: dedupe.simps(2))
  qed
qed

lemma dedupe_subseq: "subseq (dedupe xs [] seen) xs"
  by (induction xs arbitrary: seen) (auto simp: dedupe_Cons simp del: dedupe.simps(2))

lemma dedupe_covers:
  "x \<in> set xs \<Longrightarrow> ei_url x \<notin> seen \<Longrightarrow> ei_url x \<in> ei_url ` set (dedupe xs [] seen)"
proof (induction xs arbitrary: seen)
  case Nil
  then show ?case by simp
next
  case (Cons y ys)
  show ?case
  proof (cases "ei_url y \<in> seen")
    case True
    then have "x \<noteq> y" using Cons.prems by auto
    then show ?thesis using True Cons by (simp add: dedupe_Cons del: dedupe.simps(2))
  next
    case False
    show ?thesis
    proof (cases "ei_url x = ei_url y")
      case True
      then show ?thesis using False by (simp add: dedupe_Cons del: dedupe.simps(2))
    next
      case neq: False
      then have "x \<in> set ys" "ei_url x \<notin> insert (ei_url y) seen"
        using Cons.prems by auto
      then have "ei_url x \<in> ei_url ` set (dedupe ys [] (insert (ei_url y) seen))"
        by (rule Cons.IH)
      then show ?thesis using False by (simp add: dedupe_Cons del: dedupe.simps(2))
    qed
  qed
qed

lemma dedupe_first:
  "y \<in> set (dedupe xs [] seen) \<Longrightarrow> find (\<lambda>x. ei_url x = ei_url y) xs = Some y"
proof (induction xs arbitrary: seen)
  case Nil
  then show ?case by simp
next
  case (Cons x xs)
  show ?case
  proof (cases "ei_url x \<in> seen")
    case True
    then have y: "y \<in> set (dedupe xs [] seen)" using Cons.prems by (simp add: dedupe_Cons del: dedupe.simps(2))
    then have "ei_url y \<notin> seen" using dedupe_unseen by blast
    then have "ei_url x \<noteq> ei_url y" using True by auto
    then show ?thesis using Cons.IH [OF y] by simp
  next
    case False
    then consider "y = x" | "y \<in> set (dedupe xs [] (insert (ei_url x) seen))"
      using Cons.prems by (auto simp: dedupe_Cons simp del: dedupe.simps(2))
    then show ?thesis
    proof cases
      case 1
      then show ?thesis by simp
    next
      case 2
      then have "ei_url y \<notin> insert (ei_url x) seen" using dedupe_unseen by blast
      then have "ei_url x \<noteq> ei_url y" by auto
      then show ?thesis using Cons.IH [OF 2] by simp
    qed
  qed
qed

text \<open>
  \<open>getPopular\<close> of the class variant does deduplicate: its results are the extracted
  entries with, for every url, the first entry kept, in the order of extraction.
\<close>

lemma ext_getPopular_deduplicated:
  assumes "ext_getPopular env page = Inr r"
  shows "\<exists>list. el_results r = dedupe list [] {}
           \<and> distinct (map ei_url (el_results r))
           \<and> subseq (el_results r) list
           \<and> ei_url ` set (el_results r) = ei_url ` set list
           \<and> (\<forall>y \<in> set (el_results r). find (\<lambda>x. ei_url x = ei_url y) list = Some y)"
proof -
  from assms obtain list where r: "el_results r = dedupe list [] {}"
    by (auto simp: ext_getPopular_def Let_def split: option.splits)
  have "ei_url ` set (dedupe list [] {}) = ei_url ` set list"
    using dedupe_unseen [of _ list "{}"] dedupe_covers [of _ list "{}"] by auto
  then show ?thesis
    using r dedupe_distinct [of list "{}"] dedupe_subseq [of list "{}"] dedupe_first [of _ list "{}"]
    by auto
qed

text \<open>
  So does the anchor fallback of \<open>parseListFromDoc\<close> in the runtime variant.
\<close>

lemma anchorLoop_distinct:
  "distinct (map it_url out) \<Longrightarrow> it_url ` set out \<subseteq> seen \<Longrightarrow>
   distinct (map it_url (anchorLoop env as seen out))"
proof (induction as arbitrary: seen out)
  case Nil
  then show ?case by simp
next
  case (Cons a as)
  show ?case
  proof (cases "truthy (toAbsolute env (attr a ''href'')) \<and> truthy (cleanText (Some (nodeText a)))
      \<and> the (toAbsolute env (attr a ''href'')) \<notin> seen")
    case True
    let ?h = "the (toAbsolute env (attr a ''href''))"
    let ?it = "\<lparr>it_url = ?h, it_name = the (cleanText (Some (nodeText a))), it_link = ?h,
                it_cover = None, it_author = None\<rparr>"
    have "distinct (map it_url (out @ [?it]))" "it_url ` set (out @ [?it]) \<subseteq> insert ?h seen"
      using Cons.prems True by auto
    then have "distinct (map it_url (anchorLoop env as (insert ?h seen) (out @ [?it])))"
      by (rule Cons.IH)
    then show ?thesis using True by (simp add: Let_def)
  next
    case False
    then show ?thesis using Cons by (auto simp: Let_def)
  qed
qed

section \<open>Image URL normalizer: idempotence away from blank sources\<close>

lemma last_dropWhile: "dropWhile P xs \<noteq> [] \<Longrightarrow> last (dropWhile P xs) = last xs"
  by (induction xs) (auto split: if_splits)

lemma trim_trimmed:
  assumes "trim s \<noteq> []"
  shows "\<not> isSpace (hd (trim s)) \<and> \<not> isSpace (last (trim s))"
proof -
  let ?a = "dropWhile isSpace s"
  let ?b = "dropWhile isSpace (rev ?a)"
  have b: "?b \<noteq> []" using assms by (simp add: trim_def)
  have a: "?a \<noteq> []"
  proof
    assume "?a = []"
    then have "?b = []" by (simp only: rev.simps dropWhile.simps)
    with b show False by (simp only:)
  qed
  have "\<not> isSpace (hd ?b)" using b by (rule hd_dropWhile)
  then have l: "\<not> isSpace (last (trim s))" using b by (simp add: trim_def last_rev)
  have "\<not> isSpace (hd ?a)" using a by (rule hd_dropWhile)
  moreover have "hd (trim s) = last ?b" using b by (simp add: trim_def hd_rev)
  moreover have "last ?b = last (rev ?a)" using b by (rule last_dropWhile)
  moreover have "last (rev ?a) = hd ?a" using a by (simp add: last_rev)
  ultimately show ?thesis using l by simp
qed

lemma startsWith_hd: "u \<noteq> [] \<Longrightarrow> hd u \<noteq> c \<Longrightarrow> \<not> startsWith u (c # r)"
  by (cases u) (simp_all add: startsWith_def)

text \<open>the string before parsing: trimmed, then given a scheme or the origin\<close>

lemma prefixed_shape:
  assumes "t \<noteq> []" "\<not> isSpace (hd t)" "\<not> isSpace (last t)"
  shows "(let u = (if startsWith t ''//'' then ''https:'' @ t else t);
              u = (if startsWith u ''/'' then stripTrailingSlash BASE @ u else u)
          in u \<noteq> [] \<and> \<not> isSpace (hd u) \<and> \<not> isSpace (last u) \<and> hd u \<noteq> CHR ''/'')"
proof (cases "startsWith t ''//''")
  case True
  then show ?thesis using assms
    by (simp add: Let_def startsWith_def isSpace_def)
next
  case False
  show ?thesis
  proof (cases "startsWith t ''/''")
    case True
    then show ?thesis using assms False
      by (simp add: Let_def stripTrailingSlash_def BASE_def isSpace_def)
  next
    case nf: False
    then have "hd t \<noteq> CHR ''/''" using assms(1) by (cases t) (simp_all add: startsWith_def)
    then show ?thesis using assms False nf by (simp add: Let_def)
  qed
qed


text \<open>
  Away from blank sources the normalizer is idempotent, given a \<open>URL\<close> class that is
  stable on its own serialisations; the reference environment's is.
\<close>

lemma fixImageUrl_idempotent:
  assumes st: "urlStable env" and ne: "trim raw \<noteq> []"
  shows "fixImageUrl env (fixImageUrl env (Some raw)) = fixImageUrl env (Some raw)"
proof -
  define u where "u = (let u = (if startsWith (trim raw) ''//'' then ''https:'' @ trim raw else trim raw)
                        in if startsWith u ''/'' then stripTrailingSlash BASE @ u else u)"
  have raw: "raw \<noteq> []" using ne by (auto simp: trim_def)
  have shape: "u \<noteq> [] \<and> \<not> isSpace (hd u) \<and> \<not> isSpace (last u) \<and> hd u \<noteq> CHR ''/''"
    using prefixed_shape [OF ne] trim_trimmed [OF ne] by (simp add: u_def Let_def)
  have first: "fixImageUrl env (Some raw) =
      (case newURL env u None of
         Inr parsed \<Rightarrow> if url_search parsed \<noteq> [] \<and> length (url_search parsed) > 80
                        then Some (url_hrefNoSearch parsed) else Some (url_href parsed)
       | Inl e \<Rightarrow> Some u)"
    using raw unfolding fixImageUrl_def u_def Let_def
    by (auto simp: startsWith_def split: sum.splits)
  have again: "fixImageUrl env (Some h) =
      (case newURL env h None of
         Inr parsed \<Rightarrow> if url_search parsed \<noteq> [] \<and> length (url_search parsed) > 80
                        then Some (url_hrefNoSearch parsed) else Some (url_href parsed)
       | Inl e \<Rightarrow> Some h)"
    if "h \<noteq> []" "\<not> isSpace (hd h)" "\<not> isSpace (last h)" "hd h \<noteq> CHR ''/''" for h
    using that startsWith_hd [of h "CHR ''/''"]
    by (simp add: fixImageUrl_def trim_ends Let_def split: sum.splits)
  show ?thesis
  proof (cases "newURL env u None")
    case (Inl e)
    then show ?thesis using first again [of u] shape by simp
  next
    case (Inr p)
    have r1: "reparses env (url_href p) (url_search p) (url_searchParams p) (url_hrefNoSearch p)"
      and r2: "reparses env (url_hrefNoSearch p) [] [] (url_hrefNoSearch p)"
      using st Inr unfolding urlStable_def by blast+
    show ?thesis
    proof (cases "url_search p \<noteq> [] \<and> length (url_search p) > 80")
      case True
      then have f: "fixImageUrl env (Some raw) = Some (url_hrefNoSearch p)"
        using first Inr by simp
      from r2 show ?thesis
        unfolding f using again [of "url_hrefNoSearch p"]
        by (auto simp: reparses_def split: sum.splits)
    next
      case False
      then have f: "fixImageUrl env (Some raw) = Some (url_href p)"
        using first Inr by auto
      from r1 False show ?thesis
        unfolding f using again [of "url_href p"]
        by (auto simp: reparses_def split: sum.splits)
    qed
  qed
qed


lemma ext_prefixed_shape:
  assumes "t \<noteq> []" "\<not> isSpace (hd t)" "\<not> isSpace (last t)"
  shows "(let u = (if startsWith t ''//'' then ''https://'' @ dropWhile (\<lambda>c. c = CHR ''/'') t else t);
              u = (if startsWith u ''/'' then stripTrailingSlash BASE @ u else u)
          in u \<noteq> [] \<and> \<not> isSpace (hd u) \<and> \<not> isSpace (last u) \<and> hd u \<noteq> CHR ''/'')"
proof (cases "startsWith t ''//''")
  case True
  show ?thesis
  proof (cases "dropWhile (\<lambda>c. c = CHR ''/'') t = []")
    case e: True
    then show ?thesis using True by (simp add: Let_def startsWith_def isSpace_def)
  next
    case ne: False
    then have "last (dropWhile (\<lambda>c. c = CHR ''/'') t) = last t" by (rule last_dropWhile)
    then show ?thesis using True ne assms by (simp add: Let_def startsWith_def isSpace_def)
  qed
next
  case False
  show ?thesis
  proof (cases "startsWith t ''/''")
    case True
    then show ?thesis using assms False
      by (simp add: Let_def stripTrailingSlash_def BASE_def isSpace_def)
  next
    case nf: False
    then have "hd t \<noteq> CHR ''/''" using assms(1) by (cases t) (simp_all add: startsWith_def)
    then show ?thesis using assms False nf by (simp add: Let_def)
  qed
qed

lemma ext_fixImageUrl_idempotent:
  assumes st: "urlStable env" and ne: "trim raw \<noteq> []"
  shows "ext_fixImageUrl env (ext_fixImageUrl env (Some raw)) = ext_fixImageUrl env (Some raw)"
proof -
  define u where "u = (let u = (if startsWith (trim raw) ''//''
                                 then ''https://'' @ dropWhile (\<lambda>c. c = CHR ''/'') (trim raw)
                                 else trim raw)
                        in if startsWith u ''/'' then stripTrailingSlash BASE @ u else u)"
  have raw: "raw \<noteq> []" using ne by (auto simp: trim_def)
  have shape: "u \<noteq> [] \<and> \<not> isSpace (hd u) \<and> \<not> isSpace (last u) \<and> hd u \<noteq> CHR ''/''"
    using ext_prefixed_shape [OF ne] trim_trimmed [OF ne] by (simp add: u_def Let_def)
  have first: "ext_fixImageUrl env (Some raw) =
      (case newURL env u None of
         Inr parsed \<Rightarrow> if length (url_searchParams parsed) > 40
                        then Some (url_hrefNoSearch parsed) else Some (url_href parsed)
       | Inl e \<Rightarrow> Some u)"
    using raw unfolding ext_fixImageUrl_def u_def Let_def
    by (auto simp: startsWith_def split: sum.splits)
  have again: "ext_fixImageUrl env (Some h) =
      (case newURL env h None of
         Inr parsed \<Rightarrow> if length (url_searchParams parsed) > 40
                        then Some (url_hrefNoSearch parsed) else Some (url_href parsed)
       | Inl e \<Rightarrow> Some h)"
    if "h \<noteq> []" "\<not> isSpace (hd h)" "\<not> isSpace (last h)" "hd h \<noteq> CHR ''/''" for h
    using that startsWith_hd [of h "CHR ''/''"]
    by (simp add: ext_fixImageUrl_def trim_ends Let_def split: sum.splits)
  show ?thesis
  proof (cases "newURL env u None")
    case (Inl e)
    then show ?thesis using first again [of u] shape by simp
  next
    case (Inr p)
    have r1: "reparses env (url_href p) (url_search p) (url_searchParams p) (url_hrefNoSearch p)"
      and r2: "reparses env (url_hrefNoSearch p) [] [] (url_hrefNoSearch p)"
      using st Inr unfolding urlStable_def by blast+
    show ?thesis
    proof (cases "length (url_searchParams p) > 40")
      case True
      then have f: "ext_fixImageUrl env (Some raw) = Some (url_hrefNoSearch p)"
        using first Inr by simp
      from r2 show ?thesis
        unfolding f using again [of "url_hrefNoSearch p"]
        by (auto simp: reparses_def split: sum.splits)
    next
      case False
      then have f: "ext_fixImageUrl env (Some raw) = Some (url_href p)"
        using first Inr by auto
      from r1 False show ?thesis
        unfolding f using again [of "url_href p"]
        by (auto simp: reparses_def split: sum.splits)
    qed
  qed
qed

lemma fixImageUrl_idempotent_null:
  "fixImageUrl env (fixImageUrl env None) = fixImageUrl env None
   \<and> fixImageUrl env (fixImageUrl env (Some [])) = fixImageUrl env (Some [])
   \<and> ext_fixImageUrl env (ext_fixImageUrl env None) = ext_fixImageUrl env None
   \<and> ext_fixImageUrl env (ext_fixImageUrl env (Some [])) = ext_fixImageUrl env (Some [])"
  by (simp add: fixImageUrl_def ext_fixImageUrl_def)

lemma takeWhile_upto: "c \<notin> set r \<Longrightarrow> takeWhile (\<lambda>x. x \<noteq> c) (r @ c # t) = r"
  by (induction r) auto

lemma dropWhile_upto: "c \<notin> set r \<Longrightarrow> dropWhile (\<lambda>x. x \<noteq> c) (r @ c # t) = c # t"
  by (induction r) auto

lemma plainUrl_shape:
  assumes "plainUrl s"
  shows "plainHref s \<noteq> [] \<and> hd (plainHref s) = CHR ''h'' \<and> \<not> isSpace (last (plainHref s))
         \<and> plainUrl (plainHref s) \<and> plainHref (plainHref s) = plainHref s"
proof -
  obtain r where s: "s = ''https://'' @ r" using assms by (auto simp: plainUrl_def prefix_def)
  let ?host = "takeWhile (\<lambda>c. c \<noteq> CHR ''/'') r"
  let ?path = "dropWhile (\<lambda>c. c \<noteq> CHR ''/'') r"
  have r: "r = ?host @ ?path" by simp
  have h: "?host \<noteq> []" "list_all hostChar ?host" "list_all pathChar ?path"
    "\<not> str_includes ?path ''/.''"
    using assms s by (simp_all add: plainUrl_def Let_def)
  show ?thesis
  proof (cases "?path = []")
    case True
    have rh: "?host = r" using r True by (metis append_Nil2)
    have "\<forall>x \<in> set r. x \<noteq> CHR ''/''"
      using True unfolding dropWhile_eq_Nil_conv .
    then have nh: "CHR ''/'' \<notin> set r" by blast
    have tw: "takeWhile (\<lambda>c. c \<noteq> CHR ''/'') (r @ ''/'') = r"
      using nh by (rule takeWhile_upto)
    have dw: "dropWhile (\<lambda>c. c \<noteq> CHR ''/'') (r @ ''/'') = ''/''"
      using nh by (rule dropWhile_upto)
    have "plainHref s = s @ ''/''" using True s by (simp add: plainHref_def)
    moreover have "plainUrl (s @ ''/'')"
      using s h rh tw dw by (simp add: plainUrl_def Let_def pathChar_def)
    moreover have "plainHref (s @ ''/'') = s @ ''/''"
      using s dw by (simp add: plainHref_def)
    ultimately show ?thesis using s by (simp add: isSpace_def)
  next
    case False
    then have ph: "plainHref s = s" using s by (simp add: plainHref_def)
    have lp: "last ?path = last r" using False by (rule last_dropWhile)
    have "r \<noteq> []" using False by auto
    then have ls: "last s = last r" using s by simp
    have "pathChar (last ?path)"
      using False h(3) by (simp add: list_all_iff)
    then have "pathChar (last s)" using lp ls by simp
    then have "last s \<noteq> CHR '' ''" "last s \<noteq> CHR 0x09" "last s \<noteq> CHR 0x0A"
      "last s \<noteq> CHR 0x0B" "last s \<noteq> CHR 0x0C" "last s \<noteq> CHR 0x0D" "last s \<noteq> CHR 0xA0"
      by (auto simp: pathChar_def)
    then have "\<not> isSpace (last s)" by (simp add: isSpace_def)
    then show ?thesis using ph assms s by simp
  qed
qed

lemma refURL_Inr:
  assumes "refURL s b = Inr p"
  shows "\<exists>x. plainUrl x \<and> p = plainParsed x"
proof (cases "plainUrl s")
  case True
  then show ?thesis using assms by (auto simp: refURL_def)
next
  case False
  then obtain a where b: "b = Some a" and a: "plainUrl a"
    using assms by (cases b; cases "plainUrl (the b)") (simp_all add: refURL_def)
  show ?thesis
  proof (cases "s = []")
    case True
    then show ?thesis using assms False a b by (auto simp: refURL_def)
  next
    case ne: False
    define cand where "cand =
      (let origin = ''https://'' @ takeWhile (\<lambda>c. c \<noteq> CHR ''/'') (drop 8 a);
           dir = rev (dropWhile (\<lambda>c. c \<noteq> CHR ''/'') (rev (plainHref a)))
       in if prefix ''//'' s \<or> prefix [CHR ''/'', CHR 0x5C] s then ''https://'' @ drop 2 s
          else if prefix ''/'' s then origin @ s else dir @ s)"
    have "refURL s b = (if plainUrl cand then Inr (plainParsed cand) else Inl TypeError)"
      using False a b ne unfolding cand_def refURL_def Let_def by simp
    then show ?thesis using assms by (cases "plainUrl cand") auto
  qed
qed

lemma refURL_stable: "newURL env = refURL \<Longrightarrow> urlStable env"
proof -
  assume e: "newURL env = refURL"
  have "reparses env (plainHref s) [] [] (plainHref s)" if "plainUrl s" for s
    using plainUrl_shape [OF that] e
    by (simp add: reparses_def refURL_def plainParsed_def isSpace_def)
  then show ?thesis
    unfolding urlStable_def e using refURL_Inr by (fastforce simp: plainParsed_def)
qed

section \<open>Chapter pages: the entries\<close>

lemma fixImageUrl_serialised:
  assumes "h \<noteq> []" "\<not> isSpace (hd h)" "\<not> isSpace (last h)" "hd h \<noteq> CHR ''/''"
  shows "fixImageUrl env (Some h) =
      (case newURL env h None of
         Inr parsed \<Rightarrow> if url_search parsed \<noteq> [] \<and> length (url_search parsed) > 80
                        then Some (url_hrefNoSearch parsed) else Some (url_href parsed)
       | Inl e \<Rightarrow> Some h)"
  using assms startsWith_hd [of h "CHR ''/''"]
  by (simp add: fixImageUrl_def trim_ends Let_def split: sum.splits)

lemma imagePage_resolved:
  assumes st: "urlStable env" and s: "s \<noteq> []"
    and p: "newURL env s (Some ''https://allnovel.org'') = Inr p"
  shows "fixImageUrl env (toAbsolute env (Some s)) = Some (withoutLongQuery p)
         \<and> withoutLongQuery p \<noteq> []"
proof -
  have r1: "reparses env (url_href p) (url_search p) (url_searchParams p) (url_hrefNoSearch p)"
    and r2: "reparses env (url_hrefNoSearch p) [] [] (url_hrefNoSearch p)"
    using st p unfolding urlStable_def by blast+
  have t: "toAbsolute env (Some s) = Some (url_href p)"
    using s p by (simp add: toAbsolute_def BASE_def)
  have shape: "url_href p \<noteq> []" "\<not> isSpace (hd (url_href p))" "\<not> isSpace (last (url_href p))"
    "hd (url_href p) \<noteq> CHR ''/''"
    using r1 by (simp_all add: reparses_def)
  obtain p' where p': "newURL env (url_href p) None = Inr p'"
    and same: "url_href p' = url_href p" "url_search p' = url_search p"
      "url_hrefNoSearch p' = url_hrefNoSearch p"
    using r1 by (auto simp: reparses_def split: sum.splits)
  have "fixImageUrl env (Some (url_href p)) = Some (withoutLongQuery p)"
    using fixImageUrl_serialised [OF shape, of env] p' same
    by (simp add: withoutLongQuery_def)
  moreover have "url_hrefNoSearch p \<noteq> []" using r2 by (simp add: reparses_def)
  ultimately show ?thesis using t shape(1) by (simp add: withoutLongQuery_def)
qed

lemma imagePage_no_source: "\<not> truthy (srcOf img) \<Longrightarrow> imagePage env img = None"
  by (simp add: imagePage_def toAbsolute_def fixImageUrl_def)

lemma imagePages_resolved:
  assumes st: "urlStable env"
    and res: "\<forall>img \<in> set imgs. truthy (srcOf img) \<longrightarrow>
                \<not> isl (newURL env (the (srcOf img)) (Some ''https://allnovel.org''))"
  shows "map the (filter truthy (map (imagePage env) imgs))
           = map (\<lambda>img. withoutLongQuery
                          (projr (newURL env (the (srcOf img)) (Some ''https://allnovel.org''))))
               (filter (\<lambda>img. truthy (srcOf img)) imgs)"
  using res
proof (induction imgs)
  case Nil
  then show ?case by simp
next
  case (Cons img imgs)
  have ih: "map the (filter truthy (map (imagePage env) imgs))
           = map (\<lambda>img. withoutLongQuery
                          (projr (newURL env (the (srcOf img)) (Some ''https://allnovel.org''))))
               (filter (\<lambda>img. truthy (srcOf img)) imgs)"
    using Cons by simp
  show ?case
  proof (cases "truthy (srcOf img)")
    case False
    then show ?thesis using ih imagePage_no_source [OF False, of env] by simp
  next
    case True
    then obtain s where s: "srcOf img = Some s" "s \<noteq> []"
      by (cases "srcOf img") (simp_all add: truthy_def)
    from Cons.prems True obtain p
      where p: "newURL env s (Some ''https://allnovel.org'') = Inr p"
      using s by (cases "newURL env s (Some ''https://allnovel.org'')") auto
    have "imagePage env img = Some (withoutLongQuery p)" "withoutLongQuery p \<noteq> []"
      using imagePage_resolved [OF st s(2) p] s by (simp_all add: imagePage_def)
    then show ?thesis using ih True s p by simp
  qed
qed


lemma longQuery_length: "length longQuery = 87"
  by (simp add: longQuery_def)

lemma longQuery_nonempty [simp]: "longQuery \<noteq> []" "[] \<noteq> longQuery"
  by (simp_all add: longQuery_def)

lemma last_longQuery: "last (''https://allnovel.org/img/c.jpg'' @ longQuery) = CHR ''a''"
  by (simp add: longQuery_def)

lemma queryURL_stable: "newURL env = queryURL \<Longrightarrow> urlStable env"
proof -
  assume e: "newURL env = queryURL"
  have a: "reparses env (''https://allnovel.org/img/c.jpg'' @ longQuery) longQuery
             (drop 1 longQuery) ''https://allnovel.org/img/c.jpg''"
    using last_longQuery by (simp add: reparses_def e queryURL_def isSpace_def)
  have b: "reparses env ''https://allnovel.org/img/c.jpg'' [] [] ''https://allnovel.org/img/c.jpg''"
    by (simp add: reparses_def e queryURL_def isSpace_def)
  show ?thesis
    unfolding urlStable_def e
  proof (intro allI impI)
    fix s b p
    assume "queryURL s b = Inr p"
    then consider
        "p = \<lparr>url_href = ''https://allnovel.org/img/c.jpg'' @ longQuery,
               url_search = longQuery, url_searchParams = drop 1 longQuery,
               url_hrefNoSearch = ''https://allnovel.org/img/c.jpg''\<rparr>"
      | "p = \<lparr>url_href = ''https://allnovel.org/img/c.jpg'', url_search = [],
               url_searchParams = [], url_hrefNoSearch = ''https://allnovel.org/img/c.jpg''\<rparr>"
      unfolding queryURL_def by (auto split: if_splits)
    then show "reparses env (url_href p) (url_search p) (url_searchParams p) (url_hrefNoSearch p)
        \<and> reparses env (url_hrefNoSearch p) [] [] (url_hrefNoSearch p)"
      using a b by cases simp_all
  qed
qed

lemma queryEnv_newURL [simp]: "newURL queryEnv = queryURL"
  by (simp add: queryEnv_def)

lemma queryEnv_toAbsolute: "toAbsolute queryEnv (Some workUrl) = Some workUrl"
  by (simp add: toAbsolute_def queryURL_def workUrl_def BASE_def)

lemma queryEnv_clientGet:
  "clientGet queryEnv (Some workUrl) = Inr \<lparr>res_ok = True, res_status = 200, res_body = ''page''\<rparr>"
  using pageEnv_clientGet [of longQueryPage] by (simp add: clientGet_def queryEnv_def)

lemma queryEnv_parse: "parse queryEnv ''page'' = \<lparr>doc_root = longQueryPage, doc_title = []\<rparr>"
  by (simp add: queryEnv_def)

lemma contentNodeOf_longQueryPage:
  "contentNodeOf longQueryPage =
     Some (nodeOf ''Page 1'' []
            [(''img'', [nodeOf [] [(''src'', ''/img/c.jpg'' @ longQuery)] [],
                        nodeOf [] [(''alt'', ''spacer'')] []])])"
  by (simp add: contentNodeOf_def contentSelectors_def longQueryPage_def trim_def isSpace_def)

lemma contentNodeOf_emptyNode: "contentNodeOf emptyNode = None"
  by (simp add: contentNodeOf_def contentSelectors_def emptyNode_def selectFirst_def
      select_def)


end
